theory Spec2Isabelle
  imports Main "HOL-Library.Word" "HOL-Library.Monad_Syntax"
begin

unbundle bit_operations_syntax

section \<open>Data model\<close>

text \<open>
  The development follows the shader cross-compilation library of
  \<^verbatim>\<open>src/unnamed/part_001\<close> (the translation unit that starts at line 1022 of that file)
  and, for the loader, also the earlier header-only unit of \<^verbatim>\<open>src/unnamed/part_002\<close>
  (starting at line 1653).  C pointers that may be \<^verbatim>\<open>NULL\<close> are options, \<^verbatim>\<open>unsigned int\<close>
  and \<^verbatim>\<open>Uint32\<close> are 32-bit words, \<^verbatim>\<open>size_t\<close> element counts are list lengths.
\<close>

type_synonym u32 = "32 word"
type_synonym bytes = "8 word list"
type_synonym SpvId = "32 word"

datatype SDL_ShaderCross_ShaderStage =
    SDL_SHADERCROSS_SHADERSTAGE_VERTEX
  | SDL_SHADERCROSS_SHADERSTAGE_FRAGMENT
  | SDL_SHADERCROSS_SHADERSTAGE_COMPUTE

datatype spvc_backend = SPVC_BACKEND_NONE | SPVC_BACKEND_HLSL | SPVC_BACKEND_MSL

datatype SpvExecutionModel =
    SpvExecutionModelVertex
  | SpvExecutionModelFragment
  | SpvExecutionModelKernel

datatype SpvDecoration = SpvDecorationDescriptorSet | SpvDecorationBinding

datatype spvc_resource_type =
    SPVC_RESOURCE_TYPE_SAMPLED_IMAGE
  | SPVC_RESOURCE_TYPE_SEPARATE_SAMPLERS
  | SPVC_RESOURCE_TYPE_STORAGE_IMAGE
  | SPVC_RESOURCE_TYPE_STORAGE_BUFFER
  | SPVC_RESOURCE_TYPE_UNIFORM_BUFFER

datatype spvc_compiler_option =
    SPVC_COMPILER_OPTION_HLSL_SHADER_MODEL
  | SPVC_COMPILER_OPTION_HLSL_NONWRITABLE_UAV_TEXTURE_AS_SRV
  | SPVC_COMPILER_OPTION_HLSL_FLATTEN_MATRIX_VERTEX_INPUT_SEMANTICS

text \<open>
  \<^verbatim>\<open>spvc_msl_resource_binding\<close>: the argument of \<^verbatim>\<open>spvc_compiler_msl_add_resource_binding\<close>.
  The three \<^verbatim>\<open>msl_*\<close> fields are the indices in Metal's three flat index spaces.
\<close>

record spvc_msl_resource_binding =
  stage :: SpvExecutionModel
  desc_set :: u32
  binding :: u32
  msl_buffer :: u32
  msl_texture :: u32
  msl_sampler :: u32

subsection \<open>SPIRV-Cross as an opaque service\<close>

text \<open>
  SPIRV-Cross is an external collaborator.  A \<open>spvc_compiler\<close> value collects the answers
  the library gives for one parsed module: whether each call succeeds
  (\<^verbatim>\<open>spvc_result\<close> not negative), the resource lists per type
  (\<open>None\<close> when \<^verbatim>\<open>spvc_resources_get_resource_list_for_type\<close> fails), the decorations, the
  compiled text as a function of the installed options and the registered Metal bindings,
  the cleansed entry point name and the arguments of the \<^verbatim>\<open>LocalSize\<close> execution mode.
\<close>

record spvc_compiler =
  create_compiler_options_ok :: bool
  create_shader_resources_ok :: bool
  get_resource_list_for_type :: "spvc_resource_type \<Rightarrow> SpvId list option"
  has_decoration :: "SpvId \<Rightarrow> SpvDecoration \<Rightarrow> bool"
  get_decoration :: "SpvId \<Rightarrow> SpvDecoration \<Rightarrow> u32"
  msl_add_resource_binding_ok :: "spvc_msl_resource_binding \<Rightarrow> bool"
  install_compiler_options_ok :: bool
  compiler_compile ::
    "(spvc_compiler_option \<times> u32) list \<Rightarrow> spvc_msl_resource_binding list \<Rightarrow> string option"
  get_cleansed_entry_point_name :: "string \<Rightarrow> string"
  get_execution_mode_argument_by_index :: "nat \<Rightarrow> u32"

record spvc_parsed_ir =
  context_create_compiler :: "spvc_backend \<Rightarrow> spvc_compiler option"

record spvc_api =
  context_create_ok :: bool
  context_parse_spirv :: "bytes \<Rightarrow> nat \<Rightarrow> spvc_parsed_ir option"

text \<open>
  The test that opens the loop bodies: a loop exits with an error when
  \<^verbatim>\<open>!has_decoration(.., DescriptorSet) || !has_decoration(.., Binding)\<close>, that is, when
  the following does not hold.
\<close>

definition has_set_and_binding :: "spvc_compiler \<Rightarrow> SpvId \<Rightarrow> bool" where
  "has_set_and_binding c r \<longleftrightarrow>
     has_decoration c r SpvDecorationDescriptorSet \<and> has_decoration c r SpvDecorationBinding"

definition descriptor_set_of :: "spvc_compiler \<Rightarrow> SpvId \<Rightarrow> u32" where
  "descriptor_set_of c r = get_decoration c r SpvDecorationDescriptorSet"

definition binding_of :: "spvc_compiler \<Rightarrow> SpvId \<Rightarrow> u32" where
  "binding_of c r = get_decoration c r SpvDecorationBinding"

section \<open>The MSL resource remapper\<close>

text \<open>
  \<^verbatim>\<open>SDL_ShaderCross_INTERNAL_TranspileFromSPIRV\<close> declares one
  \<^verbatim>\<open>spvc_msl_resource_binding binding;\<close> without initialising it and reuses it for every
  resource: each loop body overwrites \<^verbatim>\<open>stage\<close>, \<^verbatim>\<open>desc_set\<close>, \<^verbatim>\<open>binding\<close> and the
  \<^verbatim>\<open>msl_*\<close> field(s) of its kind and leaves the other fields as they were.  The state
  threaded through the loops is therefore the current contents of that struct together with
  the list of bindings registered so far, in call order.
\<close>

type_synonym remap_state = "spvc_msl_resource_binding \<times> spvc_msl_resource_binding list"

definition fill_binding ::
  "SpvExecutionModel \<Rightarrow> u32 \<Rightarrow> u32 \<Rightarrow> spvc_msl_resource_binding \<Rightarrow> spvc_msl_resource_binding"
where
  "fill_binding executionModel descriptor_set_index binding_index b =
     b\<lparr>stage := executionModel, desc_set := descriptor_set_index, binding := binding_index\<rparr>"

subsection \<open>Graphics stages (part\_001, lines 1957 to 2147)\<close>

text \<open>
  The four loops of the graphics block have one shape.  They differ in the descriptor sets
  they accept (\<open>allowed\<close>), in the Metal field they write (\<open>assign\<close>, a function of the
  binding index) and in whether the result of \<^verbatim>\<open>spvc_compiler_msl_add_resource_binding\<close> is
  stored in \<^verbatim>\<open>result\<close> before \<^verbatim>\<open>result < 0\<close> is tested (\<open>checked\<close>): only the
  texture-sampler loop stores it; in the other loops \<^verbatim>\<open>result\<close> still holds the
  non-negative value of the preceding list query, so the test never fires.
\<close>

fun graphics_loop ::
  "spvc_compiler \<Rightarrow> SpvExecutionModel \<Rightarrow> (u32 \<Rightarrow> bool) \<Rightarrow>
   (u32 \<Rightarrow> spvc_msl_resource_binding \<Rightarrow> spvc_msl_resource_binding) \<Rightarrow> bool \<Rightarrow>
   SpvId list \<Rightarrow> remap_state \<Rightarrow> remap_state option"
where
  "graphics_loop c em allowed assign checked [] s = Some s"
| "graphics_loop c em allowed assign checked (r # rs) (b, calls) =
     (if \<not> has_set_and_binding c r then None
      else let descriptor_set_index = descriptor_set_of c r in
        if \<not> allowed descriptor_set_index then None
        else let binding_index = binding_of c r;
                 b' = assign binding_index (fill_binding em descriptor_set_index binding_index b)
             in if checked \<and> \<not> msl_add_resource_binding_ok c b' then None
                else graphics_loop c em allowed assign checked rs (b', calls @ [b']))"

definition set_0_or_2 :: "u32 \<Rightarrow> bool" where
  "set_0_or_2 descriptor_set_index \<longleftrightarrow> descriptor_set_index = 0 \<or> descriptor_set_index = 2"

definition set_1_or_3 :: "u32 \<Rightarrow> bool" where
  "set_1_or_3 descriptor_set_index \<longleftrightarrow> descriptor_set_index = 1 \<or> descriptor_set_index = 3"

definition graphics_texture_samplers ::
  "spvc_compiler \<Rightarrow> SpvExecutionModel \<Rightarrow> SpvId list \<Rightarrow> remap_state \<Rightarrow> remap_state option"
where
  "graphics_texture_samplers c em =
     graphics_loop c em set_0_or_2
       (\<lambda>binding_index b. b\<lparr>msl_texture := binding_index, msl_sampler := binding_index\<rparr>) True"

definition graphics_storage_textures ::
  "spvc_compiler \<Rightarrow> SpvExecutionModel \<Rightarrow> nat \<Rightarrow> SpvId list \<Rightarrow> remap_state \<Rightarrow> remap_state option"
where
  "graphics_storage_textures c em num_texture_samplers =
     graphics_loop c em set_0_or_2
       (\<lambda>binding_index b. b\<lparr>msl_texture := of_nat num_texture_samplers + binding_index\<rparr>) False"

definition graphics_storage_buffers ::
  "spvc_compiler \<Rightarrow> SpvExecutionModel \<Rightarrow> SpvId list \<Rightarrow> remap_state \<Rightarrow> remap_state option"
where
  "graphics_storage_buffers c em =
     graphics_loop c em set_0_or_2 (\<lambda>binding_index b. b\<lparr>msl_buffer := binding_index\<rparr>) False"

definition graphics_uniform_buffers ::
  "spvc_compiler \<Rightarrow> SpvExecutionModel \<Rightarrow> nat \<Rightarrow> SpvId list \<Rightarrow> remap_state \<Rightarrow> remap_state option"
where
  "graphics_uniform_buffers c em num_storage_buffers =
     graphics_loop c em set_1_or_3
       (\<lambda>binding_index b. b\<lparr>msl_buffer := of_nat num_storage_buffers + binding_index\<rparr>) False"

text \<open>
  The list of combined texture-samplers: the sampled images, or, when there are none
  (``If source is HLSL, we might have separate images and samplers''), the separate samplers.
\<close>

definition texture_sampler_list :: "spvc_compiler \<Rightarrow> SpvId list option" where
  "texture_sampler_list c =
     (case get_resource_list_for_type c SPVC_RESOURCE_TYPE_SAMPLED_IMAGE of
        None \<Rightarrow> None
      | Some sampled \<Rightarrow>
          if length sampled = 0
          then get_resource_list_for_type c SPVC_RESOURCE_TYPE_SEPARATE_SAMPLERS
          else Some sampled)"

text \<open>
  The whole graphics block.  \<open>b0\<close> is the indeterminate initial contents of the
  \<^verbatim>\<open>binding\<close> struct.  \<open>None\<close> stands for the early \<^verbatim>\<open>return NULL\<close> (after
  \<^verbatim>\<open>spvc_context_destroy\<close>); otherwise the result is the list of registered bindings.
  Each step of the option monad is one call followed by its \<^verbatim>\<open>if (result < 0)\<close> exit.
\<close>

definition remap_graphics ::
  "spvc_compiler \<Rightarrow> SpvExecutionModel \<Rightarrow> spvc_msl_resource_binding \<Rightarrow>
   spvc_msl_resource_binding list option"
where
  "remap_graphics c em b0 =
     (if \<not> create_shader_resources_ok c then None
      else do {
        ts \<leftarrow> texture_sampler_list c;
        s1 \<leftarrow> graphics_texture_samplers c em ts (b0, []);
        sts \<leftarrow> get_resource_list_for_type c SPVC_RESOURCE_TYPE_STORAGE_IMAGE;
        s2 \<leftarrow> graphics_storage_textures c em (length ts) sts s1;
        sbs \<leftarrow> get_resource_list_for_type c SPVC_RESOURCE_TYPE_STORAGE_BUFFER;
        s3 \<leftarrow> graphics_storage_buffers c em sbs s2;
        ubs \<leftarrow> get_resource_list_for_type c SPVC_RESOURCE_TYPE_UNIFORM_BUFFER;
        s4 \<leftarrow> graphics_uniform_buffers c em (length sbs) ubs s3;
        Some (snd s4)
      })"

subsection \<open>Compute stage (part\_001, lines 2149 to 2403)\<close>

text \<open>
  The six loops of the compute block share one shape as well.  The counter \<open>n\<close> is
  \<^verbatim>\<open>num_textures\<close> in the three texture loops and \<^verbatim>\<open>num_buffers\<close> in the three buffer
  loops (both \<^verbatim>\<open>unsigned int\<close>, both starting at 0).  \<open>validate\<close> says whether the loop
  tests the decorations and the descriptor set (the two read-write loops test nothing:
  the read-only loop before them has already visited every element of the same list);
  \<open>selected\<close> is the negation of the \<^verbatim>\<open>continue\<close> condition; \<open>assign\<close> writes the Metal
  field from the counter and the binding index; \<open>checked\<close> is as in the graphics block.
\<close>

type_synonym compute_state =
  "spvc_msl_resource_binding \<times> spvc_msl_resource_binding list \<times> u32"

fun compute_loop ::
  "spvc_compiler \<Rightarrow> SpvExecutionModel \<Rightarrow> bool \<Rightarrow> (u32 \<Rightarrow> bool) \<Rightarrow> (u32 \<Rightarrow> bool) \<Rightarrow>
   (u32 \<Rightarrow> u32 \<Rightarrow> spvc_msl_resource_binding \<Rightarrow> spvc_msl_resource_binding) \<Rightarrow> bool \<Rightarrow>
   SpvId list \<Rightarrow> compute_state \<Rightarrow> compute_state option"
where
  "compute_loop c em validate allowed selected assign checked [] s = Some s"
| "compute_loop c em validate allowed selected assign checked (r # rs) (b, calls, n) =
     (if validate \<and> \<not> has_set_and_binding c r then None
      else let descriptor_set_index = descriptor_set_of c r in
        if validate \<and> \<not> allowed descriptor_set_index then None
        else if \<not> selected descriptor_set_index
        then compute_loop c em validate allowed selected assign checked rs (b, calls, n)
        else let binding_index = binding_of c r;
                 b' = assign n binding_index (fill_binding em descriptor_set_index binding_index b)
             in if checked \<and> \<not> msl_add_resource_binding_ok c b' then None
                else compute_loop c em validate allowed selected assign checked rs
                       (b', calls @ [b'], n + 1))"

definition set_0_or_1 :: "u32 \<Rightarrow> bool" where
  "set_0_or_1 descriptor_set_index \<longleftrightarrow> descriptor_set_index = 0 \<or> descriptor_set_index = 1"

definition compute_texture_samplers ::
  "spvc_compiler \<Rightarrow> SpvExecutionModel \<Rightarrow> SpvId list \<Rightarrow> compute_state \<Rightarrow> compute_state option"
where
  "compute_texture_samplers c em =
     compute_loop c em True (\<lambda>d. \<not> d \<noteq> 0) (\<lambda>d. True)
       (\<lambda>num_textures binding_index b. b\<lparr>msl_texture := num_textures, msl_sampler := num_textures\<rparr>)
       True"

definition compute_readonly_storage_textures ::
  "spvc_compiler \<Rightarrow> SpvExecutionModel \<Rightarrow> SpvId list \<Rightarrow> compute_state \<Rightarrow> compute_state option"
where
  "compute_readonly_storage_textures c em =
     compute_loop c em True set_0_or_1 (\<lambda>d. \<not> d \<noteq> 0)
       (\<lambda>num_textures binding_index b. b\<lparr>msl_texture := num_textures + binding_index\<rparr>) False"

definition compute_readwrite_storage_textures ::
  "spvc_compiler \<Rightarrow> SpvExecutionModel \<Rightarrow> SpvId list \<Rightarrow> compute_state \<Rightarrow> compute_state option"
where
  "compute_readwrite_storage_textures c em =
     compute_loop c em False (\<lambda>d. True) (\<lambda>d. \<not> d \<noteq> 1)
       (\<lambda>num_textures binding_index b. b\<lparr>msl_texture := num_textures + binding_index\<rparr>) False"

definition compute_readonly_storage_buffers ::
  "spvc_compiler \<Rightarrow> SpvExecutionModel \<Rightarrow> SpvId list \<Rightarrow> compute_state \<Rightarrow> compute_state option"
where
  "compute_readonly_storage_buffers c em =
     compute_loop c em True set_0_or_1 (\<lambda>d. \<not> d \<noteq> 0)
       (\<lambda>num_buffers binding_index b. b\<lparr>msl_buffer := binding_index\<rparr>) False"

definition compute_readwrite_storage_buffers ::
  "spvc_compiler \<Rightarrow> SpvExecutionModel \<Rightarrow> SpvId list \<Rightarrow> compute_state \<Rightarrow> compute_state option"
where
  "compute_readwrite_storage_buffers c em =
     compute_loop c em False (\<lambda>d. True) (\<lambda>d. \<not> d \<noteq> 1)
       (\<lambda>num_buffers binding_index b. b\<lparr>msl_buffer := num_buffers + binding_index\<rparr>) False"

definition compute_uniform_buffers ::
  "spvc_compiler \<Rightarrow> SpvExecutionModel \<Rightarrow> SpvId list \<Rightarrow> compute_state \<Rightarrow> compute_state option"
where
  "compute_uniform_buffers c em =
     compute_loop c em True (\<lambda>d. \<not> d \<noteq> 2) (\<lambda>d. True)
       (\<lambda>num_buffers binding_index b. b\<lparr>msl_buffer := num_buffers + binding_index\<rparr>) False"

definition remap_compute ::
  "spvc_compiler \<Rightarrow> SpvExecutionModel \<Rightarrow> spvc_msl_resource_binding \<Rightarrow>
   spvc_msl_resource_binding list option"
where
  "remap_compute c em b0 =
     (if \<not> create_shader_resources_ok c then None
      else do {
        ts \<leftarrow> texture_sampler_list c;
        s1 \<leftarrow> compute_texture_samplers c em ts (b0, [], 0);
        sts \<leftarrow> get_resource_list_for_type c SPVC_RESOURCE_TYPE_STORAGE_IMAGE;
        s2 \<leftarrow> compute_readonly_storage_textures c em sts s1;
        s3 \<leftarrow> compute_readwrite_storage_textures c em sts s2;
        sbs \<leftarrow> get_resource_list_for_type c SPVC_RESOURCE_TYPE_STORAGE_BUFFER;
        s4 \<leftarrow> compute_readonly_storage_buffers c em sbs (fst s3, fst (snd s3), 0);
        s5 \<leftarrow> compute_readwrite_storage_buffers c em sbs s4;
        ubs \<leftarrow> get_resource_list_for_type c SPVC_RESOURCE_TYPE_UNIFORM_BUFFER;
        s6 \<leftarrow> compute_uniform_buffers c em ubs s5;
        Some (fst (snd s6))
      })"

section \<open>The transpiler (part\_001, lines 1893 to 2431)\<close>

text \<open>
  \<^verbatim>\<open>SPIRVTranspileContext\<close>.  The \<^verbatim>\<open>context\<close> field (here \<open>spvc_context\<close>) is the
  SPIRV-Cross context handle; it is modelled by what the function registered in it, the list
  of Metal resource bindings.
\<close>

record SPIRVTranspileContext =
  spvc_context :: "spvc_msl_resource_binding list"
  translated_source :: string
  cleansed_entrypoint :: string

definition execution_model_of :: "SDL_ShaderCross_ShaderStage \<Rightarrow> SpvExecutionModel" where
  "execution_model_of shaderStage =
     (if shaderStage = SDL_SHADERCROSS_SHADERSTAGE_VERTEX then SpvExecutionModelVertex
      else if shaderStage = SDL_SHADERCROSS_SHADERSTAGE_FRAGMENT then SpvExecutionModelFragment
      else SpvExecutionModelKernel)"

definition hlsl_options :: "spvc_backend \<Rightarrow> u32 \<Rightarrow> (spvc_compiler_option \<times> u32) list" where
  "hlsl_options backend shadermodel =
     (if backend = SPVC_BACKEND_HLSL
      then [(SPVC_COMPILER_OPTION_HLSL_SHADER_MODEL, shadermodel),
            (SPVC_COMPILER_OPTION_HLSL_NONWRITABLE_UAV_TEXTURE_AS_SRV, 1),
            (SPVC_COMPILER_OPTION_HLSL_FLATTEN_MATRIX_VERTEX_INPUT_SEMANTICS, 1)]
      else [])"

definition msl_remap ::
  "spvc_compiler \<Rightarrow> spvc_backend \<Rightarrow> SDL_ShaderCross_ShaderStage \<Rightarrow> spvc_msl_resource_binding \<Rightarrow>
   spvc_msl_resource_binding list option"
where
  "msl_remap c backend shaderStage b0 =
     (if backend = SPVC_BACKEND_MSL \<and> shaderStage \<noteq> SDL_SHADERCROSS_SHADERSTAGE_COMPUTE
      then remap_graphics c (execution_model_of shaderStage) b0
      else if backend = SPVC_BACKEND_MSL \<and> shaderStage = SDL_SHADERCROSS_SHADERSTAGE_COMPUTE
      then remap_compute c (execution_model_of shaderStage) b0
      else Some [])"

text \<open>
  \<open>None\<close> is the \<^verbatim>\<open>NULL\<close> the function returns on every failure path.  \<open>b0\<close> is the
  indeterminate initial contents of the local \<^verbatim>\<open>binding\<close> struct (see above).
\<close>

definition SDL_ShaderCross_INTERNAL_TranspileFromSPIRV ::
  "spvc_api \<Rightarrow> spvc_msl_resource_binding \<Rightarrow> spvc_backend \<Rightarrow> u32 \<Rightarrow>
   SDL_ShaderCross_ShaderStage \<Rightarrow> bytes \<Rightarrow> nat \<Rightarrow> string \<Rightarrow> SPIRVTranspileContext option"
where
  "SDL_ShaderCross_INTERNAL_TranspileFromSPIRV api b0 backend shadermodel shaderStage code codeSize
       entrypoint =
     (if \<not> context_create_ok api then None
      else do {
        ir \<leftarrow> context_parse_spirv api code (codeSize div 4);
        c \<leftarrow> context_create_compiler ir backend;
        if \<not> create_compiler_options_ok c then None
        else do {
          bindings \<leftarrow> msl_remap c backend shaderStage b0;
          if \<not> install_compiler_options_ok c then None
          else do {
            translated \<leftarrow> compiler_compile c (hlsl_options backend shadermodel) bindings;
            Some \<lparr>spvc_context = bindings, translated_source = translated,
                  cleansed_entrypoint = get_cleansed_entry_point_name c entrypoint\<rparr>
          }
        }
      })"

section \<open>SPIR-V reflection (part\_001, lines 2433 to 2727)\<close>

text \<open>
  The reflection functions return \<^verbatim>\<open>bool\<close> and fill in fields of the caller's create-info
  struct just before \<^verbatim>\<open>return true\<close>.  The model returns the filled-in fields, \<open>None\<close> for
  \<^verbatim>\<open>return false\<close>.  The counters are \<^verbatim>\<open>size_t\<close>, the fields are \<^verbatim>\<open>Uint32\<close>.
\<close>

record graphics_metadata =
  num_samplers :: u32
  num_storage_textures :: u32
  num_storage_buffers :: u32
  num_uniform_buffers :: u32

text \<open>
  The source comment above the function reads: ``Acquire CreateInfo metadata from SPIRV
  bytecode.  TODO: validate descriptor sets''.
\<close>

definition SDL_ShaderCross_INTERNAL_ReflectGraphicsSPIRV ::
  "spvc_api \<Rightarrow> bytes \<Rightarrow> nat \<Rightarrow> graphics_metadata option"
where
  "SDL_ShaderCross_INTERNAL_ReflectGraphicsSPIRV api code codeSize =
     (if \<not> context_create_ok api then None
      else do {
        ir \<leftarrow> context_parse_spirv api code (codeSize div 4);
        c \<leftarrow> context_create_compiler ir SPVC_BACKEND_NONE;
        if \<not> create_shader_resources_ok c then None
        else do {
          ts \<leftarrow> texture_sampler_list c;
          sts \<leftarrow> get_resource_list_for_type c SPVC_RESOURCE_TYPE_STORAGE_IMAGE;
          sbs \<leftarrow> get_resource_list_for_type c SPVC_RESOURCE_TYPE_STORAGE_BUFFER;
          ubs \<leftarrow> get_resource_list_for_type c SPVC_RESOURCE_TYPE_UNIFORM_BUFFER;
          Some \<lparr>num_samplers = of_nat (length ts),
                num_storage_textures = of_nat (length sts),
                num_storage_buffers = of_nat (length sbs),
                num_uniform_buffers = of_nat (length ubs)\<rparr>
        }
      })"

record compute_metadata =
  num_samplers_cp :: u32
  num_readonly_storage_textures :: u32
  num_readonly_storage_buffers :: u32
  num_readwrite_storage_textures :: u32
  num_readwrite_storage_buffers :: u32
  num_uniform_buffers_cp :: u32
  threadcount_x :: u32
  threadcount_y :: u32
  threadcount_z :: u32

text \<open>
  The storage-texture loop of compute reflection; the state is
  (\<^verbatim>\<open>num_readonly_storage_textures\<close>, \<^verbatim>\<open>num_readwrite_storage_textures\<close>).
\<close>

fun reflect_storage_textures ::
  "spvc_compiler \<Rightarrow> SpvId list \<Rightarrow> nat \<times> nat \<Rightarrow> (nat \<times> nat) option"
where
  "reflect_storage_textures c [] s = Some s"
| "reflect_storage_textures c (r # rs) (num_readonly, num_readwrite) =
     (if \<not> has_set_and_binding c r then None
      else let descriptor_set_index = descriptor_set_of c r in
        if descriptor_set_index = 0
        then reflect_storage_textures c rs (num_readonly + 1, num_readwrite)
        else if descriptor_set_index = 1
        then reflect_storage_textures c rs (num_readonly, num_readwrite + 1)
        else None)"

text \<open>The storage-buffer loop tests the descriptor set twice, as the source does.\<close>

fun reflect_storage_buffers ::
  "spvc_compiler \<Rightarrow> SpvId list \<Rightarrow> nat \<times> nat \<Rightarrow> (nat \<times> nat) option"
where
  "reflect_storage_buffers c [] s = Some s"
| "reflect_storage_buffers c (r # rs) (num_readonly, num_readwrite) =
     (if \<not> has_set_and_binding c r then None
      else let descriptor_set_index = descriptor_set_of c r in
        if \<not> (descriptor_set_index = 0 \<or> descriptor_set_index = 1) then None
        else if descriptor_set_index = 0
        then reflect_storage_buffers c rs (num_readonly + 1, num_readwrite)
        else if descriptor_set_index = 1
        then reflect_storage_buffers c rs (num_readonly, num_readwrite + 1)
        else None)"

definition SpvExecutionModeLocalSize_args :: "spvc_compiler \<Rightarrow> u32 \<times> u32 \<times> u32" where
  "SpvExecutionModeLocalSize_args c =
     (get_execution_mode_argument_by_index c 0,
      get_execution_mode_argument_by_index c 1,
      get_execution_mode_argument_by_index c 2)"

definition SDL_ShaderCross_INTERNAL_ReflectComputeSPIRV ::
  "spvc_api \<Rightarrow> bytes \<Rightarrow> nat \<Rightarrow> compute_metadata option"
where
  "SDL_ShaderCross_INTERNAL_ReflectComputeSPIRV api code codeSize =
     (if \<not> context_create_ok api then None
      else do {
        ir \<leftarrow> context_parse_spirv api code (codeSize div 4);
        c \<leftarrow> context_create_compiler ir SPVC_BACKEND_NONE;
        if \<not> create_shader_resources_ok c then None
        else do {
          ts \<leftarrow> texture_sampler_list c;
          sts \<leftarrow> get_resource_list_for_type c SPVC_RESOURCE_TYPE_STORAGE_IMAGE;
          textures \<leftarrow> reflect_storage_textures c sts (0, 0);
          sbs \<leftarrow> get_resource_list_for_type c SPVC_RESOURCE_TYPE_STORAGE_BUFFER;
          buffers \<leftarrow> reflect_storage_buffers c sbs (0, 0);
          ubs \<leftarrow> get_resource_list_for_type c SPVC_RESOURCE_TYPE_UNIFORM_BUFFER;
          Some \<lparr>num_samplers_cp = of_nat (length ts),
                num_readonly_storage_textures = of_nat (fst textures),
                num_readonly_storage_buffers = of_nat (fst buffers),
                num_readwrite_storage_textures = of_nat (snd textures),
                num_readwrite_storage_buffers = of_nat (snd buffers),
                num_uniform_buffers_cp = of_nat (length ubs),
                threadcount_x = fst (SpvExecutionModeLocalSize_args c),
                threadcount_y = fst (snd (SpvExecutionModeLocalSize_args c)),
                threadcount_z = snd (snd (SpvExecutionModeLocalSize_args c))\<rparr>
        }
      })"

section \<open>Translation chains (part\_001, lines 1352 to 1802 and 2832 to 2934)\<close>

text \<open>
  The HLSL compilers are external collaborators as well.  The environment of a translation
  holds the SPIRV-Cross service, the indeterminate initial contents of the transpiler's local
  \<^verbatim>\<open>binding\<close> struct, the build flag \<^verbatim>\<open>SDL_GPU_SHADERCROSS_DXC\<close>, whether the DXC instance,
  utils and include handler can be created and the arguments converted, the outcome of
  \<^verbatim>\<open>IDxcCompiler3::Compile\<close> as a function of the source text and the argument list
  (\<open>None\<close>: negative status, no result, a non-empty error blob or no object blob), and the
  function the loader's \<^verbatim>\<open>SDL_D3DCompile\<close> pointer refers to (\<open>None\<close>: the pointer is
  \<^verbatim>\<open>NULL\<close>), as a function of source, entry point and target profile (its \<open>None\<close>: negative
  status).  The Xbox-only argument \<^verbatim>\<open>-D__XBOX_DISABLE_PRECOMPILE=1\<close> is left out.
\<close>

record environment =
  spvc :: spvc_api
  uninitialised_binding :: spvc_msl_resource_binding
  SDL_GPU_SHADERCROSS_DXC :: bool
  dxc_instances_ok :: bool
  dxc_Compile :: "string \<Rightarrow> string list \<Rightarrow> bytes option"
  D3DCompile :: "(string \<Rightarrow> string \<Rightarrow> string \<Rightarrow> bytes option) option"

text \<open>
  Every function of a chain returns the backend calls it made, in order, and its result:
  \<open>Inr None\<close> is a returned \<^verbatim>\<open>NULL\<close>, \<open>Inr (Some x)\<close> a returned buffer, and \<open>Inl\<close> a
  fault of the C program.
\<close>

datatype fault = NullPointerDereference

datatype backend_call =
    DXC_Compile string "string list"
  | D3D_Compile string string string
  | SPVC_Transpile spvc_backend u32 SDL_ShaderCross_ShaderStage bytes string

definition dxc_args ::
  "string \<Rightarrow> string option \<Rightarrow> SDL_ShaderCross_ShaderStage \<Rightarrow> bool \<Rightarrow> string list"
where
  "dxc_args entrypoint includeDir shaderStage spirv =
     [''-E'', entrypoint]
     @ (case includeDir of None \<Rightarrow> [] | Some dir \<Rightarrow> [''-I'', dir])
     @ (if shaderStage = SDL_SHADERCROSS_SHADERSTAGE_VERTEX then [''-T'', ''vs_6_0'']
        else if shaderStage = SDL_SHADERCROSS_SHADERSTAGE_FRAGMENT then [''-T'', ''ps_6_0'']
        else [''-T'', ''cs_6_0''])
     @ (if spirv then [''-spirv''] else [])"

definition SDL_ShaderCross_INTERNAL_CompileUsingDXC ::
  "environment \<Rightarrow> string \<Rightarrow> string \<Rightarrow> string option \<Rightarrow> SDL_ShaderCross_ShaderStage \<Rightarrow> bool \<Rightarrow>
   backend_call list \<times> bytes option"
where
  "SDL_ShaderCross_INTERNAL_CompileUsingDXC env hlslSource entrypoint includeDir shaderStage spirv =
     (if \<not> SDL_GPU_SHADERCROSS_DXC env then ([], None)
      else if \<not> dxc_instances_ok env then ([], None)
      else ([DXC_Compile hlslSource (dxc_args entrypoint includeDir shaderStage spirv)],
            dxc_Compile env hlslSource (dxc_args entrypoint includeDir shaderStage spirv)))"

definition SDL_ShaderCross_CompileSPIRVFromHLSL ::
  "environment \<Rightarrow> string \<Rightarrow> string \<Rightarrow> string option \<Rightarrow> SDL_ShaderCross_ShaderStage \<Rightarrow>
   backend_call list \<times> bytes option"
where
  "SDL_ShaderCross_CompileSPIRVFromHLSL env hlslSource entrypoint includeDir shaderStage =
     SDL_ShaderCross_INTERNAL_CompileUsingDXC env hlslSource entrypoint includeDir shaderStage True"

text \<open>
  The two public transpile functions read \<^verbatim>\<open>context->translated_source\<close> right after the
  call of the internal transpiler, without testing the returned pointer.
\<close>

definition SDL_ShaderCross_TranspileMSLFromSPIRV ::
  "environment \<Rightarrow> bytes \<Rightarrow> nat \<Rightarrow> string \<Rightarrow> SDL_ShaderCross_ShaderStage \<Rightarrow>
   backend_call list \<times> (fault + string option)"
where
  "SDL_ShaderCross_TranspileMSLFromSPIRV env bytecode bytecodeSize entrypoint shaderStage =
     ([SPVC_Transpile SPVC_BACKEND_MSL 0 shaderStage bytecode entrypoint],
      (case SDL_ShaderCross_INTERNAL_TranspileFromSPIRV (spvc env) (uninitialised_binding env)
              SPVC_BACKEND_MSL 0 shaderStage bytecode bytecodeSize entrypoint of
         None \<Rightarrow> Inl NullPointerDereference
       | Some ctx \<Rightarrow> Inr (Some (translated_source ctx))))"

definition SDL_ShaderCross_TranspileHLSLFromSPIRV ::
  "environment \<Rightarrow> bytes \<Rightarrow> nat \<Rightarrow> string \<Rightarrow> SDL_ShaderCross_ShaderStage \<Rightarrow>
   backend_call list \<times> (fault + string option)"
where
  "SDL_ShaderCross_TranspileHLSLFromSPIRV env bytecode bytecodeSize entrypoint shaderStage =
     ([SPVC_Transpile SPVC_BACKEND_HLSL 60 shaderStage bytecode entrypoint],
      (case SDL_ShaderCross_INTERNAL_TranspileFromSPIRV (spvc env) (uninitialised_binding env)
              SPVC_BACKEND_HLSL 60 shaderStage bytecode bytecodeSize entrypoint of
         None \<Rightarrow> Inl NullPointerDereference
       | Some ctx \<Rightarrow> Inr (Some (translated_source ctx))))"

definition SDL_ShaderCross_CompileDXILFromHLSL ::
  "environment \<Rightarrow> string \<Rightarrow> string \<Rightarrow> string option \<Rightarrow> SDL_ShaderCross_ShaderStage \<Rightarrow>
   backend_call list \<times> (fault + bytes option)"
where
  "SDL_ShaderCross_CompileDXILFromHLSL env hlslSource entrypoint includeDir shaderStage =
     (case SDL_ShaderCross_CompileSPIRVFromHLSL env hlslSource entrypoint includeDir shaderStage of
        (t1, None) \<Rightarrow> (t1, Inr None)
      | (t1, Some spirv) \<Rightarrow>
          (case SDL_ShaderCross_TranspileHLSLFromSPIRV env spirv (length spirv) entrypoint
                  shaderStage of
             (t2, Inl f) \<Rightarrow> (t1 @ t2, Inl f)
           | (t2, Inr None) \<Rightarrow> (t1 @ t2, Inr None)
           | (t2, Inr (Some translatedSource)) \<Rightarrow>
               (case SDL_ShaderCross_INTERNAL_CompileUsingDXC env translatedSource entrypoint
                       includeDir shaderStage False of
                  (t3, r) \<Rightarrow> (t1 @ t2 @ t3, Inr r))))"

definition SDL_ShaderCross_INTERNAL_CompileDXBC ::
  "environment \<Rightarrow> string \<Rightarrow> string \<Rightarrow> string \<Rightarrow> backend_call list \<times> bytes option"
where
  "SDL_ShaderCross_INTERNAL_CompileDXBC env hlslSource entrypoint shaderProfile =
     (case D3DCompile env of
        None \<Rightarrow> ([], None)
      | Some compile \<Rightarrow>
          ([D3D_Compile hlslSource entrypoint shaderProfile],
           compile hlslSource entrypoint shaderProfile))"

definition legacy_shaderProfile :: "SDL_ShaderCross_ShaderStage \<Rightarrow> string" where
  "legacy_shaderProfile shaderStage =
     (if shaderStage = SDL_SHADERCROSS_SHADERSTAGE_VERTEX then ''vs_5_1''
      else if shaderStage = SDL_SHADERCROSS_SHADERSTAGE_FRAGMENT then ''ps_5_1''
      else ''cs_5_1'')"

text \<open>
  The body of \<^verbatim>\<open>if (enableRoundtrip) { ... }\<close>: \<open>Inr (Some s)\<close> is the value left in
  \<^verbatim>\<open>transpiledSource\<close>, \<open>Inr None\<close> one of the two \<^verbatim>\<open>return NULL\<close> exits.
\<close>

definition dxbc_roundtrip ::
  "environment \<Rightarrow> string \<Rightarrow> string \<Rightarrow> string option \<Rightarrow> SDL_ShaderCross_ShaderStage \<Rightarrow>
   backend_call list \<times> (fault + string option)"
where
  "dxbc_roundtrip env hlslSource entrypoint includeDir shaderStage =
     (case SDL_ShaderCross_CompileSPIRVFromHLSL env hlslSource entrypoint includeDir shaderStage of
        (t1, None) \<Rightarrow> (t1, Inr None)
      | (t1, Some spirv) \<Rightarrow>
          (case SDL_ShaderCross_TranspileHLSLFromSPIRV env spirv (length spirv) entrypoint
                  shaderStage of
             (t2, r) \<Rightarrow> (t1 @ t2, r)))"

definition SDL_ShaderCross_INTERNAL_CompileDXBCFromHLSL ::
  "environment \<Rightarrow> string \<Rightarrow> string \<Rightarrow> string option \<Rightarrow> SDL_ShaderCross_ShaderStage \<Rightarrow> bool \<Rightarrow>
   backend_call list \<times> (fault + bytes option)"
where
  "SDL_ShaderCross_INTERNAL_CompileDXBCFromHLSL env hlslSource entrypoint includeDir shaderStage
       enableRoundtrip =
     (if enableRoundtrip
      then (case dxbc_roundtrip env hlslSource entrypoint includeDir shaderStage of
              (t, Inl f) \<Rightarrow> (t, Inl f)
            | (t, Inr None) \<Rightarrow> (t, Inr None)
            | (t, Inr (Some transpiledSource)) \<Rightarrow>
                (case SDL_ShaderCross_INTERNAL_CompileDXBC env transpiledSource entrypoint
                        (legacy_shaderProfile shaderStage) of
                   (t', blob) \<Rightarrow> (t @ t', Inr blob)))
      else (case SDL_ShaderCross_INTERNAL_CompileDXBC env hlslSource entrypoint
                   (legacy_shaderProfile shaderStage) of
              (t', blob) \<Rightarrow> (t', Inr blob)))"

definition SDL_ShaderCross_CompileDXBCFromHLSL ::
  "environment \<Rightarrow> string \<Rightarrow> string \<Rightarrow> string option \<Rightarrow> SDL_ShaderCross_ShaderStage \<Rightarrow>
   backend_call list \<times> (fault + bytes option)"
where
  "SDL_ShaderCross_CompileDXBCFromHLSL env hlslSource entrypoint includeDir shaderStage =
     SDL_ShaderCross_INTERNAL_CompileDXBCFromHLSL env hlslSource entrypoint includeDir shaderStage
       True"

definition SDL_ShaderCross_CompileDXBCFromSPIRV ::
  "environment \<Rightarrow> bytes \<Rightarrow> nat \<Rightarrow> string \<Rightarrow> SDL_ShaderCross_ShaderStage \<Rightarrow>
   backend_call list \<times> (fault + bytes option)"
where
  "SDL_ShaderCross_CompileDXBCFromSPIRV env bytecode bytecodeSize entrypoint shaderStage =
     (case SDL_ShaderCross_INTERNAL_TranspileFromSPIRV (spvc env) (uninitialised_binding env)
             SPVC_BACKEND_HLSL 51 shaderStage bytecode bytecodeSize entrypoint of
        None \<Rightarrow>
          ([SPVC_Transpile SPVC_BACKEND_HLSL 51 shaderStage bytecode entrypoint],
           Inl NullPointerDereference)
      | Some ctx \<Rightarrow>
          (case SDL_ShaderCross_INTERNAL_CompileDXBCFromHLSL env (translated_source ctx)
                  (cleansed_entrypoint ctx) None shaderStage False of
             (t, r) \<Rightarrow> (SPVC_Transpile SPVC_BACKEND_HLSL 51 shaderStage bytecode entrypoint # t, r)))"

definition SDL_ShaderCross_CompileDXILFromSPIRV ::
  "environment \<Rightarrow> bytes \<Rightarrow> nat \<Rightarrow> string \<Rightarrow> SDL_ShaderCross_ShaderStage \<Rightarrow>
   backend_call list \<times> (fault + bytes option)"
where
  "SDL_ShaderCross_CompileDXILFromSPIRV env bytecode bytecodeSize entrypoint shaderStage =
     (if \<not> SDL_GPU_SHADERCROSS_DXC env then ([], Inr None)
      else (case SDL_ShaderCross_INTERNAL_TranspileFromSPIRV (spvc env) (uninitialised_binding env)
                   SPVC_BACKEND_HLSL 60 shaderStage bytecode bytecodeSize entrypoint of
              None \<Rightarrow>
                ([SPVC_Transpile SPVC_BACKEND_HLSL 60 shaderStage bytecode entrypoint],
                 Inl NullPointerDereference)
            | Some ctx \<Rightarrow>
                (case SDL_ShaderCross_CompileDXILFromHLSL env (translated_source ctx)
                        (cleansed_entrypoint ctx) None shaderStage of
                   (t, r) \<Rightarrow>
                     (SPVC_Transpile SPVC_BACKEND_HLSL 60 shaderStage bytecode entrypoint # t, r))))"

section \<open>Backend loader\<close>

text \<open>
  The loader state is the set of file-scope statics: library handles and resolved function
  pointers, \<open>None\<close> for \<^verbatim>\<open>NULL\<close>.  One record serves both units; the unit of part\_001 has no
  SPIRV-Cross statics (it links SPIRV-Cross) and has the DXC statics on Xbox only, so its
  functions leave those fields alone.  The eleven \<^verbatim>\<open>SDL_spvc_*\<close> pointers of part\_002 are
  one field, indexed by the function name.  Every static starts as \<^verbatim>\<open>NULL\<close>.

  The operating system answers \<^verbatim>\<open>SDL_LoadObject\<close> and \<^verbatim>\<open>SDL_LoadFunction\<close>; the build
  configuration fixes the preprocessor symbols and the platform's library names.  Each
  loader function returns the new state together with the handles it passed to
  \<^verbatim>\<open>SDL_UnloadObject\<close>, in call order.
\<close>

type_synonym handle = nat
type_synonym fnptr = nat

record operating_system =
  SDL_LoadObject :: "string \<Rightarrow> handle option"
  SDL_LoadFunction :: "handle \<Rightarrow> string \<Rightarrow> fnptr option"

record build_config =
  PLATFORM_XBOX :: bool
  SDL_GPU_SHADERCROSS_STATIC :: bool
  SDL_GPU_SHADERCROSS_SPIRV :: bool
  DXCOMPILER_DLL :: string
  DXIL_DLL :: string
  D3DCOMPILER_DLL :: string
  SDL_GPU_SPIRV_CROSS_DLL :: string

record loader_state =
  d3dcompiler_dll :: "handle option"
  SDL_D3DCompile :: "fnptr option"
  dxcompiler_dll :: "handle option"
  SDL_DxcCreateInstance :: "fnptr option"
  spirvcross_dll :: "handle option"
  SDL_spvc :: "string \<Rightarrow> fnptr option"

definition initial_loader_state :: loader_state where
  "initial_loader_state =
     \<lparr>d3dcompiler_dll = None, SDL_D3DCompile = None, dxcompiler_dll = None,
      SDL_DxcCreateInstance = None, spirvcross_dll = None, SDL_spvc = (\<lambda>name. None)\<rparr>"

text \<open>
  Modelled from the spec: the format bits \<^verbatim>\<open>SDL_GPU_SHADERFORMAT_*\<close> are declared in SDL's
  \<^verbatim>\<open>SDL_gpu.h\<close>, which is not part of this repository; the spec calls the result ``a set of
  output format bits''.  They are taken as SDL3 defines them, one bit each.
\<close>

definition SDL_GPU_SHADERFORMAT_SPIRV :: u32 where "SDL_GPU_SHADERFORMAT_SPIRV = push_bit 1 1"
definition SDL_GPU_SHADERFORMAT_DXBC :: u32 where "SDL_GPU_SHADERFORMAT_DXBC = push_bit 2 1"
definition SDL_GPU_SHADERFORMAT_DXIL :: u32 where "SDL_GPU_SHADERFORMAT_DXIL = push_bit 3 1"
definition SDL_GPU_SHADERFORMAT_MSL :: u32 where "SDL_GPU_SHADERFORMAT_MSL = push_bit 4 1"

definition contains_format :: "u32 \<Rightarrow> u32 \<Rightarrow> bool" where
  "contains_format supportedFormats format \<longleftrightarrow> supportedFormats AND format \<noteq> 0"

subsection \<open>The blocks shared by both units\<close>

text \<open>
  Load the legacy compiler library and resolve \<^verbatim>\<open>D3DCompile\<close>; unload the library again
  when the function cannot be resolved.
\<close>

definition load_d3dcompiler ::
  "build_config \<Rightarrow> operating_system \<Rightarrow> loader_state \<Rightarrow> loader_state \<times> handle list"
where
  "load_d3dcompiler cfg os s =
     (let s1 = s\<lparr>d3dcompiler_dll := SDL_LoadObject os (D3DCOMPILER_DLL cfg)\<rparr> in
      case d3dcompiler_dll s1 of
        None \<Rightarrow> (s1, [])
      | Some h \<Rightarrow>
          (let s2 = s1\<lparr>SDL_D3DCompile := SDL_LoadFunction os h ''D3DCompile''\<rparr> in
           if SDL_D3DCompile s2 = None then (s2\<lparr>d3dcompiler_dll := None\<rparr>, [h]) else (s2, [])))"

text \<open>The same for \<^verbatim>\<open>DxcCreateInstance\<close>, given that \<^verbatim>\<open>dxcompiler_dll\<close> is already set.\<close>

definition resolve_DxcCreateInstance ::
  "operating_system \<Rightarrow> loader_state \<Rightarrow> loader_state \<times> handle list"
where
  "resolve_DxcCreateInstance os s =
     (case dxcompiler_dll s of
        None \<Rightarrow> (s, [])
      | Some h \<Rightarrow>
          (let s1 = s\<lparr>SDL_DxcCreateInstance := SDL_LoadFunction os h ''DxcCreateInstance''\<rparr> in
           if SDL_DxcCreateInstance s1 = None then (s1\<lparr>dxcompiler_dll := None\<rparr>, [h]) else (s1, [])))"

definition unload_d3dcompiler :: "loader_state \<Rightarrow> loader_state \<times> handle list" where
  "unload_d3dcompiler s =
     (case d3dcompiler_dll s of
        None \<Rightarrow> (s, [])
      | Some h \<Rightarrow> (s\<lparr>d3dcompiler_dll := None, SDL_D3DCompile := None\<rparr>, [h]))"

definition unload_dxcompiler :: "loader_state \<Rightarrow> loader_state \<times> handle list" where
  "unload_dxcompiler s =
     (case dxcompiler_dll s of
        None \<Rightarrow> (s, [])
      | Some h \<Rightarrow> (s\<lparr>dxcompiler_dll := None, SDL_DxcCreateInstance := None\<rparr>, [h]))"

subsection \<open>The unit of part\_001 (lines 3029 to 3090)\<close>

definition SDL_ShaderCross_Init ::
  "build_config \<Rightarrow> operating_system \<Rightarrow> loader_state \<Rightarrow> loader_state \<times> handle list"
where
  "SDL_ShaderCross_Init cfg os s =
     (case (if PLATFORM_XBOX cfg
            then resolve_DxcCreateInstance os
                   (s\<lparr>dxcompiler_dll := SDL_LoadObject os (DXCOMPILER_DLL cfg)\<rparr>)
            else (s, [])) of
        (s1, u1) \<Rightarrow> (case load_d3dcompiler cfg os s1 of (s2, u2) \<Rightarrow> (s2, u1 @ u2)))"

definition SDL_ShaderCross_Quit ::
  "build_config \<Rightarrow> loader_state \<Rightarrow> loader_state \<times> handle list"
where
  "SDL_ShaderCross_Quit cfg s =
     (case unload_d3dcompiler s of
        (s1, u1) \<Rightarrow>
          (if PLATFORM_XBOX cfg
           then (case unload_dxcompiler s1 of (s2, u2) \<Rightarrow> (s2, u1 @ u2))
           else (s1, u1)))"

definition SDL_ShaderCross_GetSPIRVShaderFormats :: "loader_state \<Rightarrow> u32" where
  "SDL_ShaderCross_GetSPIRVShaderFormats s =
     (let supportedFormats = SDL_GPU_SHADERFORMAT_SPIRV OR SDL_GPU_SHADERFORMAT_MSL;
          supportedFormats = supportedFormats OR SDL_GPU_SHADERFORMAT_DXIL
      in if d3dcompiler_dll s \<noteq> None then supportedFormats OR SDL_GPU_SHADERFORMAT_DXBC
         else supportedFormats)"

subsection \<open>The header-only unit of part\_002 (lines 2732 to 2880)\<close>

text \<open>
  This unit requires \<^verbatim>\<open>SDL_GPU_SHADERCROSS_HLSL\<close> whenever SPIRV-Cross support is compiled
  in (an \<^verbatim>\<open>#error\<close> otherwise), so the HLSL blocks are always present here.
\<close>

definition spvc_function_names :: "string list" where
  "spvc_function_names =
     [''spvc_context_create'', ''spvc_context_destroy'', ''spvc_context_parse_spirv'',
      ''spvc_context_create_compiler'', ''spvc_compiler_create_compiler_options'',
      ''spvc_compiler_options_set_uint'', ''spvc_compiler_install_compiler_options'',
      ''spvc_compiler_compile'', ''spvc_context_get_last_error_string'',
      ''spvc_compiler_get_execution_model'', ''spvc_compiler_get_cleansed_entry_point_name'']"

text \<open>
  One use of the macro \<^verbatim>\<open>CHECK_FUNC(func)\<close>; the state is the table of pointers and the
  local \<^verbatim>\<open>spvc_loaded\<close>.
\<close>

definition CHECK_FUNC ::
  "operating_system \<Rightarrow> handle \<Rightarrow> string \<Rightarrow> (string \<Rightarrow> fnptr option) \<times> bool \<Rightarrow>
   (string \<Rightarrow> fnptr option) \<times> bool"
where
  "CHECK_FUNC os dll func st =
     (case st of (table, spvc_loaded) \<Rightarrow>
        if table func = None
        then (let table' = table(func := SDL_LoadFunction os dll func) in
              if table' func = None then (table', False) else (table', spvc_loaded))
        else (table, spvc_loaded))"

definition load_dxcompiler_part002 ::
  "build_config \<Rightarrow> operating_system \<Rightarrow> loader_state \<Rightarrow> loader_state \<times> handle list"
where
  "load_dxcompiler_part002 cfg os s =
     (let s1 = s\<lparr>dxcompiler_dll := SDL_LoadObject os (DXCOMPILER_DLL cfg)\<rparr> in
      case dxcompiler_dll s1 of
        None \<Rightarrow> (s1, [])
      | Some h \<Rightarrow>
          if PLATFORM_XBOX cfg then (s1, [])
          else (case SDL_LoadObject os (DXIL_DLL cfg) of
                  None \<Rightarrow> (s1\<lparr>dxcompiler_dll := None\<rparr>, [h])
                | Some dxil_dll \<Rightarrow> (s1, [dxil_dll])))"

definition load_spirvcross_part002 ::
  "build_config \<Rightarrow> operating_system \<Rightarrow> loader_state \<Rightarrow> loader_state \<times> handle list"
where
  "load_spirvcross_part002 cfg os s =
     (if SDL_GPU_SHADERCROSS_STATIC cfg then (s, [])
      else (let s1 = s\<lparr>spirvcross_dll := SDL_LoadObject os (SDL_GPU_SPIRV_CROSS_DLL cfg)\<rparr> in
            case spirvcross_dll s1 of
              None \<Rightarrow> (s1, [])
            | Some dll \<Rightarrow>
                (case fold (CHECK_FUNC os dll) spvc_function_names (SDL_spvc s1, True) of
                   (table, spvc_loaded) \<Rightarrow>
                     if \<not> spvc_loaded
                     then (s1\<lparr>SDL_spvc := table, spirvcross_dll := None\<rparr>, [dll])
                     else (s1\<lparr>SDL_spvc := table\<rparr>, []))))"

definition SDL_ShaderCross_Init_part002 ::
  "build_config \<Rightarrow> operating_system \<Rightarrow> loader_state \<Rightarrow> loader_state \<times> handle list"
where
  "SDL_ShaderCross_Init_part002 cfg os s =
     (case load_dxcompiler_part002 cfg os s of (s1, u1) \<Rightarrow>
        (case resolve_DxcCreateInstance os s1 of (s2, u2) \<Rightarrow>
           (case load_d3dcompiler cfg os s2 of (s3, u3) \<Rightarrow>
              (case load_spirvcross_part002 cfg os s3 of (s4, u4) \<Rightarrow>
                 (s4, u1 @ u2 @ u3 @ u4)))))"

text \<open>
  The first block of \<^verbatim>\<open>SDL_ShaderCross_Quit\<close> is guarded by
  \<^verbatim>\<open>#ifdef SDL_GPU_SHADERCROSS_SPIRV\<close>; the rest of the unit, and its header, spell the
  symbol \<^verbatim>\<open>SDL_GPU_SHADERCROSS_SPIRVCROSS\<close>, and nothing in the repository defines
  \<^verbatim>\<open>SDL_GPU_SHADERCROSS_SPIRV\<close>.
\<close>

definition unload_spirvcross_part002 ::
  "build_config \<Rightarrow> loader_state \<Rightarrow> loader_state \<times> handle list"
where
  "unload_spirvcross_part002 cfg s =
     (if SDL_GPU_SHADERCROSS_SPIRV cfg \<and> \<not> SDL_GPU_SHADERCROSS_STATIC cfg
      then (case spirvcross_dll s of
              None \<Rightarrow> (s, [])
            | Some dll \<Rightarrow> (s\<lparr>spirvcross_dll := None, SDL_spvc := (\<lambda>name. None)\<rparr>, [dll]))
      else (s, []))"

definition SDL_ShaderCross_Quit_part002 ::
  "build_config \<Rightarrow> loader_state \<Rightarrow> loader_state \<times> handle list"
where
  "SDL_ShaderCross_Quit_part002 cfg s =
     (case unload_spirvcross_part002 cfg s of (s1, u1) \<Rightarrow>
        (case unload_d3dcompiler s1 of (s2, u2) \<Rightarrow>
           (case unload_dxcompiler s2 of (s3, u3) \<Rightarrow> (s3, u1 @ u2 @ u3))))"

definition SDL_ShaderCross_GetSPIRVShaderFormats_part002 ::
  "build_config \<Rightarrow> loader_state \<Rightarrow> u32"
where
  "SDL_ShaderCross_GetSPIRVShaderFormats_part002 cfg s =
     (let supportedFormats = SDL_GPU_SHADERFORMAT_SPIRV in
      if (if \<not> SDL_GPU_SHADERCROSS_STATIC cfg then spirvcross_dll s \<noteq> None else True)
      then (let supportedFormats = supportedFormats OR SDL_GPU_SHADERFORMAT_MSL;
                supportedFormats =
                  (if dxcompiler_dll s \<noteq> None then supportedFormats OR SDL_GPU_SHADERFORMAT_DXIL
                   else supportedFormats)
            in if d3dcompiler_dll s \<noteq> None then supportedFormats OR SDL_GPU_SHADERFORMAT_DXBC
               else supportedFormats)
      else supportedFormats)"

section \<open>The remapping rules as the specification words them\<close>

text \<open>
  Graphics.  ``For every texture-sampler resource with set in {0, 2}: assign
  msl\_texture = msl\_sampler = binding.  For every storage-texture with set in {0, 2}: assign
  msl\_texture = N\_ts + binding.  For every storage-buffer with set in {0, 2}: assign
  msl\_buffer = binding.  For every uniform-buffer with set in {1, 3}: assign
  msl\_buffer = N\_sb + binding.''  Each predicate relates a resource \<open>r\<close> to the binding
  \<open>k\<close> registered for it; sums are taken in the 32 bits of the Metal index fields.
\<close>

definition graphics_texture_sampler_rule ::
  "spvc_compiler \<Rightarrow> SpvExecutionModel \<Rightarrow> SpvId \<Rightarrow> spvc_msl_resource_binding \<Rightarrow> bool"
where
  "graphics_texture_sampler_rule c em r k \<longleftrightarrow>
     set_0_or_2 (descriptor_set_of c r) \<and>
     stage k = em \<and> desc_set k = descriptor_set_of c r \<and> binding k = binding_of c r \<and>
     msl_texture k = binding_of c r \<and> msl_sampler k = binding_of c r"

definition graphics_storage_texture_rule ::
  "spvc_compiler \<Rightarrow> SpvExecutionModel \<Rightarrow> nat \<Rightarrow> SpvId \<Rightarrow> spvc_msl_resource_binding \<Rightarrow> bool"
where
  "graphics_storage_texture_rule c em N_ts r k \<longleftrightarrow>
     set_0_or_2 (descriptor_set_of c r) \<and>
     stage k = em \<and> desc_set k = descriptor_set_of c r \<and> binding k = binding_of c r \<and>
     msl_texture k = of_nat N_ts + binding_of c r"

definition graphics_storage_buffer_rule ::
  "spvc_compiler \<Rightarrow> SpvExecutionModel \<Rightarrow> SpvId \<Rightarrow> spvc_msl_resource_binding \<Rightarrow> bool"
where
  "graphics_storage_buffer_rule c em r k \<longleftrightarrow>
     set_0_or_2 (descriptor_set_of c r) \<and>
     stage k = em \<and> desc_set k = descriptor_set_of c r \<and> binding k = binding_of c r \<and>
     msl_buffer k = binding_of c r"

definition graphics_uniform_buffer_rule ::
  "spvc_compiler \<Rightarrow> SpvExecutionModel \<Rightarrow> nat \<Rightarrow> SpvId \<Rightarrow> spvc_msl_resource_binding \<Rightarrow> bool"
where
  "graphics_uniform_buffer_rule c em N_sb r k \<longleftrightarrow>
     set_1_or_3 (descriptor_set_of c r) \<and>
     stage k = em \<and> desc_set k = descriptor_set_of c r \<and> binding k = binding_of c r \<and>
     msl_buffer k = of_nat N_sb + binding_of c r"

text \<open>
  The registered bindings of a graphics stage, in order: one per texture-sampler, then one
  per storage texture, one per storage buffer and one per uniform buffer, each by its rule.
\<close>

definition graphics_rules ::
  "spvc_compiler \<Rightarrow> SpvExecutionModel \<Rightarrow> SpvId list \<Rightarrow> SpvId list \<Rightarrow> SpvId list \<Rightarrow> SpvId list \<Rightarrow>
   spvc_msl_resource_binding list \<Rightarrow> bool"
where
  "graphics_rules c em ts sts sbs ubs calls \<longleftrightarrow>
     (\<exists>A B C D. calls = A @ B @ C @ D \<and>
        list_all2 (graphics_texture_sampler_rule c em) ts A \<and>
        list_all2 (graphics_storage_texture_rule c em (length ts)) sts B \<and>
        list_all2 (graphics_storage_buffer_rule c em) sbs C \<and>
        list_all2 (graphics_uniform_buffer_rule c em (length sbs)) ubs D)"

text \<open>
  Compute.  ``Rules, in order (texture counter T and buffer counter B both start at 0):
  texture-samplers on set 0: msl\_texture = msl\_sampler = T, T++; storage-textures on set 0
  (readonly), then on set 1 (readwrite): msl\_texture = T + binding, T++; storage-buffers on
  set 0 (readonly): msl\_buffer = binding, B++; storage-buffers on set 1 (readwrite), then
  uniform-buffers on set 2: msl\_buffer = B + binding, B++.''  Each predicate relates a
  resource \<open>r\<close>, visited when the counter has the value \<open>T\<close> (or \<open>B\<close>), to the binding
  \<open>k\<close> registered for it.
\<close>

definition compute_texture_sampler_rule ::
  "spvc_compiler \<Rightarrow> SpvExecutionModel \<Rightarrow> u32 \<Rightarrow> SpvId \<Rightarrow> spvc_msl_resource_binding \<Rightarrow> bool"
where
  "compute_texture_sampler_rule c em T r k \<longleftrightarrow>
     descriptor_set_of c r = 0 \<and>
     stage k = em \<and> desc_set k = descriptor_set_of c r \<and> binding k = binding_of c r \<and>
     msl_texture k = T \<and> msl_sampler k = T"

definition compute_storage_texture_rule ::
  "spvc_compiler \<Rightarrow> SpvExecutionModel \<Rightarrow> u32 \<Rightarrow> u32 \<Rightarrow> SpvId \<Rightarrow> spvc_msl_resource_binding \<Rightarrow> bool"
where
  "compute_storage_texture_rule c em descriptor_set T r k \<longleftrightarrow>
     descriptor_set_of c r = descriptor_set \<and>
     stage k = em \<and> desc_set k = descriptor_set_of c r \<and> binding k = binding_of c r \<and>
     msl_texture k = T + binding_of c r"

definition compute_readonly_storage_buffer_rule ::
  "spvc_compiler \<Rightarrow> SpvExecutionModel \<Rightarrow> SpvId \<Rightarrow> spvc_msl_resource_binding \<Rightarrow> bool"
where
  "compute_readonly_storage_buffer_rule c em r k \<longleftrightarrow>
     descriptor_set_of c r = 0 \<and>
     stage k = em \<and> desc_set k = descriptor_set_of c r \<and> binding k = binding_of c r \<and>
     msl_buffer k = binding_of c r"

definition compute_buffer_rule ::
  "spvc_compiler \<Rightarrow> SpvExecutionModel \<Rightarrow> u32 \<Rightarrow> u32 \<Rightarrow> SpvId \<Rightarrow> spvc_msl_resource_binding \<Rightarrow> bool"
where
  "compute_buffer_rule c em descriptor_set B r k \<longleftrightarrow>
     descriptor_set_of c r = descriptor_set \<and>
     stage k = em \<and> desc_set k = descriptor_set_of c r \<and> binding k = binding_of c r \<and>
     msl_buffer k = B + binding_of c r"

definition on_set :: "spvc_compiler \<Rightarrow> u32 \<Rightarrow> SpvId list \<Rightarrow> SpvId list" where
  "on_set c descriptor_set rs = filter (\<lambda>r. descriptor_set_of c r = descriptor_set) rs"

text \<open>
  A counter that is incremented once per visited resource has the value \<open>start + i\<close> at
  the \<open>i\<close>-th resource: \<open>counted start rule rs ks\<close> relates the resources \<open>rs\<close>,
  visited in order from the counter value \<open>start\<close>, to their bindings \<open>ks\<close>.
\<close>

definition counted ::
  "nat \<Rightarrow> (u32 \<Rightarrow> SpvId \<Rightarrow> spvc_msl_resource_binding \<Rightarrow> bool) \<Rightarrow> SpvId list \<Rightarrow>
   spvc_msl_resource_binding list \<Rightarrow> bool"
where
  "counted start rule rs ks \<longleftrightarrow>
     list_all2 (\<lambda>ir k. rule (of_nat (fst ir)) (snd ir) k) (enumerate start rs) ks"

text \<open>
  The registered bindings of a compute stage, in the order of the six rules; the texture
  counter runs through the first three groups, the buffer counter through the last three.
\<close>

definition compute_rules ::
  "spvc_compiler \<Rightarrow> SpvExecutionModel \<Rightarrow> SpvId list \<Rightarrow> SpvId list \<Rightarrow> SpvId list \<Rightarrow> SpvId list \<Rightarrow>
   spvc_msl_resource_binding list \<Rightarrow> bool"
where
  "compute_rules c em ts sts sbs ubs calls \<longleftrightarrow>
     (\<exists>A B C D E F. calls = A @ B @ C @ D @ E @ F \<and>
        counted 0 (compute_texture_sampler_rule c em) ts A \<and>
        counted (length ts) (compute_storage_texture_rule c em 0) (on_set c 0 sts) B \<and>
        counted (length ts + length (on_set c 0 sts))
          (compute_storage_texture_rule c em 1) (on_set c 1 sts) C \<and>
        list_all2 (compute_readonly_storage_buffer_rule c em) (on_set c 0 sbs) D \<and>
        counted (length (on_set c 0 sbs)) (compute_buffer_rule c em 1) (on_set c 1 sbs) E \<and>
        counted (length (on_set c 0 sbs) + length (on_set c 1 sbs))
          (compute_buffer_rule c em 2) ubs F)"

text \<open>
  Within a group of registered bindings, two bindings share the Metal index \<open>index\<close>
  exactly when they share the binding number.
\<close>

definition indices_follow_bindings ::
  "(spvc_msl_resource_binding \<Rightarrow> u32) \<Rightarrow> spvc_msl_resource_binding list \<Rightarrow> bool"
where
  "indices_follow_bindings index ks \<longleftrightarrow>
     (\<forall>k\<in>set ks. \<forall>k'\<in>set ks. index k = index k' \<longleftrightarrow> binding k = binding k')"

subsection \<open>Conditions on the loader state\<close>

text \<open>
  The condition under which the unit of part\_002 reports the SPIRV-Cross formats: the
  library is linked statically, or its shared object is loaded.
\<close>

definition spirvcross_present :: "build_config \<Rightarrow> loader_state \<Rightarrow> bool" where
  "spirvcross_present cfg s \<longleftrightarrow>
     (if SDL_GPU_SHADERCROSS_STATIC cfg then True else spirvcross_dll s \<noteq> None)"

text \<open>
  What it means, in terms of the operating system's answers, that a native library loaded.
  The legacy compiler: its library loads and \<^verbatim>\<open>D3DCompile\<close> resolves in it.
\<close>

definition legacy_compiler_loads :: "build_config \<Rightarrow> operating_system \<Rightarrow> bool" where
  "legacy_compiler_loads cfg os \<longleftrightarrow>
     (case SDL_LoadObject os (D3DCOMPILER_DLL cfg) of
        None \<Rightarrow> False
      | Some h \<Rightarrow> SDL_LoadFunction os h ''D3DCompile'' \<noteq> None)"

text \<open>
  The HLSL compiler, in the unit of part\_002: its library loads, off Xbox the DXIL library
  loads as well, and \<^verbatim>\<open>DxcCreateInstance\<close> resolves.
\<close>

definition hlsl_compiler_loads :: "build_config \<Rightarrow> operating_system \<Rightarrow> bool" where
  "hlsl_compiler_loads cfg os \<longleftrightarrow>
     (case SDL_LoadObject os (DXCOMPILER_DLL cfg) of
        None \<Rightarrow> False
      | Some h \<Rightarrow>
          (if PLATFORM_XBOX cfg then True else SDL_LoadObject os (DXIL_DLL cfg) \<noteq> None) \<and>
          SDL_LoadFunction os h ''DxcCreateInstance'' \<noteq> None)"

text \<open>
  SPIRV-Cross, in the unit of part\_002: it is linked statically, or its shared object loads
  and each of the eleven functions is available, that is, its pointer is already set in the
  state \<^verbatim>\<open>Init\<close> starts from or the function resolves in the shared object.  From the
  initial state this says that all eleven resolve.
\<close>

definition resolves ::
  "operating_system \<Rightarrow> handle \<Rightarrow> (string \<Rightarrow> fnptr option) \<Rightarrow> string \<Rightarrow> bool"
where
  "resolves os dll table func \<longleftrightarrow>
     \<not> (table func = None \<and> SDL_LoadFunction os dll func = None)"

definition spirvcross_loads :: "build_config \<Rightarrow> operating_system \<Rightarrow> loader_state \<Rightarrow> bool" where
  "spirvcross_loads cfg os s \<longleftrightarrow>
     (if SDL_GPU_SHADERCROSS_STATIC cfg then True
      else (case SDL_LoadObject os (SDL_GPU_SPIRV_CROSS_DLL cfg) of
              None \<Rightarrow> False
            | Some dll \<Rightarrow> list_all (resolves os dll (SDL_spvc s)) spvc_function_names))"

section \<open>Concrete modules and environments\<close>

text \<open>
  A SPIRV-Cross answer set in which every call succeeds: the resource lists are \<open>resource_lists\<close>,
  a resource carries the decorations \<open>decorations\<close> gives it (\<open>None\<close>: undecorated,
  \<^verbatim>\<open>spvc_compiler_get_decoration\<close> then answers 0), the compiled text is fixed, the cleansed
  entry point appends \<open>0\<close> (as \<^verbatim>\<open>main\<close> becomes \<^verbatim>\<open>main0\<close>), and the local size is (8, 8, 1).
\<close>

definition example_compiler ::
  "(spvc_resource_type \<Rightarrow> SpvId list) \<Rightarrow> (SpvId \<Rightarrow> (u32 \<times> u32) option) \<Rightarrow> spvc_compiler"
where
  "example_compiler resource_lists decorations =
     \<lparr>create_compiler_options_ok = True,
      create_shader_resources_ok = True,
      get_resource_list_for_type = (\<lambda>t. Some (resource_lists t)),
      has_decoration = (\<lambda>r d. decorations r \<noteq> None),
      get_decoration =
        (\<lambda>r d. case decorations r of
                  None \<Rightarrow> 0
                | Some sb \<Rightarrow> if d = SpvDecorationDescriptorSet then fst sb else snd sb),
      msl_add_resource_binding_ok = (\<lambda>b. True),
      install_compiler_options_ok = True,
      compiler_compile = (\<lambda>options bindings. Some ''translated''),
      get_cleansed_entry_point_name = (\<lambda>entrypoint. entrypoint @ ''0''),
      get_execution_mode_argument_by_index = (\<lambda>i. if i = 2 then 1 else 8)\<rparr>"

text \<open>
  A SPIRV-Cross library that parses exactly the inputs of at least five words that start
  with the SPIR-V magic number (bytes 03 02 23 07) and then answers as \<open>c\<close>.
\<close>

definition example_api :: "spvc_compiler \<Rightarrow> spvc_api" where
  "example_api c =
     \<lparr>context_create_ok = True,
      context_parse_spirv =
        (\<lambda>code words.
           if 5 \<le> words \<and> take 4 code = [0x03, 0x02, 0x23, 0x07]
           then Some \<lparr>context_create_compiler = (\<lambda>backend. Some c)\<rparr>
           else None)\<rparr>"

definition example_code :: bytes where
  "example_code = [0x03, 0x02, 0x23, 0x07] @ replicate 16 0"

definition example_binding :: spvc_msl_resource_binding where
  "example_binding =
     \<lparr>stage = SpvExecutionModelVertex, desc_set = 0, binding = 0,
      msl_buffer = 0, msl_texture = 0, msl_sampler = 0\<rparr>"

text \<open>
  A vertex-stage module in the conventional layout: a sampler at (set 0, binding 0), a
  storage texture at (0, 1), a storage buffer at (0, 2), a uniform buffer at (1, 0); the
  resource ids are 1 to 4.
\<close>

definition example_lists :: "spvc_resource_type \<Rightarrow> SpvId list" where
  "example_lists t =
     (case t of
        SPVC_RESOURCE_TYPE_SAMPLED_IMAGE \<Rightarrow> [1]
      | SPVC_RESOURCE_TYPE_SEPARATE_SAMPLERS \<Rightarrow> []
      | SPVC_RESOURCE_TYPE_STORAGE_IMAGE \<Rightarrow> [2]
      | SPVC_RESOURCE_TYPE_STORAGE_BUFFER \<Rightarrow> [3]
      | SPVC_RESOURCE_TYPE_UNIFORM_BUFFER \<Rightarrow> [4])"

definition vertex_decorations :: "SpvId \<Rightarrow> (u32 \<times> u32) option" where
  "vertex_decorations r =
     (if r = 1 then Some (0, 0) else if r = 2 then Some (0, 1)
      else if r = 3 then Some (0, 2) else if r = 4 then Some (1, 0) else None)"

definition vertex_module :: spvc_compiler where
  "vertex_module = example_compiler example_lists vertex_decorations"

text \<open>The same module with its storage buffer moved to descriptor set 1.\<close>

definition bad_vertex_module :: spvc_compiler where
  "bad_vertex_module =
     example_compiler example_lists (vertex_decorations(3 := Some (1, 2)))"

definition vertex_module_bindings :: "spvc_msl_resource_binding list" where
  "vertex_module_bindings =
     [\<lparr>stage = SpvExecutionModelVertex, desc_set = 0, binding = 0,
       msl_buffer = 0, msl_texture = 0, msl_sampler = 0\<rparr>,
      \<lparr>stage = SpvExecutionModelVertex, desc_set = 0, binding = 1,
       msl_buffer = 0, msl_texture = 2, msl_sampler = 0\<rparr>,
      \<lparr>stage = SpvExecutionModelVertex, desc_set = 0, binding = 2,
       msl_buffer = 2, msl_texture = 2, msl_sampler = 0\<rparr>,
      \<lparr>stage = SpvExecutionModelVertex, desc_set = 1, binding = 0,
       msl_buffer = 1, msl_texture = 2, msl_sampler = 0\<rparr>]"

text \<open>
  A compute module in the conventional layout: a sampler at (set 0, binding 0), a read-only
  storage texture at (0, 1), a read-only storage buffer at (0, 2), a read-write storage
  texture at (1, 0), a read-write storage buffer at (1, 1) and a uniform buffer at (2, 0);
  the resource ids are 1 to 6.
\<close>

definition compute_lists :: "spvc_resource_type \<Rightarrow> SpvId list" where
  "compute_lists t =
     (case t of
        SPVC_RESOURCE_TYPE_SAMPLED_IMAGE \<Rightarrow> [1]
      | SPVC_RESOURCE_TYPE_SEPARATE_SAMPLERS \<Rightarrow> []
      | SPVC_RESOURCE_TYPE_STORAGE_IMAGE \<Rightarrow> [2, 4]
      | SPVC_RESOURCE_TYPE_STORAGE_BUFFER \<Rightarrow> [3, 5]
      | SPVC_RESOURCE_TYPE_UNIFORM_BUFFER \<Rightarrow> [6])"

definition compute_decorations :: "SpvId \<Rightarrow> (u32 \<times> u32) option" where
  "compute_decorations r =
     (if r = 1 then Some (0, 0) else if r = 2 then Some (0, 1)
      else if r = 3 then Some (0, 2) else if r = 4 then Some (1, 0)
      else if r = 5 then Some (1, 1) else if r = 6 then Some (2, 0) else None)"

definition compute_module :: spvc_compiler where
  "compute_module = example_compiler compute_lists compute_decorations"

definition compute_module_bindings :: "spvc_msl_resource_binding list" where
  "compute_module_bindings =
     [\<lparr>stage = SpvExecutionModelKernel, desc_set = 0, binding = 0,
       msl_buffer = 0, msl_texture = 0, msl_sampler = 0\<rparr>,
      \<lparr>stage = SpvExecutionModelKernel, desc_set = 0, binding = 1,
       msl_buffer = 0, msl_texture = 2, msl_sampler = 0\<rparr>,
      \<lparr>stage = SpvExecutionModelKernel, desc_set = 1, binding = 0,
       msl_buffer = 0, msl_texture = 2, msl_sampler = 0\<rparr>,
      \<lparr>stage = SpvExecutionModelKernel, desc_set = 0, binding = 2,
       msl_buffer = 2, msl_texture = 2, msl_sampler = 0\<rparr>,
      \<lparr>stage = SpvExecutionModelKernel, desc_set = 1, binding = 1,
       msl_buffer = 2, msl_texture = 2, msl_sampler = 0\<rparr>,
      \<lparr>stage = SpvExecutionModelKernel, desc_set = 2, binding = 0,
       msl_buffer = 2, msl_texture = 2, msl_sampler = 0\<rparr>]"

text \<open>The same module with its second storage buffer moved to descriptor set 2.\<close>

definition bad_compute_module :: spvc_compiler where
  "bad_compute_module =
     example_compiler compute_lists (compute_decorations(5 := Some (2, 1)))"

text \<open>
  The vertex module with its uniform buffer stripped of both decorations, and the compute
  module with its sampler moved to descriptor set 5 and its uniform buffer to set 7.
\<close>

definition undecorated_vertex_module :: spvc_compiler where
  "undecorated_vertex_module =
     example_compiler example_lists (vertex_decorations(4 := None))"

definition misplaced_compute_module :: spvc_compiler where
  "misplaced_compute_module =
     example_compiler compute_lists (compute_decorations(1 := Some (5, 0), 6 := Some (7, 0)))"

text \<open>
  An environment in which every backend is present: SPIRV-Cross answers as \<open>c\<close>, DXC
  produces \<open>example_code\<close> when asked for SPIR-V and four other bytes otherwise, and the
  legacy compiler produces four bytes.
\<close>

definition example_environment :: "spvc_compiler \<Rightarrow> environment" where
  "example_environment c =
     \<lparr>spvc = example_api c,
      uninitialised_binding = example_binding,
      SDL_GPU_SHADERCROSS_DXC = True,
      dxc_instances_ok = True,
      dxc_Compile =
        (\<lambda>source args. if ''-spirv'' \<in> set args then Some example_code
                        else Some [0x44, 0x58, 0x49, 0x4C]),
      D3DCompile = Some (\<lambda>source entrypoint profile. Some [0x44, 0x58, 0x42, 0x43])\<rparr>"

text \<open>
  A build configuration (a Linux host with SPIRV-Cross loaded at run time and no
  user-defined symbol) and three operating systems: every library of the Linux host is
  present and every function resolves; the two HLSL compilers are present and SPIRV-Cross
  is not; nothing can be loaded.
\<close>

definition linux_config :: build_config where
  "linux_config =
     \<lparr>PLATFORM_XBOX = False, SDL_GPU_SHADERCROSS_STATIC = False,
      SDL_GPU_SHADERCROSS_SPIRV = False,
      DXCOMPILER_DLL = ''libdxcompiler.so'', DXIL_DLL = ''libdxil.so'',
      D3DCOMPILER_DLL = ''libvkd3d-utils.so.1'',
      SDL_GPU_SPIRV_CROSS_DLL = ''libspirv-cross-c-shared.so.0''\<rparr>"

definition all_libraries :: operating_system where
  "all_libraries =
     \<lparr>SDL_LoadObject =
        (\<lambda>name. if name = ''libdxcompiler.so'' then Some 1
                 else if name = ''libdxil.so'' then Some 2
                 else if name = ''libvkd3d-utils.so.1'' then Some 3
                 else if name = ''libspirv-cross-c-shared.so.0'' then Some 4
                 else None),
      SDL_LoadFunction = (\<lambda>h name. Some (100 * h + length name))\<rparr>"

definition no_spirvcross :: operating_system where
  "no_spirvcross =
     \<lparr>SDL_LoadObject =
        (\<lambda>name. if name = ''libdxcompiler.so'' then Some 1
                 else if name = ''libdxil.so'' then Some 2
                 else if name = ''libvkd3d-utils.so.1'' then Some 3
                 else None),
      SDL_LoadFunction = (\<lambda>h name. Some (100 * h + length name))\<rparr>"

definition no_libraries :: operating_system where
  "no_libraries =
     \<lparr>SDL_LoadObject = (\<lambda>name. None), SDL_LoadFunction = (\<lambda>h name. None)\<rparr>"

text \<open>
  A module with two samplers, at (set 0, binding 0) and (set 0, binding 1), and nothing
  else; and a vertex module in the conventional layout with a sampler at (0, 0), a storage
  buffer at (0, 1) and a uniform buffer at (1, 0).
\<close>

definition two_sampler_lists :: "spvc_resource_type \<Rightarrow> SpvId list" where
  "two_sampler_lists t =
     (case t of
        SPVC_RESOURCE_TYPE_SAMPLED_IMAGE \<Rightarrow> [1, 2]
      | SPVC_RESOURCE_TYPE_SEPARATE_SAMPLERS \<Rightarrow> []
      | SPVC_RESOURCE_TYPE_STORAGE_IMAGE \<Rightarrow> []
      | SPVC_RESOURCE_TYPE_STORAGE_BUFFER \<Rightarrow> []
      | SPVC_RESOURCE_TYPE_UNIFORM_BUFFER \<Rightarrow> [])"

definition two_sampler_module :: spvc_compiler where
  "two_sampler_module =
     example_compiler two_sampler_lists
       (\<lambda>r. if r = 1 then Some (0, 0) else if r = 2 then Some (0, 1) else None)"

definition two_sampler_bindings :: "SpvExecutionModel \<Rightarrow> spvc_msl_resource_binding list" where
  "two_sampler_bindings em =
     [\<lparr>stage = em, desc_set = 0, binding = 0,
       msl_buffer = 0, msl_texture = 0, msl_sampler = 0\<rparr>,
      \<lparr>stage = em, desc_set = 0, binding = 1,
       msl_buffer = 0, msl_texture = 1, msl_sampler = 1\<rparr>]"

definition buffer_lists :: "spvc_resource_type \<Rightarrow> SpvId list" where
  "buffer_lists t =
     (case t of
        SPVC_RESOURCE_TYPE_SAMPLED_IMAGE \<Rightarrow> [1]
      | SPVC_RESOURCE_TYPE_SEPARATE_SAMPLERS \<Rightarrow> []
      | SPVC_RESOURCE_TYPE_STORAGE_IMAGE \<Rightarrow> []
      | SPVC_RESOURCE_TYPE_STORAGE_BUFFER \<Rightarrow> [2]
      | SPVC_RESOURCE_TYPE_UNIFORM_BUFFER \<Rightarrow> [3])"

definition buffer_module :: spvc_compiler where
  "buffer_module =
     example_compiler buffer_lists
       (\<lambda>r. if r = 1 then Some (0, 0) else if r = 2 then Some (0, 1)
            else if r = 3 then Some (1, 0) else None)"

section \<open>Properties of the remapping loops\<close>

lemma graphics_loop_Some:
  "graphics_loop c em allowed assign checked rs (b, calls) = Some (b', calls') \<Longrightarrow>
   \<exists>new. calls' = calls @ new \<and>
     list_all2 (\<lambda>r k. has_set_and_binding c r \<and> allowed (descriptor_set_of c r) \<and>
        (\<exists>p. k = assign (binding_of c r)
                 (fill_binding em (descriptor_set_of c r) (binding_of c r) p))) rs new"
proof (induction rs arbitrary: b calls)
  case Nil
  then show ?case by simp
next
  case (Cons r rs)
  let ?b1 = "assign (binding_of c r) (fill_binding em (descriptor_set_of c r) (binding_of c r) b)"
  from Cons.prems have ok: "has_set_and_binding c r" "allowed (descriptor_set_of c r)"
    and rest: "graphics_loop c em allowed assign checked rs (?b1, calls @ [?b1]) = Some (b', calls')"
    by (auto simp: Let_def split: if_splits)
  from Cons.IH[OF rest] obtain new where
    new: "calls' = (calls @ [?b1]) @ new"
      "list_all2 (\<lambda>r k. has_set_and_binding c r \<and> allowed (descriptor_set_of c r) \<and>
        (\<exists>p. k = assign (binding_of c r)
                 (fill_binding em (descriptor_set_of c r) (binding_of c r) p))) rs new"
    by blast
  show ?case
    by (rule exI[of _ "?b1 # new"]) (use ok new in auto)
qed

lemma graphics_loop_None:
  "\<exists>r\<in>set rs. \<not> has_set_and_binding c r \<or> \<not> allowed (descriptor_set_of c r) \<Longrightarrow>
   graphics_loop c em allowed assign checked rs s = None"
proof (induction rs arbitrary: s)
  case Nil
  then show ?case by simp
next
  case (Cons r rs)
  obtain b calls where s: "s = (b, calls)" by (cases s)
  show ?case
  proof (cases "\<not> has_set_and_binding c r \<or> \<not> allowed (descriptor_set_of c r)")
    case True
    then show ?thesis by (auto simp: s Let_def)
  next
    case False
    with Cons.prems have "\<exists>r\<in>set rs. \<not> has_set_and_binding c r \<or> \<not> allowed (descriptor_set_of c r)"
      by auto
    from Cons.IH[OF this] show ?thesis by (simp add: s Let_def)
  qed
qed

lemma compute_loop_Some:
  "compute_loop c em validate allowed selected assign checked rs (b, calls, of_nat m) = Some (b', calls', n') \<Longrightarrow>
   \<exists>new. calls' = calls @ new \<and>
     n' = of_nat (m + length new) \<and>
     (validate \<longrightarrow> (\<forall>r\<in>set rs. has_set_and_binding c r \<and> allowed (descriptor_set_of c r))) \<and>
     list_all2 (\<lambda>ir k. selected (descriptor_set_of c (snd ir)) \<and>
          (\<exists>p. k = assign (of_nat (fst ir)) (binding_of c (snd ir))
                 (fill_binding em (descriptor_set_of c (snd ir)) (binding_of c (snd ir)) p)))
       (enumerate m (filter (\<lambda>r. selected (descriptor_set_of c r)) rs)) new"
proof (induction rs arbitrary: b calls m)
  case Nil
  then show ?case by simp
next
  case (Cons r rs)
  from Cons.prems have v: "validate \<longrightarrow> has_set_and_binding c r \<and> allowed (descriptor_set_of c r)"
    by (auto simp: Let_def split: if_splits)
  show ?case
  proof (cases "selected (descriptor_set_of c r)")
    case False
    with Cons.prems have rest:
      "compute_loop c em validate allowed selected assign checked rs (b, calls, of_nat m) = Some (b', calls', n')"
      by (auto simp: Let_def split: if_splits)
    from Cons.IH[OF rest] v False show ?thesis by auto
  next
    case True
    let ?b1 = "assign (of_nat m) (binding_of c r) (fill_binding em (descriptor_set_of c r) (binding_of c r) b)"
    from Cons.prems True have rest0:
      "compute_loop c em validate allowed selected assign checked rs (?b1, calls @ [?b1], of_nat m + 1) = Some (b', calls', n')"
      by (auto simp: Let_def split: if_splits)
    have "(of_nat m + 1 :: u32) = of_nat (Suc m)" by simp
    with rest0 have rest:
      "compute_loop c em validate allowed selected assign checked rs (?b1, calls @ [?b1], of_nat (Suc m)) = Some (b', calls', n')"
      by simp
    from Cons.IH[OF rest] obtain new where
      new: "calls' = (calls @ [?b1]) @ new" "n' = of_nat (Suc m + length new)"
        "validate \<longrightarrow> (\<forall>r\<in>set rs. has_set_and_binding c r \<and> allowed (descriptor_set_of c r))"
        "list_all2 (\<lambda>ir k. selected (descriptor_set_of c (snd ir)) \<and>
            (\<exists>p. k = assign (of_nat (fst ir)) (binding_of c (snd ir))
                 (fill_binding em (descriptor_set_of c (snd ir)) (binding_of c (snd ir)) p)))
           (enumerate (Suc m) (filter (\<lambda>r. selected (descriptor_set_of c r)) rs)) new"
      by blast
    show ?thesis
      by (rule exI[of _ "?b1 # new"]) (use v True new in auto)
  qed
qed

lemma compute_loop_None:
  "validate \<Longrightarrow> \<exists>r\<in>set rs. \<not> has_set_and_binding c r \<or> \<not> allowed (descriptor_set_of c r) \<Longrightarrow>
   compute_loop c em validate allowed selected assign checked rs s = None"
proof (induction rs arbitrary: s)
  case Nil
  then show ?case by simp
next
  case (Cons r rs)
  obtain b calls n where s: "s = (b, calls, n)" by (cases s)
  show ?case
  proof (cases "\<not> has_set_and_binding c r \<or> \<not> allowed (descriptor_set_of c r)")
    case True
    then show ?thesis using Cons.prems(1) by (auto simp: s Let_def)
  next
    case False
    with Cons.prems have "\<exists>r\<in>set rs. \<not> has_set_and_binding c r \<or> \<not> allowed (descriptor_set_of c r)"
      by auto
    from Cons.IH[OF Cons.prems(1) this] show ?thesis by (simp add: s Let_def)
  qed
qed

lemma graphics_loop_rule:
  assumes run: "graphics_loop c em allowed assign checked rs (b, calls) = Some (b', calls')"
    and rule: "\<And>r p. allowed (descriptor_set_of c r) \<Longrightarrow>
       R r (assign (binding_of c r) (fill_binding em (descriptor_set_of c r) (binding_of c r) p))"
  shows "\<exists>new. calls' = calls @ new \<and> list_all2 R rs new"
proof -
  from graphics_loop_Some[OF run] obtain new where
    new: "calls' = calls @ new"
    and all: "list_all2 (\<lambda>r k. has_set_and_binding c r \<and> allowed (descriptor_set_of c r) \<and>
        (\<exists>p. k = assign (binding_of c r)
                 (fill_binding em (descriptor_set_of c r) (binding_of c r) p))) rs new"
    by blast
  have "list_all2 R rs new"
    by (rule list_all2_mono[OF all]) (use rule in blast)
  with new show ?thesis by blast
qed

lemma remap_graphics_Some:
  assumes "remap_graphics c em b0 = Some calls"
  shows "\<exists>ts sts sbs ubs.
     texture_sampler_list c = Some ts \<and>
     get_resource_list_for_type c SPVC_RESOURCE_TYPE_STORAGE_IMAGE = Some sts \<and>
     get_resource_list_for_type c SPVC_RESOURCE_TYPE_STORAGE_BUFFER = Some sbs \<and>
     get_resource_list_for_type c SPVC_RESOURCE_TYPE_UNIFORM_BUFFER = Some ubs \<and>
     graphics_rules c em ts sts sbs ubs calls"
proof -
  from assms obtain ts s1 sts s2 sbs s3 ubs s4 where
    l: "texture_sampler_list c = Some ts"
       "get_resource_list_for_type c SPVC_RESOURCE_TYPE_STORAGE_IMAGE = Some sts"
       "get_resource_list_for_type c SPVC_RESOURCE_TYPE_STORAGE_BUFFER = Some sbs"
       "get_resource_list_for_type c SPVC_RESOURCE_TYPE_UNIFORM_BUFFER = Some ubs"
    and g1: "graphics_texture_samplers c em ts (b0, []) = Some s1"
    and g2: "graphics_storage_textures c em (length ts) sts s1 = Some s2"
    and g3: "graphics_storage_buffers c em sbs s2 = Some s3"
    and g4: "graphics_uniform_buffers c em (length sbs) ubs s3 = Some s4"
    and r: "calls = snd s4"
    by (auto simp: remap_graphics_def split: if_splits Option.bind_splits)
  obtain b1 A where s1: "s1 = (b1, A)" by (cases s1)
  obtain b2 c2 where s2: "s2 = (b2, c2)" by (cases s2)
  obtain b3 c3 where s3: "s3 = (b3, c3)" by (cases s3)
  obtain b4 c4 where s4: "s4 = (b4, c4)" by (cases s4)
  have "\<exists>new. A = [] @ new \<and> list_all2 (graphics_texture_sampler_rule c em) ts new"
    by (rule graphics_loop_rule[OF g1[unfolded graphics_texture_samplers_def s1]])
       (simp add: graphics_texture_sampler_rule_def fill_binding_def)
  then have A: "list_all2 (graphics_texture_sampler_rule c em) ts A" by simp
  have "\<exists>new. c2 = A @ new \<and> list_all2 (graphics_storage_texture_rule c em (length ts)) sts new"
    by (rule graphics_loop_rule[OF g2[unfolded graphics_storage_textures_def s1 s2]])
       (simp add: graphics_storage_texture_rule_def fill_binding_def)
  then obtain B where B: "c2 = A @ B" "list_all2 (graphics_storage_texture_rule c em (length ts)) sts B"
    by blast
  have "\<exists>new. c3 = c2 @ new \<and> list_all2 (graphics_storage_buffer_rule c em) sbs new"
    by (rule graphics_loop_rule[OF g3[unfolded graphics_storage_buffers_def s2 s3]])
       (simp add: graphics_storage_buffer_rule_def fill_binding_def)
  then obtain C where C: "c3 = c2 @ C" "list_all2 (graphics_storage_buffer_rule c em) sbs C"
    by blast
  have "\<exists>new. c4 = c3 @ new \<and> list_all2 (graphics_uniform_buffer_rule c em (length sbs)) ubs new"
    by (rule graphics_loop_rule[OF g4[unfolded graphics_uniform_buffers_def s3 s4]])
       (simp add: graphics_uniform_buffer_rule_def fill_binding_def)
  then obtain D where D: "c4 = c3 @ D" "list_all2 (graphics_uniform_buffer_rule c em (length sbs)) ubs D"
    by blast
  have "graphics_rules c em ts sts sbs ubs calls"
    unfolding graphics_rules_def using A B C D r s4 by auto
  with l show ?thesis by blast
qed

lemma remap_graphics_None:
  assumes "texture_sampler_list c = Some ts"
    and "get_resource_list_for_type c SPVC_RESOURCE_TYPE_STORAGE_IMAGE = Some sts"
    and "get_resource_list_for_type c SPVC_RESOURCE_TYPE_STORAGE_BUFFER = Some sbs"
    and "get_resource_list_for_type c SPVC_RESOURCE_TYPE_UNIFORM_BUFFER = Some ubs"
    and "(\<exists>r\<in>set ts. \<not> set_0_or_2 (descriptor_set_of c r)) \<or>
         (\<exists>r\<in>set sts. \<not> set_0_or_2 (descriptor_set_of c r)) \<or>
         (\<exists>r\<in>set sbs. \<not> set_0_or_2 (descriptor_set_of c r)) \<or>
         (\<exists>r\<in>set ubs. \<not> set_1_or_3 (descriptor_set_of c r))"
  shows "remap_graphics c em b0 = None"
proof (rule ccontr)
  assume "remap_graphics c em b0 \<noteq> None"
  then obtain calls where "remap_graphics c em b0 = Some calls" by auto
  from remap_graphics_Some[OF this] assms(1-4)
  have "graphics_rules c em ts sts sbs ubs calls" by auto
  then obtain A B C D where
    "list_all2 (graphics_texture_sampler_rule c em) ts A"
    "list_all2 (graphics_storage_texture_rule c em (length ts)) sts B"
    "list_all2 (graphics_storage_buffer_rule c em) sbs C"
    "list_all2 (graphics_uniform_buffer_rule c em (length sbs)) ubs D"
    unfolding graphics_rules_def by blast
  then have "\<forall>r\<in>set ts. set_0_or_2 (descriptor_set_of c r)"
     "\<forall>r\<in>set sts. set_0_or_2 (descriptor_set_of c r)"
     "\<forall>r\<in>set sbs. set_0_or_2 (descriptor_set_of c r)"
     "\<forall>r\<in>set ubs. set_1_or_3 (descriptor_set_of c r)"
    by (auto simp: list_all2_conv_all_nth in_set_conv_nth graphics_texture_sampler_rule_def
        graphics_storage_texture_rule_def graphics_storage_buffer_rule_def
        graphics_uniform_buffer_rule_def)
  with assms(5) show False by blast
qed

section \<open>Graphics remapping\<close>

lemma Transpile_msl_remap:
  assumes "context_parse_spirv api code (codeSize div 4) = Some ir"
    and "context_create_compiler ir backend = Some c"
    and "SDL_ShaderCross_INTERNAL_TranspileFromSPIRV api b0 backend shadermodel shaderStage
           code codeSize entrypoint = Some ctx"
  shows "msl_remap c backend shaderStage b0 = Some (spvc_context ctx)"
  using assms
  by (auto simp: SDL_ShaderCross_INTERNAL_TranspileFromSPIRV_def
           split: if_splits Option.bind_splits)

lemma Transpile_remap_None:
  assumes "context_parse_spirv api code (codeSize div 4) = Some ir"
    and "context_create_compiler ir backend = Some c"
    and "msl_remap c backend shaderStage b0 = None"
  shows "SDL_ShaderCross_INTERNAL_TranspileFromSPIRV api b0 backend shadermodel shaderStage
           code codeSize entrypoint = None"
  using assms by (simp add: SDL_ShaderCross_INTERNAL_TranspileFromSPIRV_def)

text \<open>
  Claim C1.  For a vertex- or fragment-stage MSL transpilation of a module whose resource
  lists are \<open>ts\<close> (texture-samplers), \<open>sts\<close> (storage textures), \<open>sbs\<close> (storage buffers)
  and \<open>ubs\<close> (uniform buffers): whenever the transpiler returns a context, the bindings it
  registered are, in order, one per texture-sampler with set 0 or 2 and
  msl\_texture = msl\_sampler = binding, one per storage texture with set 0 or 2 and
  msl\_texture = N\_ts + binding, one per storage buffer with set 0 or 2 and
  msl\_buffer = binding, and one per uniform buffer with set 1 or 3 and
  msl\_buffer = N\_sb + binding, where N\_ts and N\_sb are the lengths of \<open>ts\<close> and \<open>sbs\<close>
  (sums in the 32 bits of the index fields); and when some resource has a descriptor set
  outside the pair allowed for its kind, the transpiler returns \<^verbatim>\<open>NULL\<close>.
\<close>

theorem graphics_msl_remapping:
  assumes stage: "shaderStage \<noteq> SDL_SHADERCROSS_SHADERSTAGE_COMPUTE"
    and parsed: "context_parse_spirv api code (codeSize div 4) = Some ir"
    and compiler: "context_create_compiler ir SPVC_BACKEND_MSL = Some c"
    and ts: "texture_sampler_list c = Some ts"
    and sts: "get_resource_list_for_type c SPVC_RESOURCE_TYPE_STORAGE_IMAGE = Some sts"
    and sbs: "get_resource_list_for_type c SPVC_RESOURCE_TYPE_STORAGE_BUFFER = Some sbs"
    and ubs: "get_resource_list_for_type c SPVC_RESOURCE_TYPE_UNIFORM_BUFFER = Some ubs"
  shows
    "(\<forall>ctx. SDL_ShaderCross_INTERNAL_TranspileFromSPIRV api b0 SPVC_BACKEND_MSL shadermodel
              shaderStage code codeSize entrypoint = Some ctx \<longrightarrow>
        graphics_rules c (execution_model_of shaderStage) ts sts sbs ubs (spvc_context ctx)) \<and>
     ((\<exists>r\<in>set ts. \<not> set_0_or_2 (descriptor_set_of c r)) \<or>
      (\<exists>r\<in>set sts. \<not> set_0_or_2 (descriptor_set_of c r)) \<or>
      (\<exists>r\<in>set sbs. \<not> set_0_or_2 (descriptor_set_of c r)) \<or>
      (\<exists>r\<in>set ubs. \<not> set_1_or_3 (descriptor_set_of c r)) \<longrightarrow>
      SDL_ShaderCross_INTERNAL_TranspileFromSPIRV api b0 SPVC_BACKEND_MSL shadermodel
        shaderStage code codeSize entrypoint = None)"
proof (intro conjI allI impI)
  fix ctx
  assume "SDL_ShaderCross_INTERNAL_TranspileFromSPIRV api b0 SPVC_BACKEND_MSL shadermodel
            shaderStage code codeSize entrypoint = Some ctx"
  from Transpile_msl_remap[OF parsed compiler this] stage
  have "remap_graphics c (execution_model_of shaderStage) b0 = Some (spvc_context ctx)"
    by (simp add: msl_remap_def)
  from remap_graphics_Some[OF this] ts sts sbs ubs
  show "graphics_rules c (execution_model_of shaderStage) ts sts sbs ubs (spvc_context ctx)"
    by auto
next
  assume "(\<exists>r\<in>set ts. \<not> set_0_or_2 (descriptor_set_of c r)) \<or>
      (\<exists>r\<in>set sts. \<not> set_0_or_2 (descriptor_set_of c r)) \<or>
      (\<exists>r\<in>set sbs. \<not> set_0_or_2 (descriptor_set_of c r)) \<or>
      (\<exists>r\<in>set ubs. \<not> set_1_or_3 (descriptor_set_of c r))"
  from remap_graphics_None[OF ts sts sbs ubs this] stage
  have "msl_remap c SPVC_BACKEND_MSL shaderStage b0 = None"
    by (simp add: msl_remap_def)
  from Transpile_remap_None[OF parsed compiler this]
  show "SDL_ShaderCross_INTERNAL_TranspileFromSPIRV api b0 SPVC_BACKEND_MSL shadermodel
        shaderStage code codeSize entrypoint = None" .
qed

lemmas example_defs =
  example_api_def example_code_def example_compiler_def example_lists_def example_binding_def
  texture_sampler_list_def has_set_and_binding_def descriptor_set_of_def binding_of_def
  fill_binding_def

lemma vertex_module_transpiles:
  "SDL_ShaderCross_INTERNAL_TranspileFromSPIRV (example_api vertex_module) example_binding
     SPVC_BACKEND_MSL 0 SDL_SHADERCROSS_SHADERSTAGE_VERTEX example_code 20 ''main'' =
   Some \<lparr>spvc_context = vertex_module_bindings, translated_source = ''translated'',
         cleansed_entrypoint = ''main0''\<rparr>"
  by code_simp

theorem graphics_msl_remapping_witness:
  "SDL_ShaderCross_INTERNAL_TranspileFromSPIRV (example_api vertex_module) example_binding
     SPVC_BACKEND_MSL 0 SDL_SHADERCROSS_SHADERSTAGE_VERTEX example_code 20 ''main'' =
   Some \<lparr>spvc_context = vertex_module_bindings, translated_source = ''translated'',
         cleansed_entrypoint = ''main0''\<rparr> \<and>
   graphics_rules vertex_module SpvExecutionModelVertex [1] [2] [3] [4] vertex_module_bindings \<and>
   SDL_ShaderCross_INTERNAL_TranspileFromSPIRV (example_api bad_vertex_module) example_binding
     SPVC_BACKEND_MSL 0 SDL_SHADERCROSS_SHADERSTAGE_VERTEX example_code 20 ''main'' = None"
proof -
  have stage: "SDL_SHADERCROSS_SHADERSTAGE_VERTEX \<noteq> SDL_SHADERCROSS_SHADERSTAGE_COMPUTE"
    by simp
  have parsed: "\<And>c. context_parse_spirv (example_api c) example_code (20 div 4) =
      Some \<lparr>context_create_compiler = (\<lambda>backend. Some c)\<rparr>"
    by (simp add: example_defs)
  have compiler: "\<And>c. context_create_compiler \<lparr>context_create_compiler = (\<lambda>backend. Some c)\<rparr>
      SPVC_BACKEND_MSL = Some c"
    by simp
  have lists: "\<And>d. texture_sampler_list (example_compiler example_lists d) = Some [1]"
    "\<And>d. get_resource_list_for_type (example_compiler example_lists d)
        SPVC_RESOURCE_TYPE_STORAGE_IMAGE = Some [2]"
    "\<And>d. get_resource_list_for_type (example_compiler example_lists d)
        SPVC_RESOURCE_TYPE_STORAGE_BUFFER = Some [3]"
    "\<And>d. get_resource_list_for_type (example_compiler example_lists d)
        SPVC_RESOURCE_TYPE_UNIFORM_BUFFER = Some [4]"
    by (simp_all add: example_defs)
  note good = graphics_msl_remapping[OF stage parsed compiler
      lists[of vertex_decorations, folded vertex_module_def],
      of example_binding 0 "''main''"]
  note bad = graphics_msl_remapping[OF stage parsed compiler
      lists[of "vertex_decorations(3 := Some (1, 2))", folded bad_vertex_module_def],
      of example_binding 0 "''main''"]
  have "\<exists>r\<in>set [3]. \<not> set_0_or_2 (descriptor_set_of bad_vertex_module r)"
    by (simp add: set_0_or_2_def bad_vertex_module_def vertex_decorations_def example_defs)
  with bad have "SDL_ShaderCross_INTERNAL_TranspileFromSPIRV (example_api bad_vertex_module)
     example_binding SPVC_BACKEND_MSL 0 SDL_SHADERCROSS_SHADERSTAGE_VERTEX example_code 20
     ''main'' = None"
    by blast
  moreover from good vertex_module_transpiles
  have "graphics_rules vertex_module SpvExecutionModelVertex [1] [2] [3] [4]
          vertex_module_bindings"
    by (simp add: execution_model_of_def)
  ultimately show ?thesis using vertex_module_transpiles by blast
qed

section \<open>Compute remapping\<close>

lemma compute_loop_rule:
  assumes run: "compute_loop c em validate allowed selected assign checked rs (b, calls, of_nat m)
      = Some (b', calls', n')"
    and rule: "\<And>i r p. selected (descriptor_set_of c r) \<Longrightarrow>
       (validate \<longrightarrow> allowed (descriptor_set_of c r)) \<Longrightarrow>
       R (of_nat i) r (assign (of_nat i) (binding_of c r)
           (fill_binding em (descriptor_set_of c r) (binding_of c r) p))"
  shows "\<exists>new. calls' = calls @ new \<and>
     n' = of_nat (m + length (filter (\<lambda>r. selected (descriptor_set_of c r)) rs)) \<and>
     (validate \<longrightarrow> (\<forall>r\<in>set rs. has_set_and_binding c r \<and> allowed (descriptor_set_of c r))) \<and>
     counted m R (filter (\<lambda>r. selected (descriptor_set_of c r)) rs) new"
proof -
  let ?fs = "filter (\<lambda>r. selected (descriptor_set_of c r)) rs"
  from compute_loop_Some[OF run] obtain new where
    new: "calls' = calls @ new" "n' = of_nat (m + length new)"
    and valid: "validate \<longrightarrow> (\<forall>r\<in>set rs. has_set_and_binding c r \<and> allowed (descriptor_set_of c r))"
    and all: "list_all2 (\<lambda>ir k. selected (descriptor_set_of c (snd ir)) \<and>
          (\<exists>p. k = assign (of_nat (fst ir)) (binding_of c (snd ir))
                 (fill_binding em (descriptor_set_of c (snd ir)) (binding_of c (snd ir)) p)))
       (enumerate m ?fs) new"
    by blast
  from all have len: "length new = length ?fs"
    by (simp add: list_all2_lengthD[symmetric])
  have "list_all2 (\<lambda>ir k. R (of_nat (fst ir)) (snd ir) k) (enumerate m ?fs) new"
    unfolding list_all2_conv_all_nth
  proof (intro conjI allI impI)
    show "length (enumerate m ?fs) = length new" using len by simp
  next
    fix i assume i: "i < length (enumerate m ?fs)"
    then have mem: "?fs ! i \<in> set rs"
      using nth_mem[of i ?fs] by auto
    let ?r = "snd (enumerate m ?fs ! i)"
    let ?j = "fst (enumerate m ?fs ! i)"
    from all i have sel: "selected (descriptor_set_of c ?r)"
      and ex: "\<exists>p. new ! i = assign (of_nat ?j) (binding_of c ?r)
           (fill_binding em (descriptor_set_of c ?r) (binding_of c ?r) p)"
      by (simp_all add: list_all2_conv_all_nth)
    from ex obtain p where p: "new ! i = assign (of_nat ?j) (binding_of c ?r)
           (fill_binding em (descriptor_set_of c ?r) (binding_of c ?r) p)" ..
    from valid mem have al: "validate \<longrightarrow> allowed (descriptor_set_of c ?r)"
      using i by (simp add: nth_enumerate_eq)
    show "R (of_nat ?j) ?r (new ! i)"
      unfolding p by (rule rule[OF sel al])
  qed
  with new valid len show ?thesis by (auto simp: counted_def)
qed

lemma remap_compute_Some:
  assumes "remap_compute c em b0 = Some calls"
  shows "\<exists>ts sts sbs ubs.
     texture_sampler_list c = Some ts \<and>
     get_resource_list_for_type c SPVC_RESOURCE_TYPE_STORAGE_IMAGE = Some sts \<and>
     get_resource_list_for_type c SPVC_RESOURCE_TYPE_STORAGE_BUFFER = Some sbs \<and>
     get_resource_list_for_type c SPVC_RESOURCE_TYPE_UNIFORM_BUFFER = Some ubs \<and>
     (\<forall>r\<in>set ts. descriptor_set_of c r = 0) \<and>
     (\<forall>r\<in>set sts. set_0_or_1 (descriptor_set_of c r)) \<and>
     (\<forall>r\<in>set sbs. set_0_or_1 (descriptor_set_of c r)) \<and>
     (\<forall>r\<in>set ubs. descriptor_set_of c r = 2) \<and>
     compute_rules c em ts sts sbs ubs calls"
proof -
  from assms obtain ts s1 sts s2 s3 sbs s4 s5 ubs s6 where
    l: "texture_sampler_list c = Some ts"
       "get_resource_list_for_type c SPVC_RESOURCE_TYPE_STORAGE_IMAGE = Some sts"
       "get_resource_list_for_type c SPVC_RESOURCE_TYPE_STORAGE_BUFFER = Some sbs"
       "get_resource_list_for_type c SPVC_RESOURCE_TYPE_UNIFORM_BUFFER = Some ubs"
    and g1: "compute_texture_samplers c em ts (b0, [], 0) = Some s1"
    and g2: "compute_readonly_storage_textures c em sts s1 = Some s2"
    and g3: "compute_readwrite_storage_textures c em sts s2 = Some s3"
    and g4: "compute_readonly_storage_buffers c em sbs (fst s3, fst (snd s3), 0) = Some s4"
    and g5: "compute_readwrite_storage_buffers c em sbs s4 = Some s5"
    and g6: "compute_uniform_buffers c em ubs s5 = Some s6"
    and r: "calls = fst (snd s6)"
    by (auto simp: remap_compute_def split: if_splits Option.bind_splits)
  obtain b1 c1 n1 where s1: "s1 = (b1, c1, n1)" by (cases s1)
  obtain b2 c2 n2 where s2: "s2 = (b2, c2, n2)" by (cases s2)
  obtain b3 c3 n3 where s3: "s3 = (b3, c3, n3)" by (cases s3)
  obtain b4 c4 n4 where s4: "s4 = (b4, c4, n4)" by (cases s4)
  obtain b5 c5 n5 where s5: "s5 = (b5, c5, n5)" by (cases s5)
  obtain b6 c6 n6 where s6: "s6 = (b6, c6, n6)" by (cases s6)
  have f: "filter (\<lambda>r. True) ts = ts" "filter (\<lambda>r. True) ubs = ubs"
    "\<And>rs. filter (\<lambda>r. \<not> descriptor_set_of c r \<noteq> 0) rs = on_set c 0 rs"
    "\<And>rs. filter (\<lambda>r. \<not> descriptor_set_of c r \<noteq> 1) rs = on_set c 1 rs"
    by (simp_all add: on_set_def)
  \<comment> \<open>texture-samplers\<close>
  from g1 have g1': "compute_loop c em True (\<lambda>d. \<not> d \<noteq> 0) (\<lambda>d. True)
       (\<lambda>num_textures binding_index b. b\<lparr>msl_texture := num_textures, msl_sampler := num_textures\<rparr>)
       True ts (b0, [], of_nat 0) = Some (b1, c1, n1)"
    by (simp add: compute_texture_samplers_def s1)
  have "\<exists>new. c1 = [] @ new \<and>
     n1 = of_nat (0 + length (filter (\<lambda>r. True) ts)) \<and>
     (True \<longrightarrow> (\<forall>r\<in>set ts. has_set_and_binding c r \<and> \<not> descriptor_set_of c r \<noteq> 0)) \<and>
     counted 0 (compute_texture_sampler_rule c em) (filter (\<lambda>r. True) ts) new"
    by (rule compute_loop_rule[OF g1'])
       (simp add: compute_texture_sampler_rule_def fill_binding_def)
  then have A: "counted 0 (compute_texture_sampler_rule c em) ts c1"
    and n1: "n1 = of_nat (length ts)"
    and v1: "\<forall>r\<in>set ts. descriptor_set_of c r = 0"
    by (simp_all add: on_set_def)
  \<comment> \<open>read-only storage textures\<close>
  from g2 have g2': "compute_loop c em True set_0_or_1 (\<lambda>d. \<not> d \<noteq> 0)
       (\<lambda>num_textures binding_index b. b\<lparr>msl_texture := num_textures + binding_index\<rparr>)
       False sts (b1, c1, of_nat (length ts)) = Some (b2, c2, n2)"
    by (simp add: compute_readonly_storage_textures_def s1 s2 n1)
  have "\<exists>new. c2 = c1 @ new \<and>
     n2 = of_nat (length ts + length (filter (\<lambda>r. \<not> descriptor_set_of c r \<noteq> 0) sts)) \<and>
     (True \<longrightarrow> (\<forall>r\<in>set sts. has_set_and_binding c r \<and> set_0_or_1 (descriptor_set_of c r))) \<and>
     counted (length ts) (compute_storage_texture_rule c em 0)
       (filter (\<lambda>r. \<not> descriptor_set_of c r \<noteq> 0) sts) new"
    by (rule compute_loop_rule[OF g2'])
       (simp add: compute_storage_texture_rule_def fill_binding_def)
  then obtain B where B: "c2 = c1 @ B"
      "counted (length ts) (compute_storage_texture_rule c em 0) (on_set c 0 sts) B"
    and n2: "n2 = of_nat (length ts + length (on_set c 0 sts))"
    and v2: "\<forall>r\<in>set sts. set_0_or_1 (descriptor_set_of c r)"
    by (auto simp: on_set_def)
  \<comment> \<open>read-write storage textures\<close>
  from g3 have g3': "compute_loop c em False (\<lambda>d. True) (\<lambda>d. \<not> d \<noteq> 1)
       (\<lambda>num_textures binding_index b. b\<lparr>msl_texture := num_textures + binding_index\<rparr>)
       False sts (b2, c2, of_nat (length ts + length (on_set c 0 sts))) = Some (b3, c3, n3)"
    by (simp add: compute_readwrite_storage_textures_def s2 s3 n2)
  have "\<exists>new. c3 = c2 @ new \<and>
     n3 = of_nat (length ts + length (on_set c 0 sts)
            + length (filter (\<lambda>r. \<not> descriptor_set_of c r \<noteq> 1) sts)) \<and>
     (False \<longrightarrow> (\<forall>r\<in>set sts. has_set_and_binding c r \<and> True)) \<and>
     counted (length ts + length (on_set c 0 sts)) (compute_storage_texture_rule c em 1)
       (filter (\<lambda>r. \<not> descriptor_set_of c r \<noteq> 1) sts) new"
    by (rule compute_loop_rule[OF g3'])
       (simp add: compute_storage_texture_rule_def fill_binding_def)
  then obtain C where C: "c3 = c2 @ C"
      "counted (length ts + length (on_set c 0 sts)) (compute_storage_texture_rule c em 1)
         (on_set c 1 sts) C"
    by (auto simp: on_set_def)
  \<comment> \<open>read-only storage buffers\<close>
  from g4 have g4': "compute_loop c em True set_0_or_1 (\<lambda>d. \<not> d \<noteq> 0)
       (\<lambda>num_buffers binding_index b. b\<lparr>msl_buffer := binding_index\<rparr>)
       False sbs (b3, c3, of_nat 0) = Some (b4, c4, n4)"
    by (simp add: compute_readonly_storage_buffers_def s3 s4)
  have "\<exists>new. c4 = c3 @ new \<and>
     n4 = of_nat (0 + length (filter (\<lambda>r. \<not> descriptor_set_of c r \<noteq> 0) sbs)) \<and>
     (True \<longrightarrow> (\<forall>r\<in>set sbs. has_set_and_binding c r \<and> set_0_or_1 (descriptor_set_of c r))) \<and>
     counted 0 (\<lambda>B. compute_readonly_storage_buffer_rule c em)
       (filter (\<lambda>r. \<not> descriptor_set_of c r \<noteq> 0) sbs) new"
    by (rule compute_loop_rule[OF g4'])
       (simp add: compute_readonly_storage_buffer_rule_def fill_binding_def)
  then obtain D where D: "c4 = c3 @ D"
      "counted 0 (\<lambda>B. compute_readonly_storage_buffer_rule c em) (on_set c 0 sbs) D"
    and n4: "n4 = of_nat (length (on_set c 0 sbs))"
    and v4: "\<forall>r\<in>set sbs. set_0_or_1 (descriptor_set_of c r)"
    by (auto simp: on_set_def)
  from D(2) have D': "list_all2 (compute_readonly_storage_buffer_rule c em) (on_set c 0 sbs) D"
    by (simp add: counted_def list_all2_conv_all_nth nth_enumerate_eq)
  \<comment> \<open>read-write storage buffers\<close>
  from g5 have g5': "compute_loop c em False (\<lambda>d. True) (\<lambda>d. \<not> d \<noteq> 1)
       (\<lambda>num_buffers binding_index b. b\<lparr>msl_buffer := num_buffers + binding_index\<rparr>)
       False sbs (b4, c4, of_nat (length (on_set c 0 sbs))) = Some (b5, c5, n5)"
    by (simp add: compute_readwrite_storage_buffers_def s4 s5 n4)
  have "\<exists>new. c5 = c4 @ new \<and>
     n5 = of_nat (length (on_set c 0 sbs)
            + length (filter (\<lambda>r. \<not> descriptor_set_of c r \<noteq> 1) sbs)) \<and>
     (False \<longrightarrow> (\<forall>r\<in>set sbs. has_set_and_binding c r \<and> True)) \<and>
     counted (length (on_set c 0 sbs)) (compute_buffer_rule c em 1)
       (filter (\<lambda>r. \<not> descriptor_set_of c r \<noteq> 1) sbs) new"
    by (rule compute_loop_rule[OF g5'])
       (simp add: compute_buffer_rule_def fill_binding_def)
  then obtain E where E: "c5 = c4 @ E"
      "counted (length (on_set c 0 sbs)) (compute_buffer_rule c em 1) (on_set c 1 sbs) E"
    and n5: "n5 = of_nat (length (on_set c 0 sbs) + length (on_set c 1 sbs))"
    by (auto simp: on_set_def)
  \<comment> \<open>uniform buffers\<close>
  from g6 have g6': "compute_loop c em True (\<lambda>d. \<not> d \<noteq> 2) (\<lambda>d. True)
       (\<lambda>num_buffers binding_index b. b\<lparr>msl_buffer := num_buffers + binding_index\<rparr>)
       False ubs (b5, c5, of_nat (length (on_set c 0 sbs) + length (on_set c 1 sbs)))
       = Some (b6, c6, n6)"
    by (simp add: compute_uniform_buffers_def s5 s6 n5)
  have "\<exists>new. c6 = c5 @ new \<and>
     n6 = of_nat (length (on_set c 0 sbs) + length (on_set c 1 sbs)
            + length (filter (\<lambda>r. True) ubs)) \<and>
     (True \<longrightarrow> (\<forall>r\<in>set ubs. has_set_and_binding c r \<and> \<not> descriptor_set_of c r \<noteq> 2)) \<and>
     counted (length (on_set c 0 sbs) + length (on_set c 1 sbs)) (compute_buffer_rule c em 2)
       (filter (\<lambda>r. True) ubs) new"
    by (rule compute_loop_rule[OF g6'])
       (simp add: compute_buffer_rule_def fill_binding_def)
  then obtain F where F: "c6 = c5 @ F"
      "counted (length (on_set c 0 sbs) + length (on_set c 1 sbs)) (compute_buffer_rule c em 2)
         ubs F"
    and v6: "\<forall>r\<in>set ubs. descriptor_set_of c r = 2"
    by (auto simp: on_set_def)
  have "calls = c1 @ B @ C @ D @ E @ F"
    using r s6 B(1) C(1) D(1) E(1) F(1) by simp
  with A B(2) C(2) D' E(2) F(2)
  have "compute_rules c em ts sts sbs ubs calls"
    unfolding compute_rules_def by blast
  with l v1 v2 v4 v6 show ?thesis by blast
qed

text \<open>
  Claim C2.  For a compute-stage MSL transpilation of a module whose resource lists are
  \<open>ts\<close>, \<open>sts\<close>, \<open>sbs\<close> and \<open>ubs\<close>: whenever the transpiler returns a context, the
  bindings it registered are, in this order, those of the texture-samplers (all on set 0,
  msl\_texture = msl\_sampler = T), of the storage textures on set 0 and then of those on
  set 1 (msl\_texture = T + binding), of the storage buffers on set 0
  (msl\_buffer = binding), of the storage buffers on set 1 and then of the uniform buffers
  (all on set 2; msl\_buffer = B + binding), where T and B start at 0 and grow by one per
  registered texture and buffer binding; and a texture-sampler off set 0, a storage texture
  or storage buffer off sets 0 and 1, or a uniform buffer off set 2 makes the transpiler
  return \<^verbatim>\<open>NULL\<close>.
\<close>

theorem compute_msl_remapping:
  assumes parsed: "context_parse_spirv api code (codeSize div 4) = Some ir"
    and compiler: "context_create_compiler ir SPVC_BACKEND_MSL = Some c"
    and ts: "texture_sampler_list c = Some ts"
    and sts: "get_resource_list_for_type c SPVC_RESOURCE_TYPE_STORAGE_IMAGE = Some sts"
    and sbs: "get_resource_list_for_type c SPVC_RESOURCE_TYPE_STORAGE_BUFFER = Some sbs"
    and ubs: "get_resource_list_for_type c SPVC_RESOURCE_TYPE_UNIFORM_BUFFER = Some ubs"
  shows
    "(\<forall>ctx. SDL_ShaderCross_INTERNAL_TranspileFromSPIRV api b0 SPVC_BACKEND_MSL shadermodel
              SDL_SHADERCROSS_SHADERSTAGE_COMPUTE code codeSize entrypoint = Some ctx \<longrightarrow>
        compute_rules c SpvExecutionModelKernel ts sts sbs ubs (spvc_context ctx)) \<and>
     ((\<exists>r\<in>set ts. descriptor_set_of c r \<noteq> 0) \<or>
      (\<exists>r\<in>set sts. \<not> set_0_or_1 (descriptor_set_of c r)) \<or>
      (\<exists>r\<in>set sbs. \<not> set_0_or_1 (descriptor_set_of c r)) \<or>
      (\<exists>r\<in>set ubs. descriptor_set_of c r \<noteq> 2) \<longrightarrow>
      SDL_ShaderCross_INTERNAL_TranspileFromSPIRV api b0 SPVC_BACKEND_MSL shadermodel
        SDL_SHADERCROSS_SHADERSTAGE_COMPUTE code codeSize entrypoint = None)"
proof -
  have remap: "msl_remap c SPVC_BACKEND_MSL SDL_SHADERCROSS_SHADERSTAGE_COMPUTE b0 =
      remap_compute c SpvExecutionModelKernel b0"
    by (simp add: msl_remap_def execution_model_of_def)
  have facts: "(\<forall>r\<in>set ts. descriptor_set_of c r = 0) \<and>
     (\<forall>r\<in>set sts. set_0_or_1 (descriptor_set_of c r)) \<and>
     (\<forall>r\<in>set sbs. set_0_or_1 (descriptor_set_of c r)) \<and>
     (\<forall>r\<in>set ubs. descriptor_set_of c r = 2) \<and>
     compute_rules c SpvExecutionModelKernel ts sts sbs ubs calls"
    if "remap_compute c SpvExecutionModelKernel b0 = Some calls" for calls
    using remap_compute_Some[OF that] ts sts sbs ubs by auto
  show ?thesis
  proof (intro conjI allI impI)
    fix ctx
    assume "SDL_ShaderCross_INTERNAL_TranspileFromSPIRV api b0 SPVC_BACKEND_MSL shadermodel
              SDL_SHADERCROSS_SHADERSTAGE_COMPUTE code codeSize entrypoint = Some ctx"
    from Transpile_msl_remap[OF parsed compiler this]
    have "remap_compute c SpvExecutionModelKernel b0 = Some (spvc_context ctx)"
      by (simp add: remap)
    from facts[OF this]
    show "compute_rules c SpvExecutionModelKernel ts sts sbs ubs (spvc_context ctx)"
      by blast
  next
    assume bad: "(\<exists>r\<in>set ts. descriptor_set_of c r \<noteq> 0) \<or>
      (\<exists>r\<in>set sts. \<not> set_0_or_1 (descriptor_set_of c r)) \<or>
      (\<exists>r\<in>set sbs. \<not> set_0_or_1 (descriptor_set_of c r)) \<or>
      (\<exists>r\<in>set ubs. descriptor_set_of c r \<noteq> 2)"
    have "remap_compute c SpvExecutionModelKernel b0 = None"
    proof (rule ccontr)
      assume "remap_compute c SpvExecutionModelKernel b0 \<noteq> None"
      then obtain calls where "remap_compute c SpvExecutionModelKernel b0 = Some calls"
        by auto
      from facts[OF this] bad show False by blast
    qed
    then have "msl_remap c SPVC_BACKEND_MSL SDL_SHADERCROSS_SHADERSTAGE_COMPUTE b0 = None"
      by (simp add: remap)
    from Transpile_remap_None[OF parsed compiler this]
    show "SDL_ShaderCross_INTERNAL_TranspileFromSPIRV api b0 SPVC_BACKEND_MSL shadermodel
        SDL_SHADERCROSS_SHADERSTAGE_COMPUTE code codeSize entrypoint = None" .
  qed
qed

lemma compute_module_transpiles:
  "SDL_ShaderCross_INTERNAL_TranspileFromSPIRV (example_api compute_module) example_binding
     SPVC_BACKEND_MSL 0 SDL_SHADERCROSS_SHADERSTAGE_COMPUTE example_code 20 ''main'' =
   Some \<lparr>spvc_context = compute_module_bindings, translated_source = ''translated'',
         cleansed_entrypoint = ''main0''\<rparr>"
  by code_simp

theorem compute_msl_remapping_witness:
  "SDL_ShaderCross_INTERNAL_TranspileFromSPIRV (example_api compute_module) example_binding
     SPVC_BACKEND_MSL 0 SDL_SHADERCROSS_SHADERSTAGE_COMPUTE example_code 20 ''main'' =
   Some \<lparr>spvc_context = compute_module_bindings, translated_source = ''translated'',
         cleansed_entrypoint = ''main0''\<rparr> \<and>
   compute_rules compute_module SpvExecutionModelKernel [1] [2, 4] [3, 5] [6]
     compute_module_bindings \<and>
   SDL_ShaderCross_INTERNAL_TranspileFromSPIRV (example_api bad_compute_module) example_binding
     SPVC_BACKEND_MSL 0 SDL_SHADERCROSS_SHADERSTAGE_COMPUTE example_code 20 ''main'' = None"
proof -
  have parsed: "\<And>c. context_parse_spirv (example_api c) example_code (20 div 4) =
      Some \<lparr>context_create_compiler = (\<lambda>backend. Some c)\<rparr>"
    by (simp add: example_defs)
  have compiler: "\<And>c. context_create_compiler \<lparr>context_create_compiler = (\<lambda>backend. Some c)\<rparr>
      SPVC_BACKEND_MSL = Some c"
    by simp
  have lists: "\<And>d. texture_sampler_list (example_compiler compute_lists d) = Some [1]"
    "\<And>d. get_resource_list_for_type (example_compiler compute_lists d)
        SPVC_RESOURCE_TYPE_STORAGE_IMAGE = Some [2, 4]"
    "\<And>d. get_resource_list_for_type (example_compiler compute_lists d)
        SPVC_RESOURCE_TYPE_STORAGE_BUFFER = Some [3, 5]"
    "\<And>d. get_resource_list_for_type (example_compiler compute_lists d)
        SPVC_RESOURCE_TYPE_UNIFORM_BUFFER = Some [6]"
    by (simp_all add: example_defs compute_lists_def)
  note good = compute_msl_remapping[OF parsed compiler
      lists[of compute_decorations, folded compute_module_def],
      of example_binding 0 "''main''"]
  note bad = compute_msl_remapping[OF parsed compiler
      lists[of "compute_decorations(5 := Some (2, 1))", folded bad_compute_module_def],
      of example_binding 0 "''main''"]
  have "\<exists>r\<in>set [3, 5]. \<not> set_0_or_1 (descriptor_set_of bad_compute_module r)"
    by (simp add: set_0_or_1_def bad_compute_module_def compute_decorations_def example_defs)
  with bad have "SDL_ShaderCross_INTERNAL_TranspileFromSPIRV (example_api bad_compute_module)
     example_binding SPVC_BACKEND_MSL 0 SDL_SHADERCROSS_SHADERSTAGE_COMPUTE example_code 20
     ''main'' = None"
    by blast
  moreover from good compute_module_transpiles
  have "compute_rules compute_module SpvExecutionModelKernel [1] [2, 4] [3, 5] [6]
          compute_module_bindings"
    by simp
  ultimately show ?thesis using compute_module_transpiles by blast
qed

section \<open>Reflection\<close>

lemma reflect_storage_textures_Some:
  "reflect_storage_textures c rs (ro, rw) = Some (ro', rw') \<Longrightarrow>
   (\<forall>r\<in>set rs. has_set_and_binding c r \<and> set_0_or_1 (descriptor_set_of c r)) \<and>
   ro' = ro + length (on_set c 0 rs) \<and> rw' = rw + length (on_set c 1 rs)"
proof (induction rs arbitrary: ro rw)
  case Nil
  then show ?case by (simp add: on_set_def)
next
  case (Cons r rs)
  from Cons.prems have d: "has_set_and_binding c r"
    and cases: "descriptor_set_of c r = 0 \<and>
          reflect_storage_textures c rs (ro + 1, rw) = Some (ro', rw') \<or>
        descriptor_set_of c r = 1 \<and>
          reflect_storage_textures c rs (ro, rw + 1) = Some (ro', rw')"
    by (auto simp: Let_def split: if_splits)
  from cases show ?case
  proof (elim disjE conjE)
    assume r: "descriptor_set_of c r = 0"
      and "reflect_storage_textures c rs (ro + 1, rw) = Some (ro', rw')"
    from Cons.IH[OF this(2)] d r show ?thesis
      by (simp add: on_set_def set_0_or_1_def)
  next
    assume r: "descriptor_set_of c r = 1"
      and "reflect_storage_textures c rs (ro, rw + 1) = Some (ro', rw')"
    from Cons.IH[OF this(2)] d r show ?thesis
      by (simp add: on_set_def set_0_or_1_def)
  qed
qed

lemma reflect_storage_textures_None:
  "\<exists>r\<in>set rs. \<not> has_set_and_binding c r \<or> \<not> set_0_or_1 (descriptor_set_of c r) \<Longrightarrow>
   reflect_storage_textures c rs s = None"
proof (induction rs arbitrary: s)
  case Nil
  then show ?case by simp
next
  case (Cons r rs)
  obtain ro rw where s: "s = (ro, rw)" by (cases s)
  from Cons show ?case
    by (auto simp: s Let_def set_0_or_1_def)
qed

lemma reflect_storage_buffers_Some:
  "reflect_storage_buffers c rs (ro, rw) = Some (ro', rw') \<Longrightarrow>
   (\<forall>r\<in>set rs. has_set_and_binding c r \<and> set_0_or_1 (descriptor_set_of c r)) \<and>
   ro' = ro + length (on_set c 0 rs) \<and> rw' = rw + length (on_set c 1 rs)"
proof (induction rs arbitrary: ro rw)
  case Nil
  then show ?case by (simp add: on_set_def)
next
  case (Cons r rs)
  from Cons.prems have d: "has_set_and_binding c r"
    and cases: "descriptor_set_of c r = 0 \<and>
          reflect_storage_buffers c rs (ro + 1, rw) = Some (ro', rw') \<or>
        descriptor_set_of c r = 1 \<and>
          reflect_storage_buffers c rs (ro, rw + 1) = Some (ro', rw')"
    by (auto simp: Let_def split: if_splits)
  from cases show ?case
  proof (elim disjE conjE)
    assume r: "descriptor_set_of c r = 0"
      and "reflect_storage_buffers c rs (ro + 1, rw) = Some (ro', rw')"
    from Cons.IH[OF this(2)] d r show ?thesis
      by (simp add: on_set_def set_0_or_1_def)
  next
    assume r: "descriptor_set_of c r = 1"
      and "reflect_storage_buffers c rs (ro, rw + 1) = Some (ro', rw')"
    from Cons.IH[OF this(2)] d r show ?thesis
      by (simp add: on_set_def set_0_or_1_def)
  qed
qed

lemma reflect_storage_buffers_None:
  "\<exists>r\<in>set rs. \<not> has_set_and_binding c r \<or> \<not> set_0_or_1 (descriptor_set_of c r) \<Longrightarrow>
   reflect_storage_buffers c rs s = None"
proof (induction rs arbitrary: s)
  case Nil
  then show ?case by simp
next
  case (Cons r rs)
  obtain ro rw where s: "s = (ro, rw)" by (cases s)
  from Cons show ?case
    by (auto simp: s Let_def set_0_or_1_def)
qed

text \<open>
  Claim C3.  For a module whose storage images are \<open>sts\<close>, storage buffers \<open>sbs\<close> and
  uniform buffers \<open>ubs\<close>: whenever compute reflection returns metadata, every storage image
  and storage buffer carries both decorations and sits on descriptor set 0 or 1, the
  read-only counts are the numbers of those on set 0 and the read-write counts the numbers
  of those on set 1, the uniform buffers (and the texture-samplers) are counted, and the
  thread counts are the three arguments of the LocalSize execution mode; and a storage
  image or buffer that lacks a decoration or sits on another set makes reflection fail.
\<close>

theorem compute_reflection:
  assumes parsed: "context_parse_spirv api code (codeSize div 4) = Some ir"
    and compiler: "context_create_compiler ir SPVC_BACKEND_NONE = Some c"
    and ts: "texture_sampler_list c = Some ts"
    and sts: "get_resource_list_for_type c SPVC_RESOURCE_TYPE_STORAGE_IMAGE = Some sts"
    and sbs: "get_resource_list_for_type c SPVC_RESOURCE_TYPE_STORAGE_BUFFER = Some sbs"
    and ubs: "get_resource_list_for_type c SPVC_RESOURCE_TYPE_UNIFORM_BUFFER = Some ubs"
  shows
    "(\<forall>m. SDL_ShaderCross_INTERNAL_ReflectComputeSPIRV api code codeSize = Some m \<longrightarrow>
        (\<forall>r\<in>set (sts @ sbs). has_set_and_binding c r \<and> set_0_or_1 (descriptor_set_of c r)) \<and>
        num_readonly_storage_textures m = of_nat (length (on_set c 0 sts)) \<and>
        num_readwrite_storage_textures m = of_nat (length (on_set c 1 sts)) \<and>
        num_readonly_storage_buffers m = of_nat (length (on_set c 0 sbs)) \<and>
        num_readwrite_storage_buffers m = of_nat (length (on_set c 1 sbs)) \<and>
        num_uniform_buffers_cp m = of_nat (length ubs) \<and>
        num_samplers_cp m = of_nat (length ts) \<and>
        threadcount_x m = get_execution_mode_argument_by_index c 0 \<and>
        threadcount_y m = get_execution_mode_argument_by_index c 1 \<and>
        threadcount_z m = get_execution_mode_argument_by_index c 2) \<and>
     ((\<exists>r\<in>set (sts @ sbs). \<not> has_set_and_binding c r \<or> \<not> set_0_or_1 (descriptor_set_of c r)) \<longrightarrow>
      SDL_ShaderCross_INTERNAL_ReflectComputeSPIRV api code codeSize = None)"
proof (intro conjI allI impI)
  fix m
  assume "SDL_ShaderCross_INTERNAL_ReflectComputeSPIRV api code codeSize = Some m"
  with parsed compiler ts sts sbs ubs obtain textures buffers where
    t: "reflect_storage_textures c sts (0, 0) = Some textures"
    and b: "reflect_storage_buffers c sbs (0, 0) = Some buffers"
    and m: "m = \<lparr>num_samplers_cp = of_nat (length ts),
                num_readonly_storage_textures = of_nat (fst textures),
                num_readonly_storage_buffers = of_nat (fst buffers),
                num_readwrite_storage_textures = of_nat (snd textures),
                num_readwrite_storage_buffers = of_nat (snd buffers),
                num_uniform_buffers_cp = of_nat (length ubs),
                threadcount_x = fst (SpvExecutionModeLocalSize_args c),
                threadcount_y = fst (snd (SpvExecutionModeLocalSize_args c)),
                threadcount_z = snd (snd (SpvExecutionModeLocalSize_args c))\<rparr>"
    by (auto simp: SDL_ShaderCross_INTERNAL_ReflectComputeSPIRV_def
             split: if_splits Option.bind_splits)
  obtain tro trw where textures: "textures = (tro, trw)" by (cases textures)
  obtain bro brw where buffers: "buffers = (bro, brw)" by (cases buffers)
  note T = reflect_storage_textures_Some[OF t[unfolded textures]]
  note B = reflect_storage_buffers_Some[OF b[unfolded buffers]]
  show "\<forall>r\<in>set (sts @ sbs). has_set_and_binding c r \<and> set_0_or_1 (descriptor_set_of c r)"
    using T B by auto
  show "num_readonly_storage_textures m = of_nat (length (on_set c 0 sts))"
    using T by (simp add: m textures)
  show "num_readwrite_storage_textures m = of_nat (length (on_set c 1 sts))"
    using T by (simp add: m textures)
  show "num_readonly_storage_buffers m = of_nat (length (on_set c 0 sbs))"
    using B by (simp add: m buffers)
  show "num_readwrite_storage_buffers m = of_nat (length (on_set c 1 sbs))"
    using B by (simp add: m buffers)
  show "num_uniform_buffers_cp m = of_nat (length ubs)" by (simp add: m)
  show "num_samplers_cp m = of_nat (length ts)" by (simp add: m)
  show "threadcount_x m = get_execution_mode_argument_by_index c 0"
    by (simp add: m SpvExecutionModeLocalSize_args_def)
  show "threadcount_y m = get_execution_mode_argument_by_index c 1"
    by (simp add: m SpvExecutionModeLocalSize_args_def)
  show "threadcount_z m = get_execution_mode_argument_by_index c 2"
    by (simp add: m SpvExecutionModeLocalSize_args_def)
next
  assume "\<exists>r\<in>set (sts @ sbs). \<not> has_set_and_binding c r \<or> \<not> set_0_or_1 (descriptor_set_of c r)"
  then have "(\<exists>r\<in>set sts. \<not> has_set_and_binding c r \<or> \<not> set_0_or_1 (descriptor_set_of c r)) \<or>
     (\<exists>r\<in>set sbs. \<not> has_set_and_binding c r \<or> \<not> set_0_or_1 (descriptor_set_of c r))"
    by auto
  then have "reflect_storage_textures c sts (0, 0) = None \<or>
     reflect_storage_buffers c sbs (0, 0) = None"
    using reflect_storage_textures_None[of sts c "(0, 0)"]
      reflect_storage_buffers_None[of sbs c "(0, 0)"] by (elim disjE) simp_all
  with parsed compiler ts sts sbs ubs
  show "SDL_ShaderCross_INTERNAL_ReflectComputeSPIRV api code codeSize = None"
    by (auto simp: SDL_ShaderCross_INTERNAL_ReflectComputeSPIRV_def)
qed

lemma compute_module_reflects:
  "SDL_ShaderCross_INTERNAL_ReflectComputeSPIRV (example_api compute_module) example_code 20 =
   Some \<lparr>num_samplers_cp = 1, num_readonly_storage_textures = 1,
         num_readonly_storage_buffers = 1, num_readwrite_storage_textures = 1,
         num_readwrite_storage_buffers = 1, num_uniform_buffers_cp = 1,
         threadcount_x = 8, threadcount_y = 8, threadcount_z = 1\<rparr>"
  by code_simp

theorem compute_reflection_witness:
  "SDL_ShaderCross_INTERNAL_ReflectComputeSPIRV (example_api compute_module) example_code 20 =
   Some \<lparr>num_samplers_cp = 1, num_readonly_storage_textures = 1,
         num_readonly_storage_buffers = 1, num_readwrite_storage_textures = 1,
         num_readwrite_storage_buffers = 1, num_uniform_buffers_cp = 1,
         threadcount_x = 8, threadcount_y = 8, threadcount_z = 1\<rparr> \<and>
   (1 :: u32) = of_nat (length (on_set compute_module 0 [2, 4])) \<and>
   (1 :: u32) = of_nat (length (on_set compute_module 1 [3, 5])) \<and>
   SDL_ShaderCross_INTERNAL_ReflectComputeSPIRV (example_api bad_compute_module) example_code 20
     = None"
proof -
  have parsed: "\<And>c. context_parse_spirv (example_api c) example_code (20 div 4) =
      Some \<lparr>context_create_compiler = (\<lambda>backend. Some c)\<rparr>"
    by (simp add: example_defs)
  have compiler: "\<And>c. context_create_compiler \<lparr>context_create_compiler = (\<lambda>backend. Some c)\<rparr>
      SPVC_BACKEND_NONE = Some c"
    by simp
  have lists: "\<And>d. texture_sampler_list (example_compiler compute_lists d) = Some [1]"
    "\<And>d. get_resource_list_for_type (example_compiler compute_lists d)
        SPVC_RESOURCE_TYPE_STORAGE_IMAGE = Some [2, 4]"
    "\<And>d. get_resource_list_for_type (example_compiler compute_lists d)
        SPVC_RESOURCE_TYPE_STORAGE_BUFFER = Some [3, 5]"
    "\<And>d. get_resource_list_for_type (example_compiler compute_lists d)
        SPVC_RESOURCE_TYPE_UNIFORM_BUFFER = Some [6]"
    by (simp_all add: example_defs compute_lists_def)
  note good = compute_reflection[OF parsed compiler
      lists[of compute_decorations, folded compute_module_def]]
  note bad = compute_reflection[OF parsed compiler
      lists[of "compute_decorations(5 := Some (2, 1))", folded bad_compute_module_def]]
  have "\<exists>r\<in>set ([2, 4] @ [3, 5]). \<not> has_set_and_binding bad_compute_module r \<or>
      \<not> set_0_or_1 (descriptor_set_of bad_compute_module r)"
    by (simp add: set_0_or_1_def bad_compute_module_def compute_decorations_def example_defs)
  with bad have "SDL_ShaderCross_INTERNAL_ReflectComputeSPIRV (example_api bad_compute_module)
      example_code 20 = None"
    by blast
  moreover from good compute_module_reflects
  have "(1 :: u32) = of_nat (length (on_set compute_module 0 [2, 4]))"
    "(1 :: u32) = of_nat (length (on_set compute_module 1 [3, 5]))"
    by auto
  ultimately show ?thesis using compute_module_reflects by blast
qed

text \<open>
  Claim C4 fails on the code.  Graphics reflection tests no decoration and no descriptor
  set (its source comment says ``TODO: validate descriptor sets''): it returns metadata for
  the vertex module whose uniform buffer carries neither decoration.  Compute reflection
  tests storage images and storage buffers only: it returns metadata for the compute module
  whose sampler sits on set 5 and whose uniform buffer sits on set 7.
\<close>

theorem reflection_accepts_invalid_modules:
  "\<not> has_set_and_binding undecorated_vertex_module 4 \<and>
   SDL_ShaderCross_INTERNAL_ReflectGraphicsSPIRV (example_api undecorated_vertex_module)
     example_code 20 =
   Some \<lparr>num_samplers = 1, num_storage_textures = 1, num_storage_buffers = 1,
         num_uniform_buffers = 1\<rparr> \<and>
   descriptor_set_of misplaced_compute_module 1 = 5 \<and>
   descriptor_set_of misplaced_compute_module 6 = 7 \<and>
   SDL_ShaderCross_INTERNAL_ReflectComputeSPIRV (example_api misplaced_compute_module)
     example_code 20 =
   Some \<lparr>num_samplers_cp = 1, num_readonly_storage_textures = 1,
         num_readonly_storage_buffers = 1, num_readwrite_storage_textures = 1,
         num_readwrite_storage_buffers = 1, num_uniform_buffers_cp = 1,
         threadcount_x = 8, threadcount_y = 8, threadcount_z = 1\<rparr>"
  by code_simp

section \<open>Translation chains\<close>

text \<open>
  Claim C7 fails on the code.  On four bytes of invalid SPIR-V the parser fails, the
  internal transpiler returns \<^verbatim>\<open>NULL\<close>, and both public transpile functions dereference
  that pointer instead of returning \<^verbatim>\<open>NULL\<close> to the caller.
\<close>

theorem transpile_dereferences_null_context:
  "context_parse_spirv (spvc (example_environment vertex_module)) [0, 0, 0, 0] (4 div 4) = None \<and>
   SDL_ShaderCross_INTERNAL_TranspileFromSPIRV (spvc (example_environment vertex_module))
     (uninitialised_binding (example_environment vertex_module)) SPVC_BACKEND_MSL 0
     SDL_SHADERCROSS_SHADERSTAGE_VERTEX [0, 0, 0, 0] 4 ''main'' = None \<and>
   snd (SDL_ShaderCross_TranspileMSLFromSPIRV (example_environment vertex_module)
          [0, 0, 0, 0] 4 ''main'' SDL_SHADERCROSS_SHADERSTAGE_VERTEX) =
     Inl NullPointerDereference \<and>
   snd (SDL_ShaderCross_TranspileHLSLFromSPIRV (example_environment vertex_module)
          [0, 0, 0, 0] 4 ''main'' SDL_SHADERCROSS_SHADERSTAGE_VERTEX) =
     Inl NullPointerDereference"
  by code_simp

lemma transpile_null_in_general:
  "SDL_ShaderCross_INTERNAL_TranspileFromSPIRV (spvc env) (uninitialised_binding env)
     SPVC_BACKEND_MSL 0 shaderStage bytecode bytecodeSize entrypoint = None \<Longrightarrow>
   snd (SDL_ShaderCross_TranspileMSLFromSPIRV env bytecode bytecodeSize entrypoint shaderStage) =
     Inl NullPointerDereference"
  by (simp add: SDL_ShaderCross_TranspileMSLFromSPIRV_def)

lemmas chain_defs =
  SDL_ShaderCross_CompileDXBCFromHLSL_def SDL_ShaderCross_INTERNAL_CompileDXBCFromHLSL_def
  dxbc_roundtrip_def SDL_ShaderCross_CompileSPIRVFromHLSL_def
  SDL_ShaderCross_INTERNAL_CompileUsingDXC_def SDL_ShaderCross_TranspileHLSLFromSPIRV_def
  SDL_ShaderCross_INTERNAL_CompileDXBC_def

text \<open>
  Claim C5 fails on the code.  \<^verbatim>\<open>SDL_ShaderCross_CompileDXILFromHLSL\<close> compiles to SPIR-V,
  transpiles back to HLSL through the public \<^verbatim>\<open>SDL_ShaderCross_TranspileHLSLFromSPIRV\<close>,
  which returns the text only, and then hands the caller's entry point to DXC: with the
  entry point \<^verbatim>\<open>main\<close>, for which the transpiler's cleansed name is \<^verbatim>\<open>main0\<close>, the last
  backend call still carries \<^verbatim>\<open>-E main\<close>.
\<close>

theorem dxil_from_hlsl_uses_original_entrypoint:
  "map_option cleansed_entrypoint
     (SDL_ShaderCross_INTERNAL_TranspileFromSPIRV (example_api vertex_module) example_binding
        SPVC_BACKEND_HLSL 60 SDL_SHADERCROSS_SHADERSTAGE_VERTEX example_code 20 ''main'') =
   Some ''main0'' \<and>
   SDL_ShaderCross_CompileDXILFromHLSL (example_environment vertex_module) ''hlsl'' ''main'' None
     SDL_SHADERCROSS_SHADERSTAGE_VERTEX =
   ([DXC_Compile ''hlsl'' [''-E'', ''main'', ''-T'', ''vs_6_0'', ''-spirv''],
     SPVC_Transpile SPVC_BACKEND_HLSL 60 SDL_SHADERCROSS_SHADERSTAGE_VERTEX example_code ''main'',
     DXC_Compile ''translated'' [''-E'', ''main'', ''-T'', ''vs_6_0'']],
    Inr (Some [0x44, 0x58, 0x49, 0x4C]))"
  by code_simp

text \<open>
  The same holds of every call: whatever the environment, each DXC invocation made by
  \<^verbatim>\<open>SDL_ShaderCross_CompileDXILFromHLSL\<close> carries the entry point it was called with.
\<close>

lemma dxil_from_hlsl_entrypoints:
  assumes "DXC_Compile source args \<in>
     set (fst (SDL_ShaderCross_CompileDXILFromHLSL env hlslSource entrypoint includeDir shaderStage))"
  shows "take 2 args = [''-E'', entrypoint]"
  using assms
  by (auto simp: SDL_ShaderCross_CompileDXILFromHLSL_def chain_defs dxc_args_def
           split: prod.splits option.splits sum.splits if_splits)

text \<open>
  The sibling chains that start from SPIR-V do hand the cleansed name on: the legacy
  compiler is called with \<open>cleansed_entrypoint\<close> of the transpile context.
\<close>

lemma dxbc_from_spirv_trace:
  assumes "SDL_ShaderCross_INTERNAL_TranspileFromSPIRV (spvc env) (uninitialised_binding env)
      SPVC_BACKEND_HLSL 51 shaderStage bytecode bytecodeSize entrypoint = Some ctx"
  shows "fst (SDL_ShaderCross_CompileDXBCFromSPIRV env bytecode bytecodeSize entrypoint shaderStage) =
     SPVC_Transpile SPVC_BACKEND_HLSL 51 shaderStage bytecode entrypoint #
     (case D3DCompile env of
        None \<Rightarrow> []
      | Some compile \<Rightarrow>
          [D3D_Compile (translated_source ctx) (cleansed_entrypoint ctx)
             (legacy_shaderProfile shaderStage)])"
  using assms
  by (simp add: SDL_ShaderCross_CompileDXBCFromSPIRV_def chain_defs
           split: prod.splits option.splits)

lemma dxbc_from_hlsl_trace:
  assumes "D3D_Compile source' entrypoint' profile \<in>
     set (fst (SDL_ShaderCross_CompileDXBCFromHLSL env hlslSource entrypoint includeDir shaderStage))"
  shows "\<exists>spirv ctx.
     dxc_Compile env hlslSource (dxc_args entrypoint includeDir shaderStage True) = Some spirv \<and>
     SDL_ShaderCross_INTERNAL_TranspileFromSPIRV (spvc env) (uninitialised_binding env)
       SPVC_BACKEND_HLSL 60 shaderStage spirv (length spirv) entrypoint = Some ctx \<and>
     source' = translated_source ctx \<and>
     fst (SDL_ShaderCross_CompileDXBCFromHLSL env hlslSource entrypoint includeDir shaderStage) =
       [DXC_Compile hlslSource (dxc_args entrypoint includeDir shaderStage True),
        SPVC_Transpile SPVC_BACKEND_HLSL 60 shaderStage spirv entrypoint,
        D3D_Compile source' entrypoint' profile]"
  using assms
  by (auto simp: chain_defs split: prod.splits option.splits sum.splits if_splits)

text \<open>
  Every run of \<^verbatim>\<open>SDL_ShaderCross_CompileDXBCFromHLSL\<close>, call by call.  Without DXC in the
  build, or when its instances cannot be created, nothing is invoked and the result is
  \<^verbatim>\<open>NULL\<close>.  Otherwise the first backend call compiles the caller's HLSL to SPIR-V with DXC;
  when that yields SPIR-V, the second transpiles it back to HLSL at shader model 6.0; and
  only when that yields a context is the legacy compiler invoked (if it is loaded), on the
  transpiled text.  The caller's own HLSL never reaches the legacy compiler.
\<close>

lemma dxbc_from_hlsl_full:
  "SDL_ShaderCross_CompileDXBCFromHLSL env hlslSource entrypoint includeDir shaderStage =
     (if SDL_GPU_SHADERCROSS_DXC env \<and> dxc_instances_ok env
      then (case dxc_Compile env hlslSource (dxc_args entrypoint includeDir shaderStage True) of
              None \<Rightarrow>
                ([DXC_Compile hlslSource (dxc_args entrypoint includeDir shaderStage True)],
                 Inr None)
            | Some spirv \<Rightarrow>
                (case SDL_ShaderCross_INTERNAL_TranspileFromSPIRV (spvc env)
                        (uninitialised_binding env) SPVC_BACKEND_HLSL 60 shaderStage spirv
                        (length spirv) entrypoint of
                   None \<Rightarrow>
                     ([DXC_Compile hlslSource (dxc_args entrypoint includeDir shaderStage True),
                       SPVC_Transpile SPVC_BACKEND_HLSL 60 shaderStage spirv entrypoint],
                      Inl NullPointerDereference)
                 | Some ctx \<Rightarrow>
                     (case D3DCompile env of
                        None \<Rightarrow>
                          ([DXC_Compile hlslSource
                              (dxc_args entrypoint includeDir shaderStage True),
                            SPVC_Transpile SPVC_BACKEND_HLSL 60 shaderStage spirv entrypoint],
                           Inr None)
                      | Some compile \<Rightarrow>
                          ([DXC_Compile hlslSource
                              (dxc_args entrypoint includeDir shaderStage True),
                            SPVC_Transpile SPVC_BACKEND_HLSL 60 shaderStage spirv entrypoint,
                            D3D_Compile (translated_source ctx) entrypoint
                              (legacy_shaderProfile shaderStage)],
                           Inr (compile (translated_source ctx) entrypoint
                                  (legacy_shaderProfile shaderStage))))))
      else ([], Inr None))"
  by (simp add: chain_defs split: option.splits)

text \<open>
  Claim C8.  \<^verbatim>\<open>SDL_ShaderCross_CompileDXBCFromHLSL\<close> always takes the round-trip: its
  backend calls are, in this order, DXC compiling the caller's HLSL to SPIR-V, the
  transpiler turning that SPIR-V back into HLSL, and the legacy compiler on the transpiled
  text; the sequence stops at the first step that fails, and is empty when DXC is not
  available.  In particular, whenever the legacy compiler is invoked, the two steps of the
  round-trip have gone before it.  \<^verbatim>\<open>SDL_ShaderCross_CompileDXBCFromSPIRV\<close> runs the
  internal function with the round-trip disabled on the text it transpiled itself: after the
  transpiler its only backend call is the legacy compiler (when that is loaded), on the
  transpiled text, and DXC is never invoked.
\<close>

theorem dxbc_roundtrip_only_from_hlsl:
  "SDL_ShaderCross_CompileDXBCFromHLSL env hlslSource entrypoint includeDir shaderStage =
     (if SDL_GPU_SHADERCROSS_DXC env \<and> dxc_instances_ok env
      then (case dxc_Compile env hlslSource (dxc_args entrypoint includeDir shaderStage True) of
              None \<Rightarrow>
                ([DXC_Compile hlslSource (dxc_args entrypoint includeDir shaderStage True)],
                 Inr None)
            | Some spirv \<Rightarrow>
                (case SDL_ShaderCross_INTERNAL_TranspileFromSPIRV (spvc env)
                        (uninitialised_binding env) SPVC_BACKEND_HLSL 60 shaderStage spirv
                        (length spirv) entrypoint of
                   None \<Rightarrow>
                     ([DXC_Compile hlslSource (dxc_args entrypoint includeDir shaderStage True),
                       SPVC_Transpile SPVC_BACKEND_HLSL 60 shaderStage spirv entrypoint],
                      Inl NullPointerDereference)
                 | Some ctx \<Rightarrow>
                     (case D3DCompile env of
                        None \<Rightarrow>
                          ([DXC_Compile hlslSource
                              (dxc_args entrypoint includeDir shaderStage True),
                            SPVC_Transpile SPVC_BACKEND_HLSL 60 shaderStage spirv entrypoint],
                           Inr None)
                      | Some compile \<Rightarrow>
                          ([DXC_Compile hlslSource
                              (dxc_args entrypoint includeDir shaderStage True),
                            SPVC_Transpile SPVC_BACKEND_HLSL 60 shaderStage spirv entrypoint,
                            D3D_Compile (translated_source ctx) entrypoint
                              (legacy_shaderProfile shaderStage)],
                           Inr (compile (translated_source ctx) entrypoint
                                  (legacy_shaderProfile shaderStage))))))
      else ([], Inr None)) \<and>
   (\<forall>source' entrypoint' profile.
      D3D_Compile source' entrypoint' profile \<in>
        set (fst (SDL_ShaderCross_CompileDXBCFromHLSL env hlslSource entrypoint includeDir
                    shaderStage)) \<longrightarrow>
      (\<exists>spirv ctx.
         dxc_Compile env hlslSource (dxc_args entrypoint includeDir shaderStage True) = Some spirv \<and>
         SDL_ShaderCross_INTERNAL_TranspileFromSPIRV (spvc env) (uninitialised_binding env)
           SPVC_BACKEND_HLSL 60 shaderStage spirv (length spirv) entrypoint = Some ctx \<and>
         source' = translated_source ctx \<and>
         fst (SDL_ShaderCross_CompileDXBCFromHLSL env hlslSource entrypoint includeDir shaderStage) =
           [DXC_Compile hlslSource (dxc_args entrypoint includeDir shaderStage True),
            SPVC_Transpile SPVC_BACKEND_HLSL 60 shaderStage spirv entrypoint,
            D3D_Compile source' entrypoint' profile])) \<and>
   (\<forall>ctx.
      SDL_ShaderCross_INTERNAL_TranspileFromSPIRV (spvc env) (uninitialised_binding env)
        SPVC_BACKEND_HLSL 51 shaderStage bytecode bytecodeSize entrypoint = Some ctx \<longrightarrow>
      SDL_ShaderCross_CompileDXBCFromSPIRV env bytecode bytecodeSize entrypoint shaderStage =
        (SPVC_Transpile SPVC_BACKEND_HLSL 51 shaderStage bytecode entrypoint #
           fst (SDL_ShaderCross_INTERNAL_CompileDXBCFromHLSL env (translated_source ctx)
                  (cleansed_entrypoint ctx) None shaderStage False),
         snd (SDL_ShaderCross_INTERNAL_CompileDXBCFromHLSL env (translated_source ctx)
                (cleansed_entrypoint ctx) None shaderStage False)) \<and>
      fst (SDL_ShaderCross_CompileDXBCFromSPIRV env bytecode bytecodeSize entrypoint shaderStage) =
        SPVC_Transpile SPVC_BACKEND_HLSL 51 shaderStage bytecode entrypoint #
        (case D3DCompile env of
           None \<Rightarrow> []
         | Some compile \<Rightarrow>
             [D3D_Compile (translated_source ctx) (cleansed_entrypoint ctx)
                (legacy_shaderProfile shaderStage)]))"
proof (intro conjI allI impI)
  show "SDL_ShaderCross_CompileDXBCFromHLSL env hlslSource entrypoint includeDir shaderStage =
     (if SDL_GPU_SHADERCROSS_DXC env \<and> dxc_instances_ok env
      then (case dxc_Compile env hlslSource (dxc_args entrypoint includeDir shaderStage True) of
              None \<Rightarrow>
                ([DXC_Compile hlslSource (dxc_args entrypoint includeDir shaderStage True)],
                 Inr None)
            | Some spirv \<Rightarrow>
                (case SDL_ShaderCross_INTERNAL_TranspileFromSPIRV (spvc env)
                        (uninitialised_binding env) SPVC_BACKEND_HLSL 60 shaderStage spirv
                        (length spirv) entrypoint of
                   None \<Rightarrow>
                     ([DXC_Compile hlslSource (dxc_args entrypoint includeDir shaderStage True),
                       SPVC_Transpile SPVC_BACKEND_HLSL 60 shaderStage spirv entrypoint],
                      Inl NullPointerDereference)
                 | Some ctx \<Rightarrow>
                     (case D3DCompile env of
                        None \<Rightarrow>
                          ([DXC_Compile hlslSource
                              (dxc_args entrypoint includeDir shaderStage True),
                            SPVC_Transpile SPVC_BACKEND_HLSL 60 shaderStage spirv entrypoint],
                           Inr None)
                      | Some compile \<Rightarrow>
                          ([DXC_Compile hlslSource
                              (dxc_args entrypoint includeDir shaderStage True),
                            SPVC_Transpile SPVC_BACKEND_HLSL 60 shaderStage spirv entrypoint,
                            D3D_Compile (translated_source ctx) entrypoint
                              (legacy_shaderProfile shaderStage)],
                           Inr (compile (translated_source ctx) entrypoint
                                  (legacy_shaderProfile shaderStage))))))
      else ([], Inr None))"
    by (rule dxbc_from_hlsl_full)
next
  fix source' entrypoint' profile
  assume "D3D_Compile source' entrypoint' profile \<in>
        set (fst (SDL_ShaderCross_CompileDXBCFromHLSL env hlslSource entrypoint includeDir
                    shaderStage))"
  then show "\<exists>spirv ctx.
         dxc_Compile env hlslSource (dxc_args entrypoint includeDir shaderStage True) = Some spirv \<and>
         SDL_ShaderCross_INTERNAL_TranspileFromSPIRV (spvc env) (uninitialised_binding env)
           SPVC_BACKEND_HLSL 60 shaderStage spirv (length spirv) entrypoint = Some ctx \<and>
         source' = translated_source ctx \<and>
         fst (SDL_ShaderCross_CompileDXBCFromHLSL env hlslSource entrypoint includeDir shaderStage) =
           [DXC_Compile hlslSource (dxc_args entrypoint includeDir shaderStage True),
            SPVC_Transpile SPVC_BACKEND_HLSL 60 shaderStage spirv entrypoint,
            D3D_Compile source' entrypoint' profile]"
    by (rule dxbc_from_hlsl_trace)
next
  fix ctx
  assume t: "SDL_ShaderCross_INTERNAL_TranspileFromSPIRV (spvc env) (uninitialised_binding env)
        SPVC_BACKEND_HLSL 51 shaderStage bytecode bytecodeSize entrypoint = Some ctx"
  then show "SDL_ShaderCross_CompileDXBCFromSPIRV env bytecode bytecodeSize entrypoint shaderStage =
        (SPVC_Transpile SPVC_BACKEND_HLSL 51 shaderStage bytecode entrypoint #
           fst (SDL_ShaderCross_INTERNAL_CompileDXBCFromHLSL env (translated_source ctx)
                  (cleansed_entrypoint ctx) None shaderStage False),
         snd (SDL_ShaderCross_INTERNAL_CompileDXBCFromHLSL env (translated_source ctx)
                (cleansed_entrypoint ctx) None shaderStage False))"
    by (simp add: SDL_ShaderCross_CompileDXBCFromSPIRV_def split: prod.splits)
  from t show "fst (SDL_ShaderCross_CompileDXBCFromSPIRV env bytecode bytecodeSize entrypoint
                      shaderStage) =
        SPVC_Transpile SPVC_BACKEND_HLSL 51 shaderStage bytecode entrypoint #
        (case D3DCompile env of
           None \<Rightarrow> []
         | Some compile \<Rightarrow>
             [D3D_Compile (translated_source ctx) (cleansed_entrypoint ctx)
                (legacy_shaderProfile shaderStage)])"
    by (rule dxbc_from_spirv_trace)
qed

text \<open>
  In the example environment the transpiler answers the same at both shader models: the
  text \<^verbatim>\<open>translated\<close> and the cleansed entry point \<^verbatim>\<open>main0\<close>.
\<close>

lemma example_transpile_60:
  "SDL_ShaderCross_INTERNAL_TranspileFromSPIRV (spvc (example_environment vertex_module))
     (uninitialised_binding (example_environment vertex_module)) SPVC_BACKEND_HLSL 60
     SDL_SHADERCROSS_SHADERSTAGE_VERTEX example_code (length example_code) ''main'' =
   Some \<lparr>spvc_context = [], translated_source = ''translated'',
         cleansed_entrypoint = ''main0''\<rparr>"
  by code_simp

lemma example_transpile_51:
  "SDL_ShaderCross_INTERNAL_TranspileFromSPIRV (spvc (example_environment vertex_module))
     (uninitialised_binding (example_environment vertex_module)) SPVC_BACKEND_HLSL 51
     SDL_SHADERCROSS_SHADERSTAGE_VERTEX example_code 20 ''main'' =
   Some \<lparr>spvc_context = [], translated_source = ''translated'',
         cleansed_entrypoint = ''main0''\<rparr>"
  by code_simp

text \<open>
  With every backend present, the HLSL entry makes three backend calls (DXC to SPIR-V, the
  transpiler at shader model 6.0, the legacy compiler on the transpiled text) and the
  SPIR-V entry two (the transpiler at shader model 5.1, the legacy compiler).
\<close>

theorem dxbc_roundtrip_only_from_hlsl_witness:
  "SDL_ShaderCross_CompileDXBCFromHLSL (example_environment vertex_module) ''hlsl'' ''main'' None
     SDL_SHADERCROSS_SHADERSTAGE_VERTEX =
     ([DXC_Compile ''hlsl'' [''-E'', ''main'', ''-T'', ''vs_6_0'', ''-spirv''],
       SPVC_Transpile SPVC_BACKEND_HLSL 60 SDL_SHADERCROSS_SHADERSTAGE_VERTEX example_code ''main'',
       D3D_Compile ''translated'' ''main'' ''vs_5_1''],
      Inr (Some [0x44, 0x58, 0x42, 0x43])) \<and>
   fst (SDL_ShaderCross_CompileDXBCFromSPIRV (example_environment vertex_module) example_code 20
          ''main'' SDL_SHADERCROSS_SHADERSTAGE_VERTEX) =
     [SPVC_Transpile SPVC_BACKEND_HLSL 51 SDL_SHADERCROSS_SHADERSTAGE_VERTEX example_code ''main'',
      D3D_Compile ''translated'' ''main0'' ''vs_5_1'']"
proof -
  note inst = dxbc_roundtrip_only_from_hlsl[of "example_environment vertex_module" "''hlsl''"
      "''main''" None SDL_SHADERCROSS_SHADERSTAGE_VERTEX example_code 20]
  have args: "dxc_args ''main'' None SDL_SHADERCROSS_SHADERSTAGE_VERTEX True =
      [''-E'', ''main'', ''-T'', ''vs_6_0'', ''-spirv'']"
    by (simp add: dxc_args_def)
  have env: "SDL_GPU_SHADERCROSS_DXC (example_environment vertex_module)"
    "dxc_instances_ok (example_environment vertex_module)"
    "dxc_Compile (example_environment vertex_module) ''hlsl''
       [''-E'', ''main'', ''-T'', ''vs_6_0'', ''-spirv''] = Some example_code"
    "D3DCompile (example_environment vertex_module) =
       Some (\<lambda>source entrypoint profile. Some [0x44, 0x58, 0x42, 0x43])"
    by (simp_all add: example_environment_def)
  from inst have "SDL_ShaderCross_CompileDXBCFromHLSL (example_environment vertex_module)
      ''hlsl'' ''main'' None SDL_SHADERCROSS_SHADERSTAGE_VERTEX =
     (if SDL_GPU_SHADERCROSS_DXC (example_environment vertex_module) \<and>
         dxc_instances_ok (example_environment vertex_module)
      then (case dxc_Compile (example_environment vertex_module) ''hlsl''
                   (dxc_args ''main'' None SDL_SHADERCROSS_SHADERSTAGE_VERTEX True) of
              None \<Rightarrow>
                ([DXC_Compile ''hlsl''
                    (dxc_args ''main'' None SDL_SHADERCROSS_SHADERSTAGE_VERTEX True)],
                 Inr None)
            | Some spirv \<Rightarrow>
                (case SDL_ShaderCross_INTERNAL_TranspileFromSPIRV
                        (spvc (example_environment vertex_module))
                        (uninitialised_binding (example_environment vertex_module))
                        SPVC_BACKEND_HLSL 60 SDL_SHADERCROSS_SHADERSTAGE_VERTEX spirv
                        (length spirv) ''main'' of
                   None \<Rightarrow>
                     ([DXC_Compile ''hlsl''
                         (dxc_args ''main'' None SDL_SHADERCROSS_SHADERSTAGE_VERTEX True),
                       SPVC_Transpile SPVC_BACKEND_HLSL 60 SDL_SHADERCROSS_SHADERSTAGE_VERTEX
                         spirv ''main''],
                      Inl NullPointerDereference)
                 | Some ctx \<Rightarrow>
                     (case D3DCompile (example_environment vertex_module) of
                        None \<Rightarrow>
                          ([DXC_Compile ''hlsl''
                              (dxc_args ''main'' None SDL_SHADERCROSS_SHADERSTAGE_VERTEX True),
                            SPVC_Transpile SPVC_BACKEND_HLSL 60
                              SDL_SHADERCROSS_SHADERSTAGE_VERTEX spirv ''main''],
                           Inr None)
                      | Some compile \<Rightarrow>
                          ([DXC_Compile ''hlsl''
                              (dxc_args ''main'' None SDL_SHADERCROSS_SHADERSTAGE_VERTEX True),
                            SPVC_Transpile SPVC_BACKEND_HLSL 60
                              SDL_SHADERCROSS_SHADERSTAGE_VERTEX spirv ''main'',
                            D3D_Compile (translated_source ctx) ''main''
                              (legacy_shaderProfile SDL_SHADERCROSS_SHADERSTAGE_VERTEX)],
                           Inr (compile (translated_source ctx) ''main''
                                  (legacy_shaderProfile SDL_SHADERCROSS_SHADERSTAGE_VERTEX))))))
      else ([], Inr None))"
    by (rule conjunct1)
  then have first: "SDL_ShaderCross_CompileDXBCFromHLSL (example_environment vertex_module)
      ''hlsl'' ''main'' None SDL_SHADERCROSS_SHADERSTAGE_VERTEX =
     ([DXC_Compile ''hlsl'' [''-E'', ''main'', ''-T'', ''vs_6_0'', ''-spirv''],
       SPVC_Transpile SPVC_BACKEND_HLSL 60 SDL_SHADERCROSS_SHADERSTAGE_VERTEX example_code ''main'',
       D3D_Compile ''translated'' ''main'' ''vs_5_1''],
      Inr (Some [0x44, 0x58, 0x42, 0x43]))"
    by (simp add: args env example_transpile_60 legacy_shaderProfile_def)
  from inst example_transpile_51
  have "fst (SDL_ShaderCross_CompileDXBCFromSPIRV (example_environment vertex_module)
          example_code 20 ''main'' SDL_SHADERCROSS_SHADERSTAGE_VERTEX) =
     SPVC_Transpile SPVC_BACKEND_HLSL 51 SDL_SHADERCROSS_SHADERSTAGE_VERTEX example_code ''main'' #
     (case D3DCompile (example_environment vertex_module) of
        None \<Rightarrow> []
      | Some compile \<Rightarrow>
          [D3D_Compile (translated_source \<lparr>spvc_context = [], translated_source = ''translated'',
               cleansed_entrypoint = ''main0''\<rparr>)
             (cleansed_entrypoint \<lparr>spvc_context = [], translated_source = ''translated'',
               cleansed_entrypoint = ''main0''\<rparr>)
             (legacy_shaderProfile SDL_SHADERCROSS_SHADERSTAGE_VERTEX)])"
    by blast
  then have second: "fst (SDL_ShaderCross_CompileDXBCFromSPIRV (example_environment vertex_module)
          example_code 20 ''main'' SDL_SHADERCROSS_SHADERSTAGE_VERTEX) =
     [SPVC_Transpile SPVC_BACKEND_HLSL 51 SDL_SHADERCROSS_SHADERSTAGE_VERTEX example_code ''main'',
      D3D_Compile ''translated'' ''main0'' ''vs_5_1'']"
    by (simp add: example_environment_def legacy_shaderProfile_def)
  from first second show ?thesis by (rule conjI)
qed

section \<open>Backend loader\<close>

lemmas format_defs =
  contains_format_def SDL_GPU_SHADERFORMAT_SPIRV_def SDL_GPU_SHADERFORMAT_DXBC_def
  SDL_GPU_SHADERFORMAT_DXIL_def SDL_GPU_SHADERFORMAT_MSL_def

lemma d3dcompiler_after_load:
  "d3dcompiler_dll (fst (load_d3dcompiler cfg os s)) \<noteq> None \<longleftrightarrow> legacy_compiler_loads cfg os"
  by (auto simp: load_d3dcompiler_def legacy_compiler_loads_def Let_def split: option.splits)

lemma d3dcompiler_after_Init:
  "d3dcompiler_dll (fst (SDL_ShaderCross_Init cfg os s)) \<noteq> None \<longleftrightarrow> legacy_compiler_loads cfg os"
  using d3dcompiler_after_load
  by (simp add: SDL_ShaderCross_Init_def split: prod.splits) (metis fst_conv)

lemma spirvcross_keeps_d3dcompiler:
  "d3dcompiler_dll (fst (load_spirvcross_part002 cfg os s)) = d3dcompiler_dll s"
  by (simp add: load_spirvcross_part002_def Let_def split: option.splits prod.splits)

lemma d3dcompiler_after_Init_part002:
  "d3dcompiler_dll (fst (SDL_ShaderCross_Init_part002 cfg os s)) \<noteq> None \<longleftrightarrow>
   legacy_compiler_loads cfg os"
proof -
  obtain s1 u1 where a: "load_dxcompiler_part002 cfg os s = (s1, u1)" by fastforce
  obtain s2 u2 where b: "resolve_DxcCreateInstance os s1 = (s2, u2)" by fastforce
  obtain s3 u3 where c: "load_d3dcompiler cfg os s2 = (s3, u3)" by fastforce
  obtain s4 u4 where d: "load_spirvcross_part002 cfg os s3 = (s4, u4)" by fastforce
  have "d3dcompiler_dll s4 = d3dcompiler_dll s3"
    using spirvcross_keeps_d3dcompiler[of cfg os s3] d by simp
  moreover have "d3dcompiler_dll s3 \<noteq> None \<longleftrightarrow> legacy_compiler_loads cfg os"
    using d3dcompiler_after_load[of cfg os s2] c by simp
  ultimately show ?thesis
    by (simp add: SDL_ShaderCross_Init_part002_def a b c d)
qed

text \<open>
  One use of \<^verbatim>\<open>CHECK_FUNC\<close> keeps \<^verbatim>\<open>spvc_loaded\<close> exactly when the function is
  available, and availability of the other functions is not affected by it; so after the
  eleven uses \<^verbatim>\<open>spvc_loaded\<close> says that all eleven are available.
\<close>

lemma CHECK_FUNC_step:
  "CHECK_FUNC os dll func (table, loaded) =
     (if table func = None then table(func := SDL_LoadFunction os dll func) else table,
      loaded \<and> resolves os dll table func)"
  by (simp add: CHECK_FUNC_def resolves_def Let_def)

lemma resolves_after_step:
  "resolves os dll
     (if table func = None then table(func := SDL_LoadFunction os dll func) else table) =
   resolves os dll table"
  by (rule ext) (simp add: resolves_def)

lemma CHECK_FUNC_fold:
  "snd (fold (CHECK_FUNC os dll) names (table, loaded)) \<longleftrightarrow>
   loaded \<and> list_all (resolves os dll table) names"
proof (induction names arbitrary: table loaded)
  case Nil
  show ?case by simp
next
  case (Cons n ns)
  have "snd (fold (CHECK_FUNC os dll) (n # ns) (table, loaded)) \<longleftrightarrow>
      snd (fold (CHECK_FUNC os dll) ns
             (if table n = None then table(n := SDL_LoadFunction os dll n) else table,
              loaded \<and> resolves os dll table n))"
    by (simp only: fold_simps CHECK_FUNC_step)
  also have "\<dots> \<longleftrightarrow> (loaded \<and> resolves os dll table n) \<and>
      list_all (resolves os dll
        (if table n = None then table(n := SDL_LoadFunction os dll n) else table)) ns"
    by (rule Cons.IH)
  also have "\<dots> \<longleftrightarrow> loaded \<and> list_all (resolves os dll table) (n # ns)"
    by (simp add: resolves_after_step)
  finally show ?case .
qed

lemma spirvcross_after_load:
  "spirvcross_present cfg (fst (load_spirvcross_part002 cfg os s)) \<longleftrightarrow> spirvcross_loads cfg os s"
proof (cases "SDL_GPU_SHADERCROSS_STATIC cfg")
  case True
  then show ?thesis by (simp add: spirvcross_present_def spirvcross_loads_def)
next
  case False
  show ?thesis
  proof (cases "SDL_LoadObject os (SDL_GPU_SPIRV_CROSS_DLL cfg)")
    case None
    with False show ?thesis
      by (simp add: spirvcross_present_def spirvcross_loads_def load_spirvcross_part002_def)
  next
    case (Some dll)
    obtain table loaded where
      f: "fold (CHECK_FUNC os dll) spvc_function_names (SDL_spvc s, True) = (table, loaded)"
      by fastforce
    have l: "loaded \<longleftrightarrow> list_all (resolves os dll (SDL_spvc s)) spvc_function_names"
      using CHECK_FUNC_fold[of os dll spvc_function_names "SDL_spvc s" True] f by simp
    have "spirvcross_dll (fst (load_spirvcross_part002 cfg os s)) \<noteq> None \<longleftrightarrow> loaded"
      using False Some f by (cases loaded) (simp_all add: load_spirvcross_part002_def)
    with False Some l show ?thesis
      by (simp add: spirvcross_present_def spirvcross_loads_def)
  qed
qed

lemma spirvcross_keeps_dxcompiler:
  "dxcompiler_dll (fst (load_spirvcross_part002 cfg os s)) = dxcompiler_dll s"
  by (simp add: load_spirvcross_part002_def Let_def split: option.splits prod.splits)

lemma d3dcompiler_keeps_dxcompiler:
  "dxcompiler_dll (fst (load_d3dcompiler cfg os s)) = dxcompiler_dll s"
  by (simp add: load_d3dcompiler_def Let_def split: option.splits)

lemma dxcompiler_after_load:
  "dxcompiler_dll
     (fst (resolve_DxcCreateInstance os (fst (load_dxcompiler_part002 cfg os s)))) \<noteq> None \<longleftrightarrow>
   hlsl_compiler_loads cfg os"
  by (auto simp: resolve_DxcCreateInstance_def load_dxcompiler_part002_def hlsl_compiler_loads_def
      Let_def split: option.splits)

lemma Init_part002_state:
  "fst (SDL_ShaderCross_Init_part002 cfg os s) =
     fst (load_spirvcross_part002 cfg os
       (fst (load_d3dcompiler cfg os
         (fst (resolve_DxcCreateInstance os (fst (load_dxcompiler_part002 cfg os s)))))))"
  by (simp add: SDL_ShaderCross_Init_part002_def split: prod.splits)

lemma compilers_keep_spvc:
  "SDL_spvc (fst (load_d3dcompiler cfg os
      (fst (resolve_DxcCreateInstance os (fst (load_dxcompiler_part002 cfg os s)))))) =
   SDL_spvc s"
  by (simp add: load_d3dcompiler_def resolve_DxcCreateInstance_def load_dxcompiler_part002_def
      Let_def split: option.splits)

lemma spirvcross_after_Init_part002:
  "spirvcross_present cfg (fst (SDL_ShaderCross_Init_part002 cfg os s)) \<longleftrightarrow>
   spirvcross_loads cfg os s"
proof -
  have "spirvcross_loads cfg os (fst (load_d3dcompiler cfg os
      (fst (resolve_DxcCreateInstance os (fst (load_dxcompiler_part002 cfg os s)))))) \<longleftrightarrow>
      spirvcross_loads cfg os s"
    unfolding spirvcross_loads_def compilers_keep_spvc ..
  then show ?thesis
    unfolding Init_part002_state spirvcross_after_load .
qed

lemma dxcompiler_after_Init_part002:
  "dxcompiler_dll (fst (SDL_ShaderCross_Init_part002 cfg os s)) \<noteq> None \<longleftrightarrow>
   hlsl_compiler_loads cfg os"
  unfolding Init_part002_state spirvcross_keeps_dxcompiler d3dcompiler_keeps_dxcompiler
  by (rule dxcompiler_after_load)

text \<open>What each getter reports, as a function of the handles it reads.\<close>

lemma GetSPIRVShaderFormats_reads:
  "contains_format (SDL_ShaderCross_GetSPIRVShaderFormats s) SDL_GPU_SHADERFORMAT_SPIRV"
  "contains_format (SDL_ShaderCross_GetSPIRVShaderFormats s) SDL_GPU_SHADERFORMAT_MSL"
  "contains_format (SDL_ShaderCross_GetSPIRVShaderFormats s) SDL_GPU_SHADERFORMAT_DXBC \<longleftrightarrow>
     d3dcompiler_dll s \<noteq> None"
  by (simp_all add: SDL_ShaderCross_GetSPIRVShaderFormats_def format_defs)

lemma GetSPIRVShaderFormats_part002_reads:
  "contains_format (SDL_ShaderCross_GetSPIRVShaderFormats_part002 cfg s)
     SDL_GPU_SHADERFORMAT_SPIRV"
  "contains_format (SDL_ShaderCross_GetSPIRVShaderFormats_part002 cfg s)
     SDL_GPU_SHADERFORMAT_MSL \<longleftrightarrow> spirvcross_present cfg s"
  "contains_format (SDL_ShaderCross_GetSPIRVShaderFormats_part002 cfg s)
     SDL_GPU_SHADERFORMAT_DXIL \<longleftrightarrow> spirvcross_present cfg s \<and> dxcompiler_dll s \<noteq> None"
  "contains_format (SDL_ShaderCross_GetSPIRVShaderFormats_part002 cfg s)
     SDL_GPU_SHADERFORMAT_DXBC \<longleftrightarrow> spirvcross_present cfg s \<and> d3dcompiler_dll s \<noteq> None"
  by (simp_all add: SDL_ShaderCross_GetSPIRVShaderFormats_part002_def spirvcross_present_def
      format_defs)

text \<open>
  Claim C6 as amended, for the state \<^verbatim>\<open>Init\<close> leaves, whatever state it starts from and
  whatever the operating system answers.  In the unit of part\_001, which links
  SPIRV-Cross, the reported set contains SPIR-V and MSL, and contains DXBC exactly when the
  legacy compiler library loaded; nothing is stated of DXIL there.  In the unit of
  part\_002, which loads SPIRV-Cross at run time, the set contains SPIR-V; it contains MSL
  exactly when SPIRV-Cross loaded, DXIL exactly when SPIRV-Cross and the HLSL compiler
  library loaded, and DXBC exactly when SPIRV-Cross and the legacy compiler library loaded.
\<close>

theorem spirv_shader_formats:
  "contains_format
     (SDL_ShaderCross_GetSPIRVShaderFormats (fst (SDL_ShaderCross_Init cfg os s)))
     SDL_GPU_SHADERFORMAT_SPIRV \<and>
   contains_format
     (SDL_ShaderCross_GetSPIRVShaderFormats (fst (SDL_ShaderCross_Init cfg os s)))
     SDL_GPU_SHADERFORMAT_MSL \<and>
   (contains_format
      (SDL_ShaderCross_GetSPIRVShaderFormats (fst (SDL_ShaderCross_Init cfg os s)))
      SDL_GPU_SHADERFORMAT_DXBC \<longleftrightarrow> legacy_compiler_loads cfg os) \<and>
   contains_format
     (SDL_ShaderCross_GetSPIRVShaderFormats_part002 cfg
        (fst (SDL_ShaderCross_Init_part002 cfg os s)))
     SDL_GPU_SHADERFORMAT_SPIRV \<and>
   (contains_format
      (SDL_ShaderCross_GetSPIRVShaderFormats_part002 cfg
         (fst (SDL_ShaderCross_Init_part002 cfg os s)))
      SDL_GPU_SHADERFORMAT_MSL \<longleftrightarrow> spirvcross_loads cfg os s) \<and>
   (contains_format
      (SDL_ShaderCross_GetSPIRVShaderFormats_part002 cfg
         (fst (SDL_ShaderCross_Init_part002 cfg os s)))
      SDL_GPU_SHADERFORMAT_DXIL \<longleftrightarrow>
    spirvcross_loads cfg os s \<and> hlsl_compiler_loads cfg os) \<and>
   (contains_format
      (SDL_ShaderCross_GetSPIRVShaderFormats_part002 cfg
         (fst (SDL_ShaderCross_Init_part002 cfg os s)))
      SDL_GPU_SHADERFORMAT_DXBC \<longleftrightarrow>
    spirvcross_loads cfg os s \<and> legacy_compiler_loads cfg os)"
  unfolding GetSPIRVShaderFormats_reads GetSPIRVShaderFormats_part002_reads
    d3dcompiler_after_Init d3dcompiler_after_Init_part002 spirvcross_after_Init_part002
    dxcompiler_after_Init_part002
  by (simp add: GetSPIRVShaderFormats_reads(1,2) GetSPIRVShaderFormats_part002_reads(1))

text \<open>
  On the Linux host with every library present, all three libraries load from the initial
  state, so the unit of part\_001 reports DXBC and the unit of part\_002 reports MSL, DXIL
  and DXBC.
\<close>

lemma all_libraries_load:
  "legacy_compiler_loads linux_config all_libraries"
  "hlsl_compiler_loads linux_config all_libraries"
  "spirvcross_loads linux_config all_libraries initial_loader_state"
  by code_simp+

theorem spirv_shader_formats_witness:
  "contains_format
     (SDL_ShaderCross_GetSPIRVShaderFormats
        (fst (SDL_ShaderCross_Init linux_config all_libraries initial_loader_state)))
     SDL_GPU_SHADERFORMAT_DXBC \<and>
   contains_format
     (SDL_ShaderCross_GetSPIRVShaderFormats_part002 linux_config
        (fst (SDL_ShaderCross_Init_part002 linux_config all_libraries initial_loader_state)))
     SDL_GPU_SHADERFORMAT_MSL \<and>
   contains_format
     (SDL_ShaderCross_GetSPIRVShaderFormats_part002 linux_config
        (fst (SDL_ShaderCross_Init_part002 linux_config all_libraries initial_loader_state)))
     SDL_GPU_SHADERFORMAT_DXIL \<and>
   contains_format
     (SDL_ShaderCross_GetSPIRVShaderFormats_part002 linux_config
        (fst (SDL_ShaderCross_Init_part002 linux_config all_libraries initial_loader_state)))
     SDL_GPU_SHADERFORMAT_DXBC"
  using spirv_shader_formats[of linux_config all_libraries initial_loader_state]
  by (simp add: all_libraries_load)

text \<open>
  Claim C6 as stated fails on the unit of part\_002.  On the Linux host where the HLSL
  compiler and the legacy compiler libraries load and SPIRV-Cross does not, both handles are
  set after \<^verbatim>\<open>Init\<close>, and the reported set contains neither MSL nor DXIL nor DXBC; where no
  library loads, MSL is not reported either.
\<close>

theorem spirv_shader_formats_counterexample:
  "dxcompiler_dll (fst (SDL_ShaderCross_Init_part002 linux_config no_spirvcross
      initial_loader_state)) = Some 1 \<and>
   d3dcompiler_dll (fst (SDL_ShaderCross_Init_part002 linux_config no_spirvcross
      initial_loader_state)) = Some 3 \<and>
   \<not> contains_format
       (SDL_ShaderCross_GetSPIRVShaderFormats_part002 linux_config
          (fst (SDL_ShaderCross_Init_part002 linux_config no_spirvcross initial_loader_state)))
       SDL_GPU_SHADERFORMAT_MSL \<and>
   \<not> contains_format
       (SDL_ShaderCross_GetSPIRVShaderFormats_part002 linux_config
          (fst (SDL_ShaderCross_Init_part002 linux_config no_spirvcross initial_loader_state)))
       SDL_GPU_SHADERFORMAT_DXIL \<and>
   \<not> contains_format
       (SDL_ShaderCross_GetSPIRVShaderFormats_part002 linux_config
          (fst (SDL_ShaderCross_Init_part002 linux_config no_spirvcross initial_loader_state)))
       SDL_GPU_SHADERFORMAT_DXBC \<and>
   \<not> contains_format
       (SDL_ShaderCross_GetSPIRVShaderFormats_part002 linux_config
          (fst (SDL_ShaderCross_Init_part002 linux_config no_libraries initial_loader_state)))
       SDL_GPU_SHADERFORMAT_MSL"
  by code_simp

lemmas loader_defs =
  SDL_ShaderCross_Init_def SDL_ShaderCross_Quit_def load_d3dcompiler_def
  resolve_DxcCreateInstance_def unload_d3dcompiler_def unload_dxcompiler_def
  initial_loader_state_def

text \<open>
  The unit of part\_001 does reset its state: \<^verbatim>\<open>Quit\<close> after an \<^verbatim>\<open>Init\<close> from the reset state
  gives the reset state back, and a second \<^verbatim>\<open>Quit\<close> changes nothing and unloads nothing.
\<close>

lemma Quit_after_Init:
  "fst (SDL_ShaderCross_Quit cfg (fst (SDL_ShaderCross_Init cfg os initial_loader_state))) =
   initial_loader_state"
  by (auto simp: loader_defs Let_def split: option.splits prod.splits)

lemma Quit_twice:
  "SDL_ShaderCross_Quit cfg (fst (SDL_ShaderCross_Quit cfg s)) =
   (fst (SDL_ShaderCross_Quit cfg s), [])"
  by (auto simp: loader_defs Let_def split: option.splits prod.splits)

text \<open>
  Claim C10 fails on the unit of part\_002.  With the default build symbols, after an
  \<^verbatim>\<open>Init\<close> in which every library loads, \<^verbatim>\<open>Quit\<close> unloads the legacy and the HLSL compiler
  libraries only: the SPIRV-Cross handle and the resolved \<^verbatim>\<open>SDL_spvc_*\<close> pointers are still
  set when it returns.
\<close>

theorem quit_keeps_spirvcross_loaded:
  "spirvcross_dll (fst (SDL_ShaderCross_Init_part002 linux_config all_libraries
      initial_loader_state)) = Some 4 \<and>
   snd (SDL_ShaderCross_Quit_part002 linux_config
          (fst (SDL_ShaderCross_Init_part002 linux_config all_libraries initial_loader_state))) =
     [3, 1] \<and>
   spirvcross_dll
     (fst (SDL_ShaderCross_Quit_part002 linux_config
        (fst (SDL_ShaderCross_Init_part002 linux_config all_libraries initial_loader_state)))) =
     Some 4 \<and>
   SDL_spvc
     (fst (SDL_ShaderCross_Quit_part002 linux_config
        (fst (SDL_ShaderCross_Init_part002 linux_config all_libraries initial_loader_state))))
     ''spvc_context_create'' = Some 419"
  by code_simp

section \<open>Distinctness of the assigned Metal indices\<close>

lemma follow_equal:
  assumes "list_all2 R rs ks"
    and "\<And>r k. R r k \<Longrightarrow> index k = base + binding k"
  shows "indices_follow_bindings index ks"
  unfolding indices_follow_bindings_def
proof (intro ballI)
  fix k k' assume "k \<in> set ks" "k' \<in> set ks"
  then obtain r r' where "R r k" "R r' k'"
    using assms(1) by (metis in_set_conv_nth list_all2_conv_all_nth)
  then have "index k = base + binding k" "index k' = base + binding k'"
    using assms(2) by blast+
  then show "index k = index k' \<longleftrightarrow> binding k = binding k'" by simp
qed

lemma counted_distinct:
  assumes c: "counted start R rs ks"
    and idx: "\<And>T r k. R T r k \<Longrightarrow> index k = T"
    and bound: "start + length rs \<le> 2 ^ 32"
  shows "distinct (map index ks)"
proof -
  from c have len: "length ks = length rs"
    by (simp add: counted_def list_all2_lengthD[symmetric])
  have at: "index (ks ! i) = (of_nat (start + i) :: u32)" if "i < length rs" for i
  proof -
    from c that have "R (of_nat (fst (enumerate start rs ! i))) (snd (enumerate start rs ! i)) (ks ! i)"
      by (simp add: counted_def list_all2_conv_all_nth)
    with that show ?thesis by (simp add: nth_enumerate_eq idx)
  qed
  show ?thesis
    unfolding distinct_conv_nth
  proof (intro allI impI)
    fix i j assume i: "i < length (map index ks)" and j: "j < length (map index ks)" and ne: "i \<noteq> j"
    from i j len have i': "i < length rs" and j': "j < length rs" by simp_all
    have "(of_nat (start + i) :: u32) \<noteq> of_nat (start + j)"
    proof
      assume eq: "(of_nat (start + i) :: u32) = of_nat (start + j)"
      have len32: "LENGTH(32) = 32" by simp
      have si: "start + i < start + length rs" and sj: "start + j < start + length rs"
        using i' j' by simp_all
      have bi: "start + i < 2 ^ LENGTH(32)"
        unfolding len32 by (rule less_le_trans[OF si bound])
      have bj: "start + j < 2 ^ LENGTH(32)"
        unfolding len32 by (rule less_le_trans[OF sj bound])
      have ui: "unat (of_nat (start + i) :: u32) = start + i"
        by (rule of_nat_inverse[OF refl bi])
      have uj: "unat (of_nat (start + j) :: u32) = start + j"
        by (rule of_nat_inverse[OF refl bj])
      have "start + i = unat (of_nat (start + i) :: u32)" by (rule ui[symmetric])
      also have "\<dots> = unat (of_nat (start + j) :: u32)" by (rule arg_cong[OF eq])
      also have "\<dots> = start + j" by (rule uj)
      finally have "start + i = start + j" .
      with ne show False by simp
    qed
    with at[OF i'] at[OF j'] i j len show "map index ks ! i \<noteq> map index ks ! j"
      by simp
  qed
qed

text \<open>
  Claim C9 as amended.  For a module that MSL remapping accepts: in a graphics stage, two
  resources of the same kind (two texture-samplers, two storage textures, two storage
  buffers or two uniform buffers) are assigned the same Metal index exactly when they have
  the same binding number, so resources of one kind with different binding numbers get
  different indices; in the compute stage, any two texture-samplers are assigned different
  msl\_texture and different msl\_sampler indices (for at most \<open>2 ^ 32\<close> texture-samplers).
  The groups \<open>A\<close>, \<open>B\<close>, \<open>C\<close>, \<open>D\<close> are the bindings registered for the four kinds.
\<close>

theorem msl_indices_within_a_kind:
  assumes parsed: "context_parse_spirv api code (codeSize div 4) = Some ir"
    and compiler: "context_create_compiler ir SPVC_BACKEND_MSL = Some c"
    and ts: "texture_sampler_list c = Some ts"
    and sts: "get_resource_list_for_type c SPVC_RESOURCE_TYPE_STORAGE_IMAGE = Some sts"
    and sbs: "get_resource_list_for_type c SPVC_RESOURCE_TYPE_STORAGE_BUFFER = Some sbs"
    and ubs: "get_resource_list_for_type c SPVC_RESOURCE_TYPE_UNIFORM_BUFFER = Some ubs"
  shows
    "(\<forall>shaderStage ctx.
        shaderStage \<noteq> SDL_SHADERCROSS_SHADERSTAGE_COMPUTE \<and>
        SDL_ShaderCross_INTERNAL_TranspileFromSPIRV api b0 SPVC_BACKEND_MSL shadermodel
          shaderStage code codeSize entrypoint = Some ctx \<longrightarrow>
        (\<exists>A B C D. spvc_context ctx = A @ B @ C @ D \<and>
           list_all2 (graphics_texture_sampler_rule c (execution_model_of shaderStage)) ts A \<and>
           list_all2 (graphics_storage_texture_rule c (execution_model_of shaderStage)
                        (length ts)) sts B \<and>
           list_all2 (graphics_storage_buffer_rule c (execution_model_of shaderStage)) sbs C \<and>
           list_all2 (graphics_uniform_buffer_rule c (execution_model_of shaderStage)
                        (length sbs)) ubs D \<and>
           indices_follow_bindings msl_texture A \<and> indices_follow_bindings msl_sampler A \<and>
           indices_follow_bindings msl_texture B \<and>
           indices_follow_bindings msl_buffer C \<and>
           indices_follow_bindings msl_buffer D)) \<and>
     (\<forall>ctx.
        length ts \<le> 2 ^ 32 \<and>
        SDL_ShaderCross_INTERNAL_TranspileFromSPIRV api b0 SPVC_BACKEND_MSL shadermodel
          SDL_SHADERCROSS_SHADERSTAGE_COMPUTE code codeSize entrypoint = Some ctx \<longrightarrow>
        (\<exists>A rest. spvc_context ctx = A @ rest \<and>
           counted 0 (compute_texture_sampler_rule c SpvExecutionModelKernel) ts A \<and>
           distinct (map msl_texture A) \<and> distinct (map msl_sampler A)))"
proof (intro conjI allI impI)
  fix shaderStage ctx
  assume a: "shaderStage \<noteq> SDL_SHADERCROSS_SHADERSTAGE_COMPUTE \<and>
        SDL_ShaderCross_INTERNAL_TranspileFromSPIRV api b0 SPVC_BACKEND_MSL shadermodel
          shaderStage code codeSize entrypoint = Some ctx"
  let ?em = "execution_model_of shaderStage"
  from a have st: "shaderStage \<noteq> SDL_SHADERCROSS_SHADERSTAGE_COMPUTE"
    and tr: "SDL_ShaderCross_INTERNAL_TranspileFromSPIRV api b0 SPVC_BACKEND_MSL shadermodel
          shaderStage code codeSize entrypoint = Some ctx"
    by simp_all
  from Transpile_msl_remap[OF parsed compiler tr] st
  have "remap_graphics c ?em b0 = Some (spvc_context ctx)"
    by (simp add: msl_remap_def)
  from remap_graphics_Some[OF this] ts sts sbs ubs
  have "graphics_rules c ?em ts sts sbs ubs (spvc_context ctx)" by auto
  then obtain A B C D where split: "spvc_context ctx = A @ B @ C @ D"
    and A: "list_all2 (graphics_texture_sampler_rule c ?em) ts A"
    and B: "list_all2 (graphics_storage_texture_rule c ?em (length ts)) sts B"
    and C: "list_all2 (graphics_storage_buffer_rule c ?em) sbs C"
    and D: "list_all2 (graphics_uniform_buffer_rule c ?em (length sbs)) ubs D"
    unfolding graphics_rules_def by blast
  have "indices_follow_bindings msl_texture A"
    by (rule follow_equal[OF A, where base = 0]) (simp add: graphics_texture_sampler_rule_def)
  moreover have "indices_follow_bindings msl_sampler A"
    by (rule follow_equal[OF A, where base = 0]) (simp add: graphics_texture_sampler_rule_def)
  moreover have "indices_follow_bindings msl_texture B"
    by (rule follow_equal[OF B, where base = "of_nat (length ts)"])
       (simp add: graphics_storage_texture_rule_def)
  moreover have "indices_follow_bindings msl_buffer C"
    by (rule follow_equal[OF C, where base = 0]) (simp add: graphics_storage_buffer_rule_def)
  moreover have "indices_follow_bindings msl_buffer D"
    by (rule follow_equal[OF D, where base = "of_nat (length sbs)"])
       (simp add: graphics_uniform_buffer_rule_def)
  ultimately
  show "\<exists>A B C D. spvc_context ctx = A @ B @ C @ D \<and>
           list_all2 (graphics_texture_sampler_rule c ?em) ts A \<and>
           list_all2 (graphics_storage_texture_rule c ?em (length ts)) sts B \<and>
           list_all2 (graphics_storage_buffer_rule c ?em) sbs C \<and>
           list_all2 (graphics_uniform_buffer_rule c ?em (length sbs)) ubs D \<and>
           indices_follow_bindings msl_texture A \<and> indices_follow_bindings msl_sampler A \<and>
           indices_follow_bindings msl_texture B \<and>
           indices_follow_bindings msl_buffer C \<and>
           indices_follow_bindings msl_buffer D"
    using split A B C D by blast
next
  fix ctx
  assume a: "length ts \<le> 2 ^ 32 \<and>
        SDL_ShaderCross_INTERNAL_TranspileFromSPIRV api b0 SPVC_BACKEND_MSL shadermodel
          SDL_SHADERCROSS_SHADERSTAGE_COMPUTE code codeSize entrypoint = Some ctx"
  then have bound: "0 + length ts \<le> 2 ^ 32" by (simp only: add_0)
  from a have tr: "SDL_ShaderCross_INTERNAL_TranspileFromSPIRV api b0 SPVC_BACKEND_MSL
          shadermodel SDL_SHADERCROSS_SHADERSTAGE_COMPUTE code codeSize entrypoint = Some ctx"
    by simp
  from Transpile_msl_remap[OF parsed compiler tr]
  have "remap_compute c SpvExecutionModelKernel b0 = Some (spvc_context ctx)"
    by (simp add: msl_remap_def execution_model_of_def)
  from remap_compute_Some[OF this] ts sts sbs ubs
  have "compute_rules c SpvExecutionModelKernel ts sts sbs ubs (spvc_context ctx)" by auto
  then obtain A B C D E F where split: "spvc_context ctx = A @ B @ C @ D @ E @ F"
    and A: "counted 0 (compute_texture_sampler_rule c SpvExecutionModelKernel) ts A"
    unfolding compute_rules_def by blast
  have "distinct (map msl_texture A)"
    by (rule counted_distinct[OF A _ bound]) (simp add: compute_texture_sampler_rule_def)
  moreover have "distinct (map msl_sampler A)"
    by (rule counted_distinct[OF A _ bound]) (simp add: compute_texture_sampler_rule_def)
  ultimately
  show "\<exists>A rest. spvc_context ctx = A @ rest \<and>
           counted 0 (compute_texture_sampler_rule c SpvExecutionModelKernel) ts A \<and>
           distinct (map msl_texture A) \<and> distinct (map msl_sampler A)"
    using split A by blast
qed

lemma two_sampler_module_transpiles:
  "SDL_ShaderCross_INTERNAL_TranspileFromSPIRV (example_api two_sampler_module) example_binding
     SPVC_BACKEND_MSL 0 SDL_SHADERCROSS_SHADERSTAGE_VERTEX example_code 20 ''main'' =
   Some \<lparr>spvc_context = two_sampler_bindings SpvExecutionModelVertex,
         translated_source = ''translated'', cleansed_entrypoint = ''main0''\<rparr>"
  "SDL_ShaderCross_INTERNAL_TranspileFromSPIRV (example_api two_sampler_module) example_binding
     SPVC_BACKEND_MSL 0 SDL_SHADERCROSS_SHADERSTAGE_COMPUTE example_code 20 ''main'' =
   Some \<lparr>spvc_context = two_sampler_bindings SpvExecutionModelKernel,
         translated_source = ''translated'', cleansed_entrypoint = ''main0''\<rparr>"
  by code_simp+

theorem msl_indices_within_a_kind_witness:
  "indices_follow_bindings msl_texture (two_sampler_bindings SpvExecutionModelVertex) \<and>
   indices_follow_bindings msl_sampler (two_sampler_bindings SpvExecutionModelVertex) \<and>
   distinct (map msl_texture (two_sampler_bindings SpvExecutionModelKernel)) \<and>
   distinct (map msl_sampler (two_sampler_bindings SpvExecutionModelKernel))"
proof -
  have parsed: "context_parse_spirv (example_api two_sampler_module) example_code (20 div 4) =
      Some \<lparr>context_create_compiler = (\<lambda>backend. Some two_sampler_module)\<rparr>"
    by (simp add: example_defs)
  have compiler: "context_create_compiler
      \<lparr>context_create_compiler = (\<lambda>backend. Some two_sampler_module)\<rparr>
      SPVC_BACKEND_MSL = Some two_sampler_module"
    by simp
  have lists: "texture_sampler_list two_sampler_module = Some [1, 2]"
    "get_resource_list_for_type two_sampler_module SPVC_RESOURCE_TYPE_STORAGE_IMAGE = Some []"
    "get_resource_list_for_type two_sampler_module SPVC_RESOURCE_TYPE_STORAGE_BUFFER = Some []"
    "get_resource_list_for_type two_sampler_module SPVC_RESOURCE_TYPE_UNIFORM_BUFFER = Some []"
    by (simp_all add: two_sampler_module_def two_sampler_lists_def example_defs)
  note inst = msl_indices_within_a_kind[OF parsed compiler lists,
      of example_binding 0 "''main''"]
  have small: "length [1 :: SpvId, 2] \<le> 2 ^ 32" by simp
  from inst two_sampler_module_transpiles(1)
  obtain A B C D where g: "two_sampler_bindings SpvExecutionModelVertex = A @ B @ C @ D"
    "list_all2 (graphics_storage_texture_rule two_sampler_module
        (execution_model_of SDL_SHADERCROSS_SHADERSTAGE_VERTEX) (length [1 :: SpvId, 2])) [] B"
    "list_all2 (graphics_storage_buffer_rule two_sampler_module
        (execution_model_of SDL_SHADERCROSS_SHADERSTAGE_VERTEX)) [] C"
    "list_all2 (graphics_uniform_buffer_rule two_sampler_module
        (execution_model_of SDL_SHADERCROSS_SHADERSTAGE_VERTEX) (length ([] :: SpvId list))) [] D"
    "indices_follow_bindings msl_texture A" "indices_follow_bindings msl_sampler A"
    by force
  then have A: "A = two_sampler_bindings SpvExecutionModelVertex" by simp
  from inst two_sampler_module_transpiles(2) small
  obtain A' rest where c: "two_sampler_bindings SpvExecutionModelKernel = A' @ rest"
    "counted 0 (compute_texture_sampler_rule two_sampler_module SpvExecutionModelKernel)
       [1, 2] A'"
    "distinct (map msl_texture A')" "distinct (map msl_sampler A')"
    by force
  from c(2) have "length A' = 2"
    by (simp add: counted_def list_all2_lengthD[symmetric])
  moreover have "length (A' @ rest) = 2"
    unfolding c(1)[symmetric] by (simp add: two_sampler_bindings_def)
  ultimately have "rest = []" by simp
  with c(1) have A': "A' = two_sampler_bindings SpvExecutionModelKernel"
    by simp
  from g(5,6) c(3,4) show ?thesis unfolding A A' by blast
qed

text \<open>
  Claim C9 as stated fails.  The compute module in the conventional layout is accepted;
  its two storage textures (resources 2 and 4) both get msl\_texture 2, and its two storage
  buffers and its uniform buffer (resources 3, 5 and 6) all get msl\_buffer 2.  The vertex
  module with a storage buffer at (0, 1) and a uniform buffer at (1, 0) is accepted; both
  buffers get msl\_buffer 1.
\<close>

theorem msl_indices_collide:
  "SDL_ShaderCross_INTERNAL_TranspileFromSPIRV (example_api compute_module) example_binding
     SPVC_BACKEND_MSL 0 SDL_SHADERCROSS_SHADERSTAGE_COMPUTE example_code 20 ''main'' =
   Some \<lparr>spvc_context = compute_module_bindings, translated_source = ''translated'',
         cleansed_entrypoint = ''main0''\<rparr> \<and>
   map (\<lambda>k. (desc_set k, binding k, msl_texture k)) (take 2 (drop 1 compute_module_bindings)) =
     [(0, 1, 2), (1, 0, 2)] \<and>
   map (\<lambda>k. (desc_set k, binding k, msl_buffer k)) (drop 3 compute_module_bindings) =
     [(0, 2, 2), (1, 1, 2), (2, 0, 2)] \<and>
   map (\<lambda>k. (desc_set k, binding k, msl_buffer k))
     (drop 1 (spvc_context (the
        (SDL_ShaderCross_INTERNAL_TranspileFromSPIRV (example_api buffer_module) example_binding
           SPVC_BACKEND_MSL 0 SDL_SHADERCROSS_SHADERSTAGE_VERTEX example_code 20 ''main'')))) =
     [(0, 1, 1), (1, 0, 1)]"
  by code_simp

end
